theory Spec2Isabelle
  imports Complex_Main "HOL-Library.Char_ord" "HOL-Library.List_Lexorder"
begin

section \<open>JavaScript values\<close>

text \<open>
  Strings are lists of characters (the ASCII range of a JavaScript string); numbers are
  exact reals, integers where the code only ever produces integers (counts, timestamps in
  milliseconds). The pseudo-random source \<open>Math.random\<close>, the text backend and the id
  generator are oracles: sequences of replies consumed call by call.
\<close>

definition lowerChar :: "char \<Rightarrow> char" where
  "lowerChar c =
     (if c \<in> set ''ABCDEFGHIJKLMNOPQRSTUVWXYZ''
      then (case c of Char b0 b1 b2 b3 b4 b5 b6 b7 \<Rightarrow> Char b0 b1 b2 b3 b4 True b6 b7)
      else c)"

definition toLowerCase :: "string \<Rightarrow> string" where
  "toLowerCase s = map lowerChar s"

fun startsWith :: "string \<Rightarrow> string \<Rightarrow> bool" where
  "startsWith s [] = True"
| "startsWith [] (c # cs) = False"
| "startsWith (d # ds) (c # cs) = (d = c \<and> startsWith ds cs)"

text \<open>\<open>s.includes(t)\<close>: \<open>t\<close> occurs in \<open>s\<close> as a contiguous substring.\<close>

fun js_includes :: "string \<Rightarrow> string \<Rightarrow> bool" where
  "js_includes [] t = (t = [])"
| "js_includes (c # cs) t = (startsWith (c # cs) t \<or> js_includes cs t)"

text \<open>The characters matched by \<open>\s\<close> below code point 256.\<close>

definition isSpace :: "char \<Rightarrow> bool" where
  "isSpace c = (c \<in> set [CHR 0x09, CHR 0x0A, CHR 0x0B, CHR 0x0C, CHR 0x0D, CHR 0x20, CHR 0xA0])"

text \<open>
  \<open>s.split(/\s+/)\<close>: the pieces between maximal runs of white space; a leading or a
  trailing run leaves an empty piece, and the empty string splits into one empty piece.
\<close>

function splitWs :: "string \<Rightarrow> string \<Rightarrow> string list" where
  "splitWs cur [] = [rev cur]"
| "splitWs cur (c # cs) =
     (if isSpace c then rev cur # splitWs [] (dropWhile isSpace cs)
      else splitWs (c # cur) cs)"
  by pat_completeness auto
termination
  by (relation "measure (\<lambda>(cur, s). length s)")
     (auto simp: length_dropWhile_le less_Suc_eq_le)

definition split_whitespace :: "string \<Rightarrow> string list" where
  "split_whitespace s = splitWs [] s"

text \<open>\<open>new Set(xs)\<close>, as the list of its elements in insertion order.\<close>

definition js_Set :: "'a list \<Rightarrow> 'a list" where
  "js_Set xs = rev (remdups (rev xs))"

text \<open>\<open>Math.round\<close> rounds to the nearest integer, a half towards plus infinity.\<close>

definition js_round :: "real \<Rightarrow> int" where
  "js_round x = \<lfloor>x + 1 / 2\<rfloor>"

fun join :: "string \<Rightarrow> string list \<Rightarrow> string" where
  "join sep [] = []"
| "join sep [x] = x"
| "join sep (x # y # ys) = x @ sep @ join sep (y # ys)"


text \<open>
  What \<open>s.replace(new RegExp(pat, 'ig'), rep)\<close> returns for a pattern without
  regular-expression metacharacters: every occurrence of \<open>pat\<close>, compared without regard to
  case, is replaced, scanning from the left; the empty pattern matches before every character
  and at the end. It serves as the regular-expression oracle of the example runs, whose
  patterns are plain words.
\<close>

function replaceAllCI :: "string \<Rightarrow> string \<Rightarrow> string \<Rightarrow> string" where
  "replaceAllCI [] pat rep = (if pat = [] then rep else [])"
| "replaceAllCI (c # cs) pat rep =
     (if pat = [] then rep @ c # replaceAllCI cs pat rep
      else if startsWith (toLowerCase (c # cs)) (toLowerCase pat)
           then rep @ replaceAllCI (drop (length pat) (c # cs)) pat rep
           else c # replaceAllCI cs pat rep)"
  by pat_completeness auto
termination
  by (relation "measure (\<lambda>(s, pat, rep). length s)") auto

text \<open>A thrown \<open>Error\<close>, \<open>TypeError\<close> or \<open>SyntaxError\<close>, with its message.\<close>

datatype js_error = Error string | TypeError string | SyntaxError string

fun errorMessage :: "js_error \<Rightarrow> string" where
  "errorMessage (Error m) = m"
| "errorMessage (TypeError m) = m"
| "errorMessage (SyntaxError m) = m"

text \<open>
  A plain object \<open>{}\<close> used as a record with string keys is an association list of its own
  properties in insertion order. Reading a key that is not an own property finds the
  property of \<open>Object.prototype\<close> of that name, when there is one; all of these are truthy.
\<close>

definition objectPrototypeKeys :: "string list" where
  "objectPrototypeKeys =
     [''constructor'', ''__defineGetter__'', ''__defineSetter__'', ''hasOwnProperty'',
      ''__lookupGetter__'', ''__lookupSetter__'', ''isPrototypeOf'', ''propertyIsEnumerable'',
      ''toString'', ''valueOf'', ''__proto__'', ''toLocaleString'']"

text \<open>
  \<open>Object.entries\<close> lists the own keys that are array indices first (the decimal numerals of the
  numbers from 0 to \<open>2^32 - 2\<close>, without leading zeros), in ascending numeric order, and then the
  other keys in insertion order.
\<close>

definition digitOf :: "char \<Rightarrow> nat" where
  "digitOf c = length (takeWhile (\<lambda>d. d \<noteq> c) ''0123456789'')"

definition digitsValue :: "string \<Rightarrow> nat" where
  "digitsValue k = foldl (\<lambda>n c. 10 * n + digitOf c) 0 k"

definition isArrayIndex :: "string \<Rightarrow> bool" where
  "isArrayIndex k =
     (k \<noteq> [] \<and> list_all (\<lambda>c. c \<in> set ''0123456789'') k \<and> (length k = 1 \<or> hd k \<noteq> CHR ''0'')
      \<and> digitsValue k < 4294967295)"

definition objectEntries :: "(string \<times> 'a) list \<Rightarrow> (string \<times> 'a) list" where
  "objectEntries m =
     sort_key (\<lambda>(k, v). digitsValue k) (filter (\<lambda>(k, v). isArrayIndex k) m)
       @ filter (\<lambda>(k, v). \<not> isArrayIndex k) m"


section \<open>Data model (src/types/index.ts)\<close>

datatype PostingStyle = asks_questions | gives_answers | balanced

datatype ThreadType = question | advice | story | discussion

datatype TimeOfDay = morning | afternoon | evening

datatype Sensitivity = sens_low | sens_medium | sens_high

datatype RiskTolerance = risk_low | risk_medium | risk_high

datatype Status = draft | approved | scheduled | posted | failed

record Company =
  company_id :: string
  company_name :: string

record Persona =
  persona_id :: string
  username :: string
  bio :: string
  expertise :: "string list"
  postingStyle :: PostingStyle

record SubredditRules =
  maxPostsPerDay :: "nat option"
  allowsSelfPromotion :: "bool option"

record Subreddit =
  subreddit_id :: string
  subreddit_name :: string
  description :: "string option"
  rules :: "SubredditRules option"
  sensitivity :: "Sensitivity option"

record Keyword =
  keyword_id :: string
  keyword :: string
  category :: "string option"
  priority :: "int option"

record TimeSlot =
  date :: int
  dayOfWeek :: int
  timeOfDay :: TimeOfDay

record MatchedSlot = TimeSlot +
  subreddit :: Subreddit
  slot_keywords :: "Keyword list"
  threadType :: ThreadType

record AssignedSlot = MatchedSlot +
  opPersona :: Persona
  commenterPersonas :: "Persona list"

record Post =
  post_id :: string
  companyId :: string
  weekNumber :: int
  subredditId :: string
  subredditName :: string
  personaId :: string
  personaUsername :: string
  title :: string
  body :: string
  scheduledAt :: int
  keywordIds :: "string list"
  post_threadType :: ThreadType
  status :: Status

record Comment =
  comment_id :: string
  postId :: string
  parentCommentId :: "string option"
  comment_personaId :: string
  comment_personaUsername :: string
  content :: string
  comment_scheduledAt :: int
  delayMinutes :: int
  comment_status :: Status

record Thread =
  thread_post :: Post
  thread_comments :: "Comment list"
  thread_slot :: AssignedSlot

datatype IssueSeverity = sev_low | sev_medium | sev_high

datatype IssueType =
  overposting | duplication | persona_collision | timing_issue | promo_sensitivity
  | voice_inconsistency

record QualityIssue =
  issue_type :: IssueType
  severity :: IssueSeverity
  message :: string
  affectedPostIds :: "string list option"

record PlannerConstraints =
  maxPostsPerSubredditPerWeek :: int
  minDaysBetweenSubredditPosts :: int
  maxPostsPerPersonaPerWeek :: int
  maxCommentsPerPersonaPerWeek :: int
  minHoursBetweenSamePersonaPosts :: int
  maxPersonasPerThread :: int
  noRepeatedPairingsPerWeek :: bool
  noBackToBackComments :: bool
  minDelayAfterPostMinutes :: int
  maxDelayAfterPostMinutes :: int
  commentSpacingMinutes :: "int \<times> int"
  opFollowUpDelayMinutes :: "int \<times> int"
  maxPromoScoreAllowed :: int
  minQualityScoreRequired :: int

definition DEFAULT_CONSTRAINTS :: PlannerConstraints where
  "DEFAULT_CONSTRAINTS =
     \<lparr> maxPostsPerSubredditPerWeek = 2,
       minDaysBetweenSubredditPosts = 3,
       maxPostsPerPersonaPerWeek = 2,
       maxCommentsPerPersonaPerWeek = 6,
       minHoursBetweenSamePersonaPosts = 24,
       maxPersonasPerThread = 3,
       noRepeatedPairingsPerWeek = True,
       noBackToBackComments = True,
       minDelayAfterPostMinutes = 15,
       maxDelayAfterPostMinutes = 180,
       commentSpacingMinutes = (10, 60),
       opFollowUpDelayMinutes = (30, 180),
       maxPromoScoreAllowed = 6,
       minQualityScoreRequired = 6 \<rparr>"


section \<open>Lexical similarity (src/lib/utils.ts, calculateSimilarity)\<close>

definition wordSet :: "string \<Rightarrow> string list" where
  "wordSet s = js_Set (filter (\<lambda>w. length w > 3) (split_whitespace (toLowerCase s)))"

definition calculateSimilarity :: "string \<Rightarrow> string \<Rightarrow> real" where
  "calculateSimilarity str1 str2 =
     (let words1 = wordSet str1;
          words2 = wordSet str2
      in if length words1 = 0 \<or> length words2 = 0 then 0
         else let intersection = js_Set (filter (\<lambda>w. w \<in> set words2) words1);
                  union = js_Set (words1 @ words2)
              in real (length intersection) / real (length union))"


section \<open>Scoring (src/lib/planner/qualityChecker.ts)\<close>

text \<open>The loop of \<open>calculateOverallScore\<close> over the issues, with the running score.\<close>

fun deductIssues :: "real \<Rightarrow> QualityIssue list \<Rightarrow> real" where
  "deductIssues score [] = score"
| "deductIssues score (issue # issues) =
     deductIssues
       (case severity issue of
          sev_high \<Rightarrow> score - 2
        | sev_medium \<Rightarrow> score - 1
        | sev_low \<Rightarrow> score - 1 / 2)
       issues"

definition calculateOverallScore :: "QualityIssue list \<Rightarrow> string list \<Rightarrow> nat \<Rightarrow> real" where
  "calculateOverallScore issues warnings threadCount =
     (let score = deductIssues 10 issues;
          score = score - real (length warnings) * (3 / 10);
          score = (if threadCount \<ge> 3 then score + 1 / 2 else score)
      in max 0 (min 10 (real_of_int (js_round (score * 10)) / 10)))"

text \<open>
  The specification's wording of the batch score, for comparison: the raw score from the
  numbers of high, medium and low issues and of warnings, clamped to the interval from 0
  to 10, then rounded to one decimal.
\<close>

definition spec_rawScore :: "nat \<Rightarrow> nat \<Rightarrow> nat \<Rightarrow> nat \<Rightarrow> nat \<Rightarrow> real" where
  "spec_rawScore nHigh nMedium nLow nWarnings threadCount =
     10 - 2 * real nHigh - 1 * real nMedium - (1 / 2) * real nLow - (3 / 10) * real nWarnings
       + (if threadCount \<ge> 3 then 1 / 2 else 0)"

definition spec_clamp :: "real \<Rightarrow> real" where
  "spec_clamp x = (if x < 0 then 0 else if x > 10 then 10 else x)"

definition spec_roundOneDecimal :: "real \<Rightarrow> real" where
  "spec_roundOneDecimal x = real_of_int (js_round (x * 10)) / 10"

definition countSeverity :: "IssueSeverity \<Rightarrow> QualityIssue list \<Rightarrow> nat" where
  "countSeverity s issues = length (filter (\<lambda>i. severity i = s) issues)"

record ScoreBreakdown =
  naturalness :: real
  engagement :: real
  subtlety :: real
  timing :: real

definition scoreThread :: "Thread \<Rightarrow> Company \<Rightarrow> real \<times> ScoreBreakdown" where
  "scoreThread thread company =
     (let postLength = length (body (thread_post thread));
          naturalness' = (if postLength \<ge> 50 \<and> postLength \<le> 500 then 5 / 2
                          else if postLength > 10 then 3 / 2 else 0);
          commentCount = length (thread_comments thread);
          engagement' = (if commentCount \<ge> 2 \<and> commentCount \<le> 4 then 5 / 2
                         else if commentCount \<ge> 1 then 3 / 2 else 0);
          hasDirectMention =
            js_includes
              (toLowerCase (body (thread_post thread) @ join '' '' (map content (thread_comments thread))))
              (toLowerCase (company_name company));
          subtlety' = (if \<not> hasDirectMention then 5 / 2 else 1);
          avgDelay = real_of_int (foldl (\<lambda>sum c. sum + delayMinutes c) 0 (thread_comments thread))
                       / real (max (length (thread_comments thread)) 1);
          timing' = (if avgDelay \<ge> 30 \<and> avgDelay \<le> 120 then 5 / 2
                     else if avgDelay \<ge> 15 then 3 / 2 else 0);
          breakdown = \<lparr> naturalness = naturalness', engagement = engagement',
                        subtlety = subtlety', timing = timing' \<rparr>;
          score = foldl (+) 0 [naturalness breakdown, engagement breakdown,
                               subtlety breakdown, timing breakdown]
      in (score, breakdown))"


section \<open>Number formatting\<close>

text \<open>Template literals print an integer in decimal, with a minus sign when negative.\<close>


definition digitChar :: "nat \<Rightarrow> char" where
  "digitChar d = ''0123456789'' ! d"

function showNat :: "nat \<Rightarrow> string" where
  "showNat n = (if n < 10 then [digitChar n] else showNat (n div 10) @ [digitChar (n mod 10)])"
  by pat_completeness auto
termination
  by (relation "measure id") auto

declare showNat.simps [simp del]

definition showInt :: "int \<Rightarrow> string" where
  "showInt i = (if i < 0 then ''-'' @ showNat (nat (- i)) else showNat (nat i))"


section \<open>Venue constraints (src/lib/planner/constraints.ts)\<close>

text \<open>
  \<open>Partial<PlannerConstraints>\<close> with the three fields that the presets and the
  sensitivity adjustments set; spreading it over a constraint record overrides exactly the
  fields that are present.
\<close>

record PartialConstraints =
  partial_maxPostsPerSubredditPerWeek :: "int option"
  partial_minDaysBetweenSubredditPosts :: "int option"
  partial_maxPromoScoreAllowed :: "int option"

definition SUBREDDIT_PRESETS :: "string \<Rightarrow> PartialConstraints option" where
  "SUBREDDIT_PRESETS name =
     (if name = ''r/AskReddit'' then
        Some \<lparr> partial_maxPostsPerSubredditPerWeek = Some 3,
               partial_minDaysBetweenSubredditPosts = Some 2,
               partial_maxPromoScoreAllowed = None \<rparr>
      else if name = ''r/consulting'' then
        Some \<lparr> partial_maxPostsPerSubredditPerWeek = Some 1,
               partial_minDaysBetweenSubredditPosts = Some 7,
               partial_maxPromoScoreAllowed = Some 4 \<rparr>
      else if name = ''r/startups'' then
        Some \<lparr> partial_maxPostsPerSubredditPerWeek = Some 2,
               partial_minDaysBetweenSubredditPosts = None,
               partial_maxPromoScoreAllowed = Some 5 \<rparr>
      else None)"

definition spread :: "PlannerConstraints \<Rightarrow> PartialConstraints option \<Rightarrow> PlannerConstraints" where
  "spread c p =
     (case p of
        None \<Rightarrow> c
      | Some q \<Rightarrow>
          c \<lparr> maxPostsPerSubredditPerWeek :=
                (case partial_maxPostsPerSubredditPerWeek q of
                   Some v \<Rightarrow> v | None \<Rightarrow> maxPostsPerSubredditPerWeek c),
              minDaysBetweenSubredditPosts :=
                (case partial_minDaysBetweenSubredditPosts q of
                   Some v \<Rightarrow> v | None \<Rightarrow> minDaysBetweenSubredditPosts c),
              maxPromoScoreAllowed :=
                (case partial_maxPromoScoreAllowed q of
                   Some v \<Rightarrow> v | None \<Rightarrow> maxPromoScoreAllowed c) \<rparr>)"

definition getSubredditConstraints :: "Subreddit \<Rightarrow> PlannerConstraints \<Rightarrow> PlannerConstraints" where
  "getSubredditConstraints sub baseConstraints =
     (let preset = SUBREDDIT_PRESETS (subreddit_name sub);
          sensitivity' = (case sensitivity sub of Some s \<Rightarrow> s | None \<Rightarrow> sens_medium);
          sensitivityAdjustments =
            (case sensitivity' of
               sens_high \<Rightarrow>
                 Some \<lparr> partial_maxPostsPerSubredditPerWeek =
                          Some (max 1 (maxPostsPerSubredditPerWeek baseConstraints - 1)),
                        partial_minDaysBetweenSubredditPosts =
                          Some (minDaysBetweenSubredditPosts baseConstraints + 2),
                        partial_maxPromoScoreAllowed =
                          Some (max 2 (maxPromoScoreAllowed baseConstraints - 1)) \<rparr>
             | sens_low \<Rightarrow>
                 Some \<lparr> partial_maxPostsPerSubredditPerWeek =
                          Some (maxPostsPerSubredditPerWeek baseConstraints + 1),
                        partial_minDaysBetweenSubredditPosts =
                          Some (max 1 (minDaysBetweenSubredditPosts baseConstraints - 1)),
                        partial_maxPromoScoreAllowed = None \<rparr>
             | sens_medium \<Rightarrow> None)
      in spread (spread baseConstraints preset) sensitivityAdjustments)"


section \<open>Overposting check (src/lib/planner/qualityChecker.ts, checkOverposting)\<close>

text \<open>
  \<open>checkOverposting(threads)\<close> of \<open>src/lib/planner/qualityChecker.ts\<close>. The object
  \<open>subredditCounts\<close> maps a venue name to its count and post identifiers. For a venue name
  that is a property of \<open>Object.prototype\<close> the test \<open>!subredditCounts[subName]\<close> is false
  although no entry was made, and \<open>subredditCounts[subName].postIds.push\<close> throws a
  \<open>TypeError\<close>.
\<close>

type_synonym SubredditCounts = "(string \<times> nat \<times> string list) list"

definition recordPost :: "SubredditCounts \<Rightarrow> Thread \<Rightarrow> js_error + SubredditCounts" where
  "recordPost subredditCounts thread =
     (let subName = subredditName (thread_post thread)
      in if map_of subredditCounts subName = None \<and> subName \<in> set objectPrototypeKeys
         then Inl (TypeError ''Cannot read properties of undefined (reading 'push')'')
         else let counts1 = (if map_of subredditCounts subName = None
                             then subredditCounts @ [(subName, 0, [])] else subredditCounts)
              in Inr (map (\<lambda>(k, count, postIds).
                             if k = subName
                             then (k, count + 1, postIds @ [post_id (thread_post thread)])
                             else (k, count, postIds)) counts1))"

definition countPosts :: "Thread list \<Rightarrow> js_error + SubredditCounts" where
  "countPosts threads =
     foldl (\<lambda>acc thread. case acc of Inl e \<Rightarrow> Inl e | Inr counts \<Rightarrow> recordPost counts thread)
       (Inr []) threads"

definition overpostingIssue :: "string \<Rightarrow> nat \<Rightarrow> string list \<Rightarrow> QualityIssue" where
  "overpostingIssue subredditKey count postIds =
     \<lparr> issue_type = overposting,
       severity = sev_high,
       message = subredditKey @ '' has '' @ showNat count @ '' posts this week (max: ''
                   @ showInt (maxPostsPerSubredditPerWeek DEFAULT_CONSTRAINTS) @ '')'',
       affectedPostIds = Some postIds \<rparr>"

definition checkOverposting :: "Thread list \<Rightarrow> js_error + QualityIssue list" where
  "checkOverposting threads =
     (case countPosts threads of
        Inl e \<Rightarrow> Inl e
      | Inr subredditCounts \<Rightarrow>
          Inr (concat (map (\<lambda>(subredditKey, count, postIds).
                 if int count > maxPostsPerSubredditPerWeek DEFAULT_CONSTRAINTS
                 then [overpostingIssue subredditKey count postIds]
                 else []) (objectEntries subredditCounts))))"

text \<open>The venue names of a batch in order of first appearance, and the posts of a venue.\<close>

definition postCount :: "Thread list \<Rightarrow> string \<Rightarrow> nat" where
  "postCount threads v = length (filter (\<lambda>t. subredditName (thread_post t) = v) threads)"

definition postIdsOf :: "Thread list \<Rightarrow> string \<Rightarrow> string list" where
  "postIdsOf threads v = map (\<lambda>t. post_id (thread_post t)) (filter (\<lambda>t. subredditName (thread_post t) = v) threads)"

definition venuesOf :: "Thread list \<Rightarrow> string list" where
  "venuesOf threads = js_Set (map (\<lambda>t. subredditName (thread_post t)) threads)"


section \<open>Planning request and its validation (src/lib/planner/index.ts)\<close>

text \<open>
  \<open>weekStartDate\<close> is \<open>None\<close> for a value that is not a valid \<open>Date\<close>. The preference
  fields that only feed the prompt text are left out.
\<close>

record GenerationPreferences =
  allowProductMention :: "bool option"
  productMentionCount :: "int option"
  antiPromoChecks :: "bool option"
  bannedPhrases :: "string list option"
  commentGuidelines :: "string option"
  minCommentLength :: "nat option"
  maxCommentLength :: "nat option"
  minPostLength :: "nat option"
  maxPostLength :: "nat option"
  autoRepair :: "bool option"
  requireDisagreement :: "bool option"
  repairPasses :: "nat option"

record CalendarHistory =
  topicsUsed :: "string list"
  subredditsUsed :: "(string \<times> nat) list"

record PlannerInput =
  in_company :: Company
  in_personas :: "Persona list"
  in_subreddits :: "Subreddit list"
  in_keywords :: "Keyword list"
  postsPerWeek :: int
  weekStartDate :: "int option"
  in_weekNumber :: "int option"
  in_previousWeeks :: "CalendarHistory list option"
  in_preferences :: "GenerationPreferences option"
  in_constraints :: "PlannerConstraints option"
  in_riskTolerance :: "RiskTolerance option"
  in_weeklyGoals :: "string list option"

definition newline :: string where
  "newline = [CHR 0x0A]"

definition capacityError :: "PlannerInput \<Rightarrow> PlannerConstraints \<Rightarrow> string" where
  "capacityError input cons =
     ''Cannot schedule '' @ showInt (postsPerWeek input) @ '' posts with only ''
       @ showNat (length (in_subreddits input)) @ '' subreddits (max ''
       @ showInt (maxPostsPerSubredditPerWeek cons) @ '' per subreddit)''"

definition validationErrors :: "PlannerInput \<Rightarrow> PlannerConstraints \<Rightarrow> string list" where
  "validationErrors input cons =
     (if company_id (in_company input) = [] \<or> company_name (in_company input) = []
      then [''Company must have id and name''] else [])
     @ (if length (in_personas input) < 2 then [''At least 2 personas are required''] else [])
     @ concat (map (\<lambda>persona.
          if persona_id persona = [] \<or> username persona = [] \<or> bio persona = []
          then [''Persona '' @ (if username persona = [] then ''unknown'' else username persona)
                  @ '' missing required fields'']
          else []) (in_personas input))
     @ (if length (in_subreddits input) = 0 then [''At least 1 subreddit is required''] else [])
     @ (if length (in_keywords input) = 0 then [''At least 1 keyword is required''] else [])
     @ (if postsPerWeek input < 1 then [''Posts per week must be at least 1''] else [])
     @ (if postsPerWeek input
            > int (length (in_subreddits input)) * maxPostsPerSubredditPerWeek cons
        then [capacityError input cons] else [])
     @ (if weekStartDate input = None then [''Invalid week start date''] else [])"

definition multiLineError :: "string list \<Rightarrow> js_error" where
  "multiLineError errors =
     Error (''Invalid planner input:'' @ newline @ join newline (map (\<lambda>e. ''  - '' @ e) errors))"

definition validateInput :: "PlannerInput \<Rightarrow> PlannerConstraints \<Rightarrow> js_error + unit" where
  "validateInput input cons =
     (let errors = validationErrors input cons
      in if length errors > 0
         then Inl (multiLineError errors)
         else Inr ())"

definition applyRiskTolerance ::
  "PlannerConstraints \<Rightarrow> RiskTolerance option \<Rightarrow> PlannerConstraints" where
  "applyRiskTolerance cons risk =
     (case risk of
        None \<Rightarrow> cons
      | Some risk_medium \<Rightarrow> cons
      | Some risk_low \<Rightarrow>
          cons \<lparr> maxPostsPerSubredditPerWeek := max 1 (maxPostsPerSubredditPerWeek cons - 1),
                 maxPromoScoreAllowed := max 2 (maxPromoScoreAllowed cons - 1),
                 maxCommentsPerPersonaPerWeek := max 1 (maxCommentsPerPersonaPerWeek cons - 1) \<rparr>
      | Some risk_high \<Rightarrow>
          cons \<lparr> maxPostsPerSubredditPerWeek := maxPostsPerSubredditPerWeek cons + 1,
                 maxPromoScoreAllowed := maxPromoScoreAllowed cons + 1,
                 maxCommentsPerPersonaPerWeek := maxCommentsPerPersonaPerWeek cons + 1 \<rparr>)"

text \<open>
  \<open>generateWeeklyCalendar\<close> resolves the constraints, validates, and only then enters
  phases 1 to 5. The phases are a parameter here: a function from the request and the
  resolved constraints to the list of phases entered and the outcome.
\<close>

datatype Phase =
  SlotAllocation | SubredditMatching | PersonaAssignment | ThreadGeneration | QualityCheck

definition resolvedConstraints :: "PlannerInput \<Rightarrow> PlannerConstraints" where
  "resolvedConstraints input =
     (let baseConstraints = (case in_constraints input of Some c \<Rightarrow> c | None \<Rightarrow> DEFAULT_CONSTRAINTS)
      in applyRiskTolerance baseConstraints (in_riskTolerance input))"

definition generateWeeklyCalendar ::
  "(PlannerInput \<Rightarrow> PlannerConstraints \<Rightarrow> Phase list \<times> (js_error + 'out))
     \<Rightarrow> PlannerInput \<Rightarrow> Phase list \<times> (js_error + 'out)" where
  "generateWeeklyCalendar phases input =
     (let cons = resolvedConstraints input
      in case validateInput input cons of
           Inl e \<Rightarrow> ([], Inl e)
         | Inr _ \<Rightarrow> phases input cons)"

section \<open>Example values\<close>

definition ex_company :: Company where
  "ex_company = \<lparr> company_id = ''c1'', company_name = ''Slideforge'' \<rparr>"

definition ex_persona :: "string \<Rightarrow> PostingStyle \<Rightarrow> Persona" where
  "ex_persona name style =
     \<lparr> persona_id = name, username = name, bio = ''bio'', expertise = [], postingStyle = style \<rparr>"

definition ex_subreddit :: "string \<Rightarrow> Subreddit" where
  "ex_subreddit name =
     \<lparr> subreddit_id = name, subreddit_name = name, description = None, rules = None,
       sensitivity = None \<rparr>"

definition ex_keyword :: "string \<Rightarrow> Keyword" where
  "ex_keyword k = \<lparr> keyword_id = k, keyword = k, category = None, priority = None \<rparr>"

definition ex_input :: PlannerInput where
  "ex_input =
     \<lparr> in_company = ex_company,
       in_personas = [ex_persona ''ann'' asks_questions, ex_persona ''bob'' gives_answers],
       in_subreddits = [ex_subreddit ''r/PowerPoint''],
       in_keywords = [ex_keyword ''slides''],
       postsPerWeek = 5,
       weekStartDate = Some 0,
       in_weekNumber = None,
       in_previousWeeks = None,
       in_preferences = None,
       in_constraints = None,
       in_riskTolerance = None,
       in_weeklyGoals = None \<rparr>"

text \<open>A request with four validation failures: one persona, no keyword, 5 posts for one venue, no valid start date.\<close>

definition ex_bad_input :: PlannerInput where
  "ex_bad_input =
     ex_input \<lparr> in_personas := [ex_persona ''ann'' asks_questions], in_keywords := [],
                weekStartDate := None \<rparr>"


section \<open>Oracles\<close>

text \<open>
  The world outside the planner: the values returned by successive calls of
  \<open>Math.random\<close>, the results of successive calls of the text backend
  (\<open>generateWithAI\<close>), the identifiers drawn by \<open>uuidv4\<close>, the platform's rendering of a
  date in a template literal, the engine's regular expressions, and the global mock-mode
  flag. Each sequence comes with the position of the next unread element. A field of the
  backend's payload is \<open>None\<close> when it is absent or not a string. The field
  \<open>regexReplace\<close> stands for \<open>s.replace(new RegExp(pattern, 'ig'), replacement)\<close>, which
  throws a \<open>SyntaxError\<close> when the pattern is not a regular expression.
\<close>

record BackendData =
  data_title :: "string option"
  data_body :: "string option"
  data_text :: "string option"
  data_variation :: "string option"

record GenerationResult =
  success :: bool
  gen_data :: "BackendData option"
  gen_error :: "string option"

record World =
  rnd :: "nat \<Rightarrow> real"
  rndPos :: nat
  backend :: "nat \<Rightarrow> GenerationResult"
  backendPos :: nat
  uuid :: "nat \<Rightarrow> string"
  uuidPos :: nat
  dateText :: "int \<Rightarrow> string"
  regexReplace :: "string \<Rightarrow> string \<Rightarrow> string \<Rightarrow> js_error + string"
  mockMode :: bool

definition Math_random :: "World \<Rightarrow> real \<times> World" where
  "Math_random w = (rnd w (rndPos w), w \<lparr> rndPos := rndPos w + 1 \<rparr>)"

text \<open>\<open>Map.set\<close> and assignment to a record key: replace in place, or append a new key.\<close>

fun mapSet :: "'k \<Rightarrow> 'v \<Rightarrow> ('k \<times> 'v) list \<Rightarrow> ('k \<times> 'v) list" where
  "mapSet k v [] = [(k, v)]"
| "mapSet k v ((k', v') # rest) =
     (if k' = k then (k, v) # rest else (k', v') # mapSet k v rest)"

text \<open>\<open>scored.sort((a, b) => b.score - a.score)\<close>: a stable sort by descending score.\<close>

definition sortByScoreDesc :: "('a \<times> real) list \<Rightarrow> ('a \<times> real) list" where
  "sortByScoreDesc scored = sort_key (\<lambda>(x, score). - score) scored"

text \<open>\<open>s.replace(pat, rep)\<close> with a string pattern replaces the first occurrence.\<close>

fun replaceFirst :: "string \<Rightarrow> string \<Rightarrow> string \<Rightarrow> string" where
  "replaceFirst [] pat rep = (if pat = [] then rep else [])"
| "replaceFirst (c # cs) pat rep =
     (if startsWith (c # cs) pat then rep @ drop (length pat) (c # cs)
      else c # replaceFirst cs pat rep)"


section \<open>Posting limits (src/lib/planner/constraints.ts)\<close>

record PostUsage =
  postsThisWeek :: nat
  lastPostDate :: "int option"

record CheckResult =
  allowed :: bool
  reason :: "string option"

definition canPostToSubreddit ::
  "string \<Rightarrow> (string \<times> PostUsage) list \<Rightarrow> PlannerConstraints \<Rightarrow> int \<Rightarrow> CheckResult" where
  "canPostToSubreddit subId usage cons proposedDate =
     (case map_of usage subId of
        None \<Rightarrow> \<lparr> allowed = True, reason = None \<rparr>
      | Some subUsage \<Rightarrow>
          if int (postsThisWeek subUsage) \<ge> maxPostsPerSubredditPerWeek cons
          then \<lparr> allowed = False,
                 reason = Some (''Subreddit has reached max posts per week (''
                            @ showInt (maxPostsPerSubredditPerWeek cons) @ '')'') \<rparr>
          else (case lastPostDate subUsage of
                  None \<Rightarrow> \<lparr> allowed = True, reason = None \<rparr>
                | Some lastDate \<Rightarrow>
                    let daysSinceLastPost = real_of_int (proposedDate - lastDate) / (1000 * 60 * 60 * 24)
                    in if daysSinceLastPost < real_of_int (minDaysBetweenSubredditPosts cons)
                       then \<lparr> allowed = False,
                              reason = Some (''Must wait ''
                                         @ showInt (minDaysBetweenSubredditPosts cons)
                                         @ '' days between posts'') \<rparr>
                       else \<lparr> allowed = True, reason = None \<rparr>))"


section \<open>Community matcher (src/lib/planner/subredditMatcher.ts)\<close>

text \<open>The \<open>map\<close> of \<open>selectSubreddit\<close> that scores the eligible venues, one random draw each.\<close>

fun scoreSubreddits ::
  "Subreddit list \<Rightarrow> (string \<times> PostUsage) list \<Rightarrow> World \<Rightarrow> (Subreddit \<times> real) list \<times> World" where
  "scoreSubreddits [] usage w = ([], w)"
| "scoreSubreddits (sub # subs) usage w =
     (let usageScore = (case map_of usage (subreddit_id sub) of
                          Some subUsage \<Rightarrow> postsThisWeek subUsage | None \<Rightarrow> 0);
          (r, w1) = Math_random w;
          (rest, w2) = scoreSubreddits subs usage w1
      in ((sub, - real usageScore + r * (1 / 2)) # rest, w2))"

definition selectSubreddit ::
  "Subreddit list \<Rightarrow> (string \<times> PostUsage) list \<Rightarrow> int \<Rightarrow> PlannerConstraints \<Rightarrow> World
     \<Rightarrow> Subreddit option \<times> World" where
  "selectSubreddit subs usage proposedDate cons w =
     (let eligible = filter (\<lambda>sub. allowed (canPostToSubreddit (subreddit_id sub) usage cons proposedDate)) subs
      in if length eligible = 0 then (None, w)
         else let (scored, w1) = scoreSubreddits eligible usage w
              in (Some (fst (hd (sortByScoreDesc scored))), w1))"

definition categoryMappings :: "(string \<times> string list) list" where
  "categoryMappings =
     [(''presentations'', [''powerpoint'', ''slides'', ''presentations'', ''canva'']),
      (''productivity'', [''productivity'', ''getdisciplined'', ''selfimprovement'']),
      (''business'', [''startups'', ''entrepreneur'', ''smallbusiness'', ''business'']),
      (''tech'', [''technology'', ''programming'', ''software'', ''chatgpt'', ''claudeai'']),
      (''design'', [''design'', ''canva'', ''graphic_design'']),
      (''education'', [''askacademia'', ''teachers'', ''education'', ''college''])]"

definition matchCategory :: "Keyword \<Rightarrow> Subreddit \<Rightarrow> bool" where
  "matchCategory kw sub =
     (let category' = (case category kw of Some c \<Rightarrow> toLowerCase c | None \<Rightarrow> []);
          subName = toLowerCase (subreddit_name sub)
      in list_ex (\<lambda>(cat, subs).
           (js_includes category' cat \<or> js_includes (toLowerCase (keyword kw)) cat)
           \<and> list_ex (\<lambda>s. js_includes subName s) subs) categoryMappings)"

definition calculateSubredditRelevance :: "Keyword \<Rightarrow> Subreddit \<Rightarrow> real" where
  "calculateSubredditRelevance kw sub =
     (let kwLower = toLowerCase (keyword kw);
          subLower = toLowerCase (subreddit_name sub);
          subDesc = toLowerCase (case description sub of Some d \<Rightarrow> d | None \<Rightarrow> [])
      in if js_includes subLower kwLower \<or> js_includes kwLower (replaceFirst subLower ''r/'' [])
         then 1
         else if subDesc \<noteq> [] \<and> js_includes subDesc kwLower then 8 / 10
         else if matchCategory kw sub then 6 / 10
         else 3 / 10)"

fun scoreKeywords ::
  "Keyword list \<Rightarrow> Subreddit \<Rightarrow> (string \<rightharpoonup> nat) \<Rightarrow> (string \<rightharpoonup> real) \<Rightarrow> World
     \<Rightarrow> (Keyword \<times> real) list \<times> World" where
  "scoreKeywords [] sub usage freshnessPenalties w = ([], w)"
| "scoreKeywords (kw # kws) sub usage freshnessPenalties w =
     (let relevance = calculateSubredditRelevance kw sub;
          score = 0 + relevance * 3;
          freshnessPenalty = (case freshnessPenalties (keyword_id kw) of Some p \<Rightarrow> p | None \<Rightarrow> 0);
          score = score - freshnessPenalty;
          usageCount = (case usage (keyword_id kw) of Some n \<Rightarrow> n | None \<Rightarrow> 0);
          score = score - real usageCount * 2;
          score = (case priority kw of Some p \<Rightarrow> score + real_of_int p | None \<Rightarrow> score);
          (r, w1) = Math_random w;
          score = score + r * (1 / 2);
          (rest, w2) = scoreKeywords kws sub usage freshnessPenalties w1
      in ((kw, score) # rest, w2))"

definition selectKeywords ::
  "Keyword list \<Rightarrow> Subreddit \<Rightarrow> (string \<rightharpoonup> nat) \<Rightarrow> (string \<rightharpoonup> real) \<Rightarrow> nat \<Rightarrow> World
     \<Rightarrow> Keyword list \<times> World" where
  "selectKeywords kws sub usage freshnessPenalties maxKeywords w =
     (let (scored, w1) = scoreKeywords kws sub usage freshnessPenalties w
      in (map fst (take maxKeywords (sortByScoreDesc scored)), w1))"

definition determineThreadType :: "Keyword list \<Rightarrow> ThreadType" where
  "determineThreadType kws =
     (let keywordText = join '' '' (map (\<lambda>k. toLowerCase (keyword k)) kws)
      in if js_includes keywordText ''best'' \<or> js_includes keywordText ''how to''
            \<or> js_includes keywordText ''what is'' \<or> js_includes keywordText ''which''
            \<or> js_includes keywordText ''alternatives'' \<or> js_includes keywordText ''vs''
         then question
         else if js_includes keywordText ''help'' \<or> js_includes keywordText ''need''
            \<or> js_includes keywordText ''recommend'' \<or> js_includes keywordText ''tips''
         then advice
         else if js_includes keywordText ''experience'' \<or> js_includes keywordText ''tried''
            \<or> js_includes keywordText ''review''
         then story
         else discussion)"

text \<open>The loops of \<open>buildFreshnessPenalties\<close>: over the weeks with their index, and over a week's topics.\<close>

fun penalizeTopics :: "real \<Rightarrow> string list \<Rightarrow> (string \<rightharpoonup> real) \<Rightarrow> (string \<rightharpoonup> real)" where
  "penalizeTopics weekPenalty [] penalties = penalties"
| "penalizeTopics weekPenalty (topic # topics) penalties =
     (let current = (case penalties topic of Some p \<Rightarrow> p | None \<Rightarrow> 0)
      in penalizeTopics weekPenalty topics (penalties (topic \<mapsto> current + weekPenalty)))"

fun penalizeWeeks :: "nat \<Rightarrow> CalendarHistory list \<Rightarrow> (string \<rightharpoonup> real) \<Rightarrow> (string \<rightharpoonup> real)" where
  "penalizeWeeks i [] penalties = penalties"
| "penalizeWeeks i (week # weeks) penalties =
     penalizeWeeks (i + 1) weeks (penalizeTopics (1 / (real i + 1)) (topicsUsed week) penalties)"

definition buildFreshnessPenalties :: "CalendarHistory list \<Rightarrow> (string \<rightharpoonup> real)" where
  "buildFreshnessPenalties previousWeeks = penalizeWeeks 0 previousWeeks Map.empty"

record MatcherState =
  matchedSlots :: "MatchedSlot list"
  subredditUsage :: "(string \<times> PostUsage) list"
  keywordUsage :: "string \<rightharpoonup> nat"
  topicsSkipped :: "string list"

fun countKeywords :: "Keyword list \<Rightarrow> (string \<rightharpoonup> nat) \<Rightarrow> (string \<rightharpoonup> nat)" where
  "countKeywords [] usage = usage"
| "countKeywords (kw # kws) usage =
     countKeywords kws
       (usage (keyword_id kw \<mapsto> (case usage (keyword_id kw) of Some n \<Rightarrow> n | None \<Rightarrow> 0) + 1))"

definition skippedSlotMessage :: "World \<Rightarrow> TimeSlot \<Rightarrow> string" where
  "skippedSlotMessage w slot = ''No eligible subreddit for slot at '' @ dateText w (date slot)"

text \<open>The body of the loop of \<open>matchSubreddits\<close> over the slots.\<close>

definition matchSlot ::
  "Subreddit list \<Rightarrow> Keyword list \<Rightarrow> (string \<rightharpoonup> real) \<Rightarrow> PlannerConstraints \<Rightarrow> TimeSlot
     \<Rightarrow> MatcherState \<Rightarrow> World \<Rightarrow> MatcherState \<times> World" where
  "matchSlot subs kws freshnessPenalties cons slot st w =
     (case selectSubreddit subs (subredditUsage st) (date slot) cons w of
        (None, w1) \<Rightarrow>
          (st \<lparr> topicsSkipped := topicsSkipped st @ [skippedSlotMessage w slot] \<rparr>, w1)
      | (Some selectedSubreddit, w1) \<Rightarrow>
          let (selectedKeywords, w2) =
                selectKeywords kws selectedSubreddit (keywordUsage st) freshnessPenalties 2 w1;
              threadType' = determineThreadType selectedKeywords;
              matched = \<lparr> date = date slot, dayOfWeek = dayOfWeek slot, timeOfDay = timeOfDay slot,
                          subreddit = selectedSubreddit, slot_keywords = selectedKeywords,
                          threadType = threadType' \<rparr>;
              currentUsage = (case map_of (subredditUsage st) (subreddit_id selectedSubreddit) of
                                Some u \<Rightarrow> postsThisWeek u | None \<Rightarrow> 0)
          in (st \<lparr> matchedSlots := matchedSlots st @ [matched],
                    subredditUsage := mapSet (subreddit_id selectedSubreddit)
                       \<lparr> postsThisWeek = currentUsage + 1, lastPostDate = Some (date slot) \<rparr>
                       (subredditUsage st),
                    keywordUsage := countKeywords selectedKeywords (keywordUsage st) \<rparr>, w2))"

fun matchLoop ::
  "Subreddit list \<Rightarrow> Keyword list \<Rightarrow> (string \<rightharpoonup> real) \<Rightarrow> PlannerConstraints \<Rightarrow> TimeSlot list
     \<Rightarrow> MatcherState \<Rightarrow> World \<Rightarrow> MatcherState \<times> World" where
  "matchLoop subs kws freshnessPenalties cons [] st w = (st, w)"
| "matchLoop subs kws freshnessPenalties cons (slot # slots) st w =
     (let (st1, w1) = matchSlot subs kws freshnessPenalties cons slot st w
      in matchLoop subs kws freshnessPenalties cons slots st1 w1)"

fun distribute :: "Subreddit list \<Rightarrow> (string \<times> PostUsage) list \<Rightarrow> (string \<times> nat) list \<Rightarrow> (string \<times> nat) list" where
  "distribute subs [] acc = acc"
| "distribute subs ((sid, usage) # rest) acc =
     distribute subs rest
       (case find (\<lambda>s. subreddit_id s = sid) subs of
          Some sub \<Rightarrow> mapSet (subreddit_name sub) (postsThisWeek usage) acc
        | None \<Rightarrow> acc)"

record SubredditMatcherResult =
  result_slots :: "MatchedSlot list"
  subredditDistribution :: "(string \<times> nat) list"
  result_keywordUsage :: "string \<rightharpoonup> nat"
  result_topicsSkipped :: "string list"

definition matchSubreddits ::
  "TimeSlot list \<Rightarrow> Subreddit list \<Rightarrow> Keyword list \<Rightarrow> CalendarHistory list option
     \<Rightarrow> PlannerConstraints option \<Rightarrow> World \<Rightarrow> SubredditMatcherResult \<times> World" where
  "matchSubreddits slots subs kws previousWeeks cons w =
     (let effectiveConstraints = (case cons of Some c \<Rightarrow> c | None \<Rightarrow> DEFAULT_CONSTRAINTS);
          freshnessPenalties =
            buildFreshnessPenalties (case previousWeeks of Some ws \<Rightarrow> ws | None \<Rightarrow> []);
          (st, w1) = matchLoop subs kws freshnessPenalties effectiveConstraints slots
                       \<lparr> matchedSlots = [], subredditUsage = [], keywordUsage = Map.empty,
                         topicsSkipped = [] \<rparr> w
      in (\<lparr> result_slots = matchedSlots st,
            subredditDistribution = distribute subs (subredditUsage st) [],
            result_keywordUsage = keywordUsage st,
            result_topicsSkipped = topicsSkipped st \<rparr>, w1))"


text \<open>
  For the statement of the cap: the number of matched slots of a venue, the agreement of
  the usage table with these numbers, and the cap in force for the run.
\<close>

definition venueCount :: "string \<Rightarrow> MatchedSlot list \<Rightarrow> nat" where
  "venueCount sid ms = length (filter (\<lambda>s. subreddit_id (subreddit s) = sid) ms)"

definition usageAgrees :: "PlannerConstraints \<Rightarrow> MatcherState \<Rightarrow> bool" where
  "usageAgrees cons st =
     (\<forall>sid. (case map_of (subredditUsage st) sid of
                None \<Rightarrow> venueCount sid (matchedSlots st) = 0
              | Some u \<Rightarrow> postsThisWeek u = venueCount sid (matchedSlots st))
            \<and> int (venueCount sid (matchedSlots st)) \<le> maxPostsPerSubredditPerWeek cons)"

text \<open>
  The weekly cap that the matcher compares with: the one of the constraints of the run, the
  same for every venue; \<open>getSubredditConstraints\<close> is not called by the matcher.
\<close>

definition runCap :: "PlannerConstraints option \<Rightarrow> int" where
  "runCap cons =
     maxPostsPerSubredditPerWeek (case cons of Some c \<Rightarrow> c | None \<Rightarrow> DEFAULT_CONSTRAINTS)"

definition ex_world :: World where
  "ex_world =
     \<lparr> rnd = (\<lambda>i. 1 / 2), rndPos = 0,
       backend = (\<lambda>i. \<lparr> success = False, gen_data = None, gen_error = Some ''offline'' \<rparr>),
       backendPos = 0,
       uuid = (\<lambda>i. showNat i), uuidPos = 0,
       dateText = showInt,
       regexReplace = (\<lambda>s pat rep. Inr (replaceAllCI s pat rep)),
       mockMode = True \<rparr>"

definition ex_slot :: "int \<Rightarrow> TimeSlot" where
  "ex_slot d = \<lparr> date = d, dayOfWeek = 1, timeOfDay = afternoon \<rparr>"

definition ex_day :: int where
  "ex_day = 1000 * 60 * 60 * 24"


section \<open>Persona limits and pairings (src/lib/planner/constraints.ts, src/lib/utils.ts)\<close>

record PersonaUsageTracker = PostUsage +
  commentsThisWeek :: nat
  subredditsPostedTo :: "string list"

type_synonym PersonaUsage = "(string \<times> PersonaUsageTracker) list"

definition canPersonaPost ::
  "string \<Rightarrow> (string \<times> PostUsage) list \<Rightarrow> PlannerConstraints \<Rightarrow> int \<Rightarrow> CheckResult" where
  "canPersonaPost pid usage cons proposedDate =
     (case map_of usage pid of
        None \<Rightarrow> \<lparr> allowed = True, reason = None \<rparr>
      | Some personaUsage \<Rightarrow>
          if int (postsThisWeek personaUsage) \<ge> maxPostsPerPersonaPerWeek cons
          then \<lparr> allowed = False,
                 reason = Some (''Persona has reached max posts per week (''
                            @ showInt (maxPostsPerPersonaPerWeek cons) @ '')'') \<rparr>
          else (case lastPostDate personaUsage of
                  None \<Rightarrow> \<lparr> allowed = True, reason = None \<rparr>
                | Some lastDate \<Rightarrow>
                    let hoursSinceLastPost = real_of_int (proposedDate - lastDate) / (1000 * 60 * 60)
                    in if hoursSinceLastPost < real_of_int (minHoursBetweenSamePersonaPosts cons)
                       then \<lparr> allowed = False,
                              reason = Some (''Must wait ''
                                         @ showInt (minHoursBetweenSamePersonaPosts cons)
                                         @ ''h between posts'') \<rparr>
                       else \<lparr> allowed = True, reason = None \<rparr>))"

text \<open>
  \<open>[a, b].sort().join('+')\<close>: the default sort compares strings by code units and swaps
  the two only when the second is smaller.
\<close>

definition createPairingKey :: "string \<Rightarrow> string \<Rightarrow> string" where
  "createPairingKey personaA personaB =
     join ''+'' (if personaB < personaA then [personaB, personaA] else [personaA, personaB])"

definition canPersonasInteract ::
  "string \<Rightarrow> string \<Rightarrow> string list \<Rightarrow> PlannerConstraints \<Rightarrow> CheckResult" where
  "canPersonasInteract personaA personaB pairings cons =
     (if \<not> noRepeatedPairingsPerWeek cons then \<lparr> allowed = True, reason = None \<rparr>
      else let pairingKey = createPairingKey personaA personaB
           in if pairingKey \<in> set pairings
              then \<lparr> allowed = False,
                     reason = Some ''These personas have already interacted this week'' \<rparr>
              else \<lparr> allowed = True, reason = None \<rparr>)"

fun hasBackToBack :: "string list \<Rightarrow> bool" where
  "hasBackToBack (x # y # ys) = (y = x \<or> hasBackToBack (y # ys))"
| "hasBackToBack ys = False"

definition validateThreadStructure ::
  "string \<Rightarrow> string list \<Rightarrow> PlannerConstraints \<Rightarrow> bool \<times> string list" where
  "validateThreadStructure opPersonaId commentPersonaIds cons =
     (let uniqueCommenters = js_Set commentPersonaIds;
          issues1 = (if int (length uniqueCommenters) > maxPersonasPerThread cons - 1
                     then [''Too many personas in thread (max: ''
                             @ showInt (maxPersonasPerThread cons) @ '')'']
                     else []);
          issues2 = (if noBackToBackComments cons \<and> hasBackToBack commentPersonaIds
                     then [''Same persona cannot comment back-to-back''] else []);
          issues = issues1 @ issues2
      in (length issues = 0, issues))"


section \<open>Persona assigner (src/lib/planner/personaAssigner.ts)\<close>

text \<open>
  \<open>usage.get(id)!\<close>: the tracker of a persona. \<open>assignPersonas\<close> creates one for every
  persona before the loop, so the default below is never read.
\<close>

definition trackerOf :: "PersonaUsage \<Rightarrow> string \<Rightarrow> PersonaUsageTracker" where
  "trackerOf usage pid =
     (case map_of usage pid of
        Some tracker \<Rightarrow> tracker
      | None \<Rightarrow> \<lparr> postsThisWeek = 0, lastPostDate = None, commentsThisWeek = 0,
                  subredditsPostedTo = [] \<rparr>)"

definition isPersonaFitForThreadType :: "Persona \<Rightarrow> ThreadType \<Rightarrow> World \<Rightarrow> bool \<times> World" where
  "isPersonaFitForThreadType persona tt w =
     (if postingStyle persona = gives_answers \<and> tt = question
      then (let (r, w1) = Math_random w in (r > 7 / 10, w1))
      else (True, w))"

definition getThreadTypeFitScore :: "Persona \<Rightarrow> ThreadType \<Rightarrow> real" where
  "getThreadTypeFitScore persona tt =
     (case postingStyle persona of
        asks_questions \<Rightarrow>
          (case tt of question \<Rightarrow> 1 | advice \<Rightarrow> 8 / 10 | story \<Rightarrow> 5 / 10 | discussion \<Rightarrow> 7 / 10)
      | gives_answers \<Rightarrow>
          (case tt of question \<Rightarrow> 3 / 10 | advice \<Rightarrow> 7 / 10 | story \<Rightarrow> 9 / 10 | discussion \<Rightarrow> 8 / 10)
      | balanced \<Rightarrow>
          (case tt of question \<Rightarrow> 7 / 10 | advice \<Rightarrow> 7 / 10 | story \<Rightarrow> 7 / 10 | discussion \<Rightarrow> 7 / 10))"

text \<open>The \<open>filter\<close> of \<open>selectOP\<close>: the fit test draws a random number only when it is reached.\<close>

fun filterOP ::
  "Persona list \<Rightarrow> MatchedSlot \<Rightarrow> PersonaUsage \<Rightarrow> PlannerConstraints \<Rightarrow> World
     \<Rightarrow> Persona list \<times> World" where
  "filterOP [] slot usage cons w = ([], w)"
| "filterOP (persona # rest) slot usage cons w =
     (let canPost = canPersonaPost (persona_id persona)
                      (map (\<lambda>(k, v). (k, PostUsage.truncate v)) usage) cons (date slot)
      in if \<not> allowed canPost then filterOP rest slot usage cons w
         else let (fit, w1) = isPersonaFitForThreadType persona (threadType slot) w;
                  (eligible, w2) = filterOP rest slot usage cons w1
              in (if fit then persona # eligible else eligible, w2))"

fun scoreOP :: "Persona list \<Rightarrow> MatchedSlot \<Rightarrow> PersonaUsage \<Rightarrow> World \<Rightarrow> (Persona \<times> real) list \<times> World" where
  "scoreOP [] slot usage w = ([], w)"
| "scoreOP (persona # rest) slot usage w =
     (let tracker = trackerOf usage (persona_id persona);
          score = 0 - real (postsThisWeek tracker) * 2;
          score = score + getThreadTypeFitScore persona (threadType slot);
          (r, w1) = Math_random w;
          score = score + r;
          (scored, w2) = scoreOP rest slot usage w1
      in ((persona, score) # scored, w2))"

definition selectOP ::
  "MatchedSlot \<Rightarrow> Persona list \<Rightarrow> PersonaUsage \<Rightarrow> PlannerConstraints \<Rightarrow> World
     \<Rightarrow> Persona option \<times> World" where
  "selectOP slot allPersonas usage cons w =
     (let (eligible, w1) = filterOP allPersonas slot usage cons w
      in if length eligible = 0 then (None, w1)
         else let (scored, w2) = scoreOP eligible slot usage w1
              in (Some (fst (hd (sortByScoreDesc scored))), w2))"

definition calculateExpertiseOverlap :: "string list \<Rightarrow> string list \<Rightarrow> real" where
  "calculateExpertiseOverlap a b =
     (if length a = 0 \<or> length b = 0 then 0
      else let setA = js_Set (map toLowerCase a);
               setB = js_Set (map toLowerCase b);
               intersection = js_Set (filter (\<lambda>x. x \<in> set setB) setA);
               union = js_Set (setA @ setB)
           in real (length intersection) / real (length union))"

definition getComplementScore :: "Persona \<Rightarrow> Persona \<Rightarrow> real" where
  "getComplementScore op commenter =
     (if postingStyle op = asks_questions \<and> postingStyle commenter = gives_answers then 1
      else if postingStyle op = gives_answers \<and> postingStyle commenter = gives_answers then 7 / 10
      else if calculateExpertiseOverlap (expertise op) (expertise commenter) < 1 / 2 then 8 / 10
      else 5 / 10)"

fun scoreCommenters :: "Persona list \<Rightarrow> Persona \<Rightarrow> PersonaUsage \<Rightarrow> World \<Rightarrow> (Persona \<times> real) list \<times> World" where
  "scoreCommenters [] op usage w = ([], w)"
| "scoreCommenters (persona # rest) op usage w =
     (let tracker = trackerOf usage (persona_id persona);
          score = 0 - real (commentsThisWeek tracker);
          score = score + getComplementScore op persona;
          (r, w1) = Math_random w;
          score = score + r;
          (scored, w2) = scoreCommenters rest op usage w1
      in ((persona, score) # scored, w2))"

text \<open>The selection loop of \<open>selectCommenters\<close> over the sorted candidates.\<close>

fun pickCommenters :: "(Persona \<times> real) list \<Rightarrow> int \<Rightarrow> Persona list \<Rightarrow> Persona list" where
  "pickCommenters [] count selected = selected"
| "pickCommenters ((persona, score) # rest) count selected =
     (if int (length selected) \<ge> count then selected
      else if length selected > 0 \<and> persona_id (last selected) = persona_id persona
           then pickCommenters rest count selected
           else pickCommenters rest count (selected @ [persona]))"

definition underCommentLimit :: "PersonaUsage \<Rightarrow> PlannerConstraints \<Rightarrow> Persona \<Rightarrow> bool" where
  "underCommentLimit usage cons persona =
     (case map_of usage (persona_id persona) of
        Some tracker \<Rightarrow> \<not> int (commentsThisWeek tracker) \<ge> maxCommentsPerPersonaPerWeek cons
      | None \<Rightarrow> True)"

definition selectCommenters ::
  "Persona \<Rightarrow> Persona list \<Rightarrow> int \<Rightarrow> PersonaUsage \<Rightarrow> string list \<Rightarrow> PlannerConstraints \<Rightarrow> World
     \<Rightarrow> Persona list \<times> World" where
  "selectCommenters op allPersonas count usage pairings cons w =
     (let eligible = filter (\<lambda>persona.
            persona_id persona \<noteq> persona_id op
            \<and> underCommentLimit usage cons persona
            \<and> allowed (canPersonasInteract (persona_id op) (persona_id persona) pairings cons))
            allPersonas;
          relaxedEligible =
            (if length eligible = 0
             then filter (\<lambda>persona.
                    persona_id persona \<noteq> persona_id op \<and> underCommentLimit usage cons persona)
                    allPersonas
             else eligible)
      in if length relaxedEligible = 0 then ([], w)
         else let (scored, w1) = scoreCommenters relaxedEligible op usage w
              in (pickCommenters (sortByScoreDesc scored) count [], w1))"

definition updateTracker ::
  "string \<Rightarrow> (PersonaUsageTracker \<Rightarrow> PersonaUsageTracker) \<Rightarrow> PersonaUsage \<Rightarrow> PersonaUsage" where
  "updateTracker pid f usage = map (\<lambda>(k, v). if k = pid then (k, f v) else (k, v)) usage"

definition updateUsage :: "PersonaUsage \<Rightarrow> Persona \<Rightarrow> Persona list \<Rightarrow> MatchedSlot \<Rightarrow> PersonaUsage" where
  "updateUsage usage op commenters slot =
     (let usage1 = updateTracker (persona_id op)
            (\<lambda>t. t \<lparr> postsThisWeek := postsThisWeek t + 1,
                      lastPostDate := Some (date slot),
                      subredditsPostedTo := subredditsPostedTo t @ [subreddit_id (subreddit slot)] \<rparr>)
            usage
      in foldl (\<lambda>u commenter.
           updateTracker (persona_id commenter)
             (\<lambda>t. t \<lparr> commentsThisWeek := commentsThisWeek t + 1 \<rparr>) u) usage1 commenters)"

definition setAdd :: "'a \<Rightarrow> 'a list \<Rightarrow> 'a list" where
  "setAdd x xs = (if x \<in> set xs then xs else xs @ [x])"

fun pairsOf :: "'a list \<Rightarrow> ('a \<times> 'a) list" where
  "pairsOf [] = []"
| "pairsOf (x # xs) = map (Pair x) xs @ pairsOf xs"

definition updatePairings :: "string list \<Rightarrow> Persona \<Rightarrow> Persona list \<Rightarrow> string list" where
  "updatePairings pairings op commenters =
     (let pairings1 = foldl (\<lambda>ps commenter.
            setAdd (createPairingKey (persona_id op) (persona_id commenter)) ps) pairings commenters
      in foldl (\<lambda>ps (ci, cj). setAdd (createPairingKey (persona_id ci) (persona_id cj)) ps)
           pairings1 (pairsOf commenters))"

record AssignerState =
  assignedSlots :: "AssignedSlot list"
  personaUsage :: PersonaUsage
  pairingsThisWeek :: "string list"
  assignerWarnings :: "string list"

definition noEligibleOPMessage :: "World \<Rightarrow> MatchedSlot \<Rightarrow> string" where
  "noEligibleOPMessage w slot = ''Could not find eligible OP for slot at '' @ dateText w (date slot)"

text \<open>The body of the loop of \<open>assignPersonas\<close> over the slots.\<close>

definition assignSlot ::
  "Persona list \<Rightarrow> PlannerConstraints \<Rightarrow> MatchedSlot \<Rightarrow> AssignerState \<Rightarrow> World
     \<Rightarrow> AssignerState \<times> World" where
  "assignSlot allPersonas cons slot st w =
     (case selectOP slot allPersonas (personaUsage st) cons w of
        (None, w1) \<Rightarrow>
          (st \<lparr> assignerWarnings := assignerWarnings st @ [noEligibleOPMessage w slot] \<rparr>, w1)
      | (Some op, w1) \<Rightarrow>
          let maxCommenters = min (maxPersonasPerThread cons - 1)
                                (min (int (length allPersonas) - 1) 3);
              (r, w2) = Math_random w1;
              commenterCount = 1 + \<lfloor>r * real_of_int maxCommenters\<rfloor>;
              (commenters, w3) = selectCommenters op allPersonas commenterCount (personaUsage st)
                                   (pairingsThisWeek st) cons w2;
              (valid, issues) = validateThreadStructure (persona_id op)
                                  (map persona_id commenters) cons;
              assigned = MatchedSlot.extend slot
                           \<lparr> opPersona = op, commenterPersonas = commenters \<rparr>
          in (st \<lparr> assignedSlots := assignedSlots st @ [assigned],
                    personaUsage := updateUsage (personaUsage st) op commenters slot,
                    pairingsThisWeek := updatePairings (pairingsThisWeek st) op commenters,
                    assignerWarnings := (if \<not> valid then assignerWarnings st @ issues
                                         else assignerWarnings st) \<rparr>, w3))"

fun assignLoop ::
  "Persona list \<Rightarrow> PlannerConstraints \<Rightarrow> MatchedSlot list \<Rightarrow> AssignerState \<Rightarrow> World
     \<Rightarrow> AssignerState \<times> World" where
  "assignLoop allPersonas cons [] st w = (st, w)"
| "assignLoop allPersonas cons (slot # rest) st w =
     (let (st1, w1) = assignSlot allPersonas cons slot st w
      in assignLoop allPersonas cons rest st1 w1)"

definition initialUsage :: "Persona list \<Rightarrow> PersonaUsage" where
  "initialUsage allPersonas =
     foldl (\<lambda>u persona. mapSet (persona_id persona)
              \<lparr> postsThisWeek = 0, lastPostDate = None, commentsThisWeek = 0,
                subredditsPostedTo = [] \<rparr> u) [] allPersonas"

fun distributePersonas ::
  "Persona list \<Rightarrow> PersonaUsage \<Rightarrow> (string \<times> nat \<times> nat) list \<Rightarrow> (string \<times> nat \<times> nat) list" where
  "distributePersonas allPersonas [] acc = acc"
| "distributePersonas allPersonas ((pid, tracker) # rest) acc =
     distributePersonas allPersonas rest
       (case find (\<lambda>p. persona_id p = pid) allPersonas of
          Some persona \<Rightarrow>
            mapSet (username persona) (postsThisWeek tracker, commentsThisWeek tracker) acc
        | None \<Rightarrow> acc)"

record PersonaAssignerResult =
  assigner_slots :: "AssignedSlot list"
  personaDistribution :: "(string \<times> nat \<times> nat) list"
  pairingsUsed :: "string list"
  assigner_warnings :: "string list"

definition assignPersonas ::
  "MatchedSlot list \<Rightarrow> Persona list \<Rightarrow> PlannerConstraints option \<Rightarrow> World
     \<Rightarrow> js_error + PersonaAssignerResult \<times> World" where
  "assignPersonas matched allPersonas cons w =
     (let effectiveConstraints = (case cons of Some c \<Rightarrow> c | None \<Rightarrow> DEFAULT_CONSTRAINTS)
      in if length allPersonas < 2 then Inl (Error ''At least 2 personas are required'')
         else let (st, w1) = assignLoop allPersonas effectiveConstraints matched
                               \<lparr> assignedSlots = [], personaUsage = initialUsage allPersonas,
                                 pairingsThisWeek = [], assignerWarnings = [] \<rparr> w
              in Inr (\<lparr> assigner_slots = assignedSlots st,
                        personaDistribution = distributePersonas allPersonas (personaUsage st) [],
                        pairingsUsed = pairingsThisWeek st,
                        assigner_warnings = assignerWarnings st \<rparr>, w1))"

text \<open>
  For the statements about the assigner: the number of reactor entries of a persona id in a
  list of assigned slots; a random source that stays in the half-open unit interval, as
  \<open>Math.random\<close> does; whether some persona other than the author is still below the
  weekly comment limit; the property of the reactors of the \<open>k\<close>-th assigned slot; the
  invariant of the loop; and the constraints in force.
\<close>

definition commentsBefore :: "string \<Rightarrow> AssignedSlot list \<Rightarrow> nat" where
  "commentsBefore pid assigned =
     sum_list (map (\<lambda>s. length (filter (\<lambda>p. persona_id p = pid) (commenterPersonas s))) assigned)"

definition validRandom :: "World \<Rightarrow> bool" where
  "validRandom w = (\<forall>i. 0 \<le> rnd w i \<and> rnd w i < 1)"

definition othersUnderLimit :: "Persona list \<Rightarrow> Persona \<Rightarrow> PersonaUsage \<Rightarrow> PlannerConstraints \<Rightarrow> bool" where
  "othersUnderLimit allPersonas op usage cons =
     list_ex (\<lambda>p. persona_id p \<noteq> persona_id op \<and> underCommentLimit usage cons p) allPersonas"

definition reactorsOK :: "Persona list \<Rightarrow> PlannerConstraints \<Rightarrow> AssignedSlot list \<Rightarrow> nat \<Rightarrow> bool" where
  "reactorsOK allPersonas cons assigned k =
     (let s = assigned ! k
      in persona_id (opPersona s) \<notin> persona_id ` set (commenterPersonas s)
         \<and> int (length (commenterPersonas s)) \<le> maxPersonasPerThread cons - 1
         \<and> (commenterPersonas s \<noteq> []
              \<longleftrightarrow> list_ex (\<lambda>p. persona_id p \<noteq> persona_id (opPersona s)
                     \<and> int (commentsBefore (persona_id p) (take k assigned))
                          < maxCommentsPerPersonaPerWeek cons) allPersonas))"

definition assignerInv :: "Persona list \<Rightarrow> PlannerConstraints \<Rightarrow> AssignerState \<Rightarrow> bool" where
  "assignerInv allPersonas cons st =
     (persona_id ` set allPersonas \<subseteq> fst ` set (personaUsage st)
      \<and> (\<forall>pid \<in> fst ` set (personaUsage st).
            commentsThisWeek (trackerOf (personaUsage st) pid) = commentsBefore pid (assignedSlots st))
      \<and> (\<forall>k < length (assignedSlots st). reactorsOK allPersonas cons (assignedSlots st) k))"

definition effectiveConstraintsOf :: "PlannerConstraints option \<Rightarrow> PlannerConstraints" where
  "effectiveConstraintsOf cons = (case cons of Some c \<Rightarrow> c | None \<Rightarrow> DEFAULT_CONSTRAINTS)"


text \<open>
  The specification's wording of the invariant of an assigned slot, for comparison, and
  the projections used to display a run.
\<close>

definition spec_reactorInvariant :: "PlannerConstraints \<Rightarrow> AssignedSlot \<Rightarrow> bool" where
  "spec_reactorInvariant cons s =
     (opPersona s \<notin> set (commenterPersonas s)
      \<and> 1 \<le> length (commenterPersonas s)
      \<and> int (length (commenterPersonas s)) \<le> maxPersonasPerThread cons - 1)"

definition assignedSlotsOf :: "js_error + PersonaAssignerResult \<times> World \<Rightarrow> AssignedSlot list" where
  "assignedSlotsOf outcome = (case outcome of Inr (res, w) \<Rightarrow> assigner_slots res | Inl e \<Rightarrow> [])"

definition personaIdsOf :: "AssignedSlot \<Rightarrow> string \<times> string list" where
  "personaIdsOf s = (persona_id (opPersona s), map persona_id (commenterPersonas s))"


text \<open>
  Two pairs of personas interact in a slot when one is the author and the other a reactor,
  or when both are reactors; \<open>slotPairKeys\<close> lists the pairing keys of a slot.
\<close>

definition slotPairKeys :: "AssignedSlot \<Rightarrow> string list" where
  "slotPairKeys s =
     map (\<lambda>c. createPairingKey (persona_id (opPersona s)) (persona_id c)) (commenterPersonas s)
     @ map (\<lambda>(ci, cj). createPairingKey (persona_id ci) (persona_id cj))
         (pairsOf (commenterPersonas s))"

definition ex_matched :: "int \<Rightarrow> ThreadType \<Rightarrow> MatchedSlot" where
  "ex_matched d tt =
     \<lparr> date = d, dayOfWeek = 1, timeOfDay = afternoon,
       subreddit = ex_subreddit ''r/PowerPoint'', slot_keywords = [ex_keyword ''slides''],
       threadType = tt \<rparr>"

definition ex_tightComments :: PlannerConstraints where
  "ex_tightComments = DEFAULT_CONSTRAINTS \<lparr> maxCommentsPerPersonaPerWeek := 1 \<rparr>"

definition ex_draws :: "real list" where
  "ex_draws =
     [9 / 10, 0, 0, 0, 0, 0,
      1 / 2,
      0, 0, 0, 0, 0,
      0, 0, 0, 9 / 10, 0, 0,
      1 / 2,
      0, 9 / 10, 9 / 10, 0, 0]"

definition ex_world_draws :: World where
  "ex_world_draws = ex_world \<lparr> rnd := (\<lambda>i. if i < length ex_draws then ex_draws ! i else 0) \<rparr>"

definition ex_six :: "Persona list" where
  "ex_six =
     [ex_persona ''ann'' asks_questions, ex_persona ''bob'' gives_answers,
      ex_persona ''cat'' gives_answers, ex_persona ''dan'' asks_questions,
      ex_persona ''eve'' balanced, ex_persona ''fay'' balanced]"


section \<open>Text utilities of the content generator\<close>

text \<open>\<open>s.trim()\<close>.\<close>

definition trim :: "string \<Rightarrow> string" where
  "trim s = rev (dropWhile isSpace (rev (dropWhile isSpace s)))"

text \<open>\<open>s.split(/(?<=[.!?])\s+/)\<close>: split at the white space that follows a full stop, an exclamation mark or a question mark.\<close>

function splitSentences :: "string \<Rightarrow> string \<Rightarrow> string list" where
  "splitSentences cur [] = [rev cur]"
| "splitSentences cur (c # cs) =
     (if isSpace c \<and> cur \<noteq> [] \<and> hd cur \<in> set ''.!?''
      then rev cur # splitSentences [] (dropWhile isSpace cs)
      else splitSentences (c # cur) cs)"
  by pat_completeness auto
termination
  by (relation "measure (\<lambda>(cur, s). length s)")
     (auto simp: length_dropWhile_le less_Suc_eq_le)

text \<open>\<open>s.lastIndexOf(c)\<close> for a character: the last position of \<open>c\<close>, or \<open>-1\<close>.\<close>

definition lastIndexOf :: "string \<Rightarrow> char \<Rightarrow> int" where
  "lastIndexOf s c =
     (case filter (\<lambda>i. s ! i = c) (rev [0..<length s]) of
        [] \<Rightarrow> - 1
      | i # _ \<Rightarrow> int i)"

text \<open>The loop of \<open>clampToLength\<close> that accumulates whole sentences up to the limit.\<close>

fun accumulateSentences :: "string list \<Rightarrow> nat \<Rightarrow> string \<Rightarrow> string" where
  "accumulateSentences [] maxLen result = result"
| "accumulateSentences (sentence # rest) maxLen result =
     (let next = (if result \<noteq> [] then result @ '' '' @ sentence else sentence)
      in if length next > maxLen then result
         else accumulateSentences rest maxLen next)"

definition clampToLength :: "string \<Rightarrow> nat \<Rightarrow> string" where
  "clampToLength text maxLen =
     (let trimmed = trim text
      in if length trimmed \<le> maxLen then trimmed
         else let sentences = filter (\<lambda>s. s \<noteq> []) (splitSentences [] trimmed);
                  result = accumulateSentences sentences maxLen []
              in if result \<noteq> [] \<and> length result \<le> maxLen then result
                 else let sliced = trim (take maxLen trimmed);
                          lastPunct = max (lastIndexOf sliced CHR ''.'')
                                        (max (lastIndexOf sliced CHR ''!'') (lastIndexOf sliced CHR ''?''));
                          sliced = (if lastPunct > max 30 (int (maxLen div 2))
                                    then take (nat (lastPunct + 1)) sliced else sliced)
                      in trim sliced)"


section \<open>Text backend (src/lib/ai/openai.ts)\<close>

definition generateWithAI :: "World \<Rightarrow> GenerationResult \<times> World" where
  "generateWithAI w = (backend w (backendPos w), w \<lparr> backendPos := backendPos w + 1 \<rparr>)"

definition emptyData :: BackendData where
  "emptyData = \<lparr> data_title = None, data_body = None, data_text = None, data_variation = None \<rparr>"

text \<open>\<open>generateWithAIMock\<close> returns the canned data after a random delay: one random draw.\<close>

definition generateWithAIMock :: "BackendData \<Rightarrow> World \<Rightarrow> GenerationResult \<times> World" where
  "generateWithAIMock mockData w =
     (let (r, w1) = Math_random w
      in (\<lparr> success = True, gen_data = Some mockData, gen_error = None \<rparr>, w1))"

definition uuidv4 :: "World \<Rightarrow> string \<times> World" where
  "uuidv4 w = (uuid w (uuidPos w), w \<lparr> uuidPos := uuidPos w + 1 \<rparr>)"

definition generatePostId :: "World \<Rightarrow> string \<times> World" where
  "generatePostId w = (let (u, w1) = uuidv4 w in (''post_'' @ take 8 u, w1))"

definition generateCommentId :: "World \<Rightarrow> string \<times> World" where
  "generateCommentId w = (let (u, w1) = uuidv4 w in (''comment_'' @ take 8 u, w1))"

text \<open>\<open>result.success && result.data?.variation\<close>: the rewritten text, when there is one.\<close>

definition variationOf :: "GenerationResult \<Rightarrow> string option" where
  "variationOf result =
     (if \<not> success result then None
      else case gen_data result of
             None \<Rightarrow> None
           | Some d \<Rightarrow> (case data_variation d of
                          None \<Rightarrow> None
                        | Some v \<Rightarrow> if v = [] then None else Some v))"

text \<open>\<open>result.error || 'invalid response'\<close>.\<close>

definition errorOr :: "GenerationResult \<Rightarrow> string" where
  "errorOr result =
     (case gen_error result of
        None \<Rightarrow> ''invalid response''
      | Some e \<Rightarrow> if e = [] then ''invalid response'' else e)"


section \<open>Content generator (src/lib/planner/threadGenerator.ts)\<close>

definition generateCommentDelay :: "nat \<Rightarrow> bool \<Rightarrow> PlannerConstraints \<Rightarrow> World \<Rightarrow> int \<times> World" where
  "generateCommentDelay index isOPFollowUp cons w =
     (let (r, w1) = Math_random w
      in if isOPFollowUp
         then (let (lo, hi) = opFollowUpDelayMinutes cons
               in (lo + \<lfloor>r * real_of_int (hi - lo)\<rfloor>, w1))
         else if index = 0
         then (let range = maxDelayAfterPostMinutes cons - minDelayAfterPostMinutes cons
               in (minDelayAfterPostMinutes cons + \<lfloor>r * real_of_int range\<rfloor>, w1))
         else (let (lo, hi) = commentSpacingMinutes cons
               in (lo + \<lfloor>r * real_of_int (hi - lo)\<rfloor>, w1)))"

text \<open>
  \<open>xs[Math.floor(Math.random() * xs.length)]\<close>; the index is in range for a draw below 1.
\<close>

definition pickAt :: "string list \<Rightarrow> real \<Rightarrow> string" where
  "pickAt xs r = (let i = nat \<lfloor>r * real (length xs)\<rfloor> in if i < length xs then xs ! i else [])"

definition firstKeywordOr :: "AssignedSlot \<Rightarrow> string \<Rightarrow> string" where
  "firstKeywordOr slot dflt =
     (case slot_keywords slot of
        [] \<Rightarrow> dflt
      | k # ks \<Rightarrow> if keyword k = [] then dflt else keyword k)"

definition mockTitles :: "AssignedSlot \<Rightarrow> string list" where
  "mockTitles slot =
     (case threadType slot of
        question \<Rightarrow>
          [''Best '' @ firstKeywordOr slot ''tool'' @ '' for ''
             @ replaceFirst (subreddit_name (subreddit slot)) ''r/'' [] @ ''?'',
           ''What's everyone using for '' @ firstKeywordOr slot ''this'' @ ''?'',
           ''Looking for recommendations - '' @ firstKeywordOr slot ''help needed'']
      | advice \<Rightarrow>
          [''Need help with '' @ firstKeywordOr slot ''something'',
           ''Tips for '' @ firstKeywordOr slot ''improving workflow'' @ ''?'',
           ''How do you handle '' @ firstKeywordOr slot ''this challenge'' @ ''?'']
      | story \<Rightarrow>
          [''Just discovered '' @ firstKeywordOr slot ''something cool'',
           ''Finally figured out '' @ firstKeywordOr slot ''a solution'',
           ''My experience with '' @ firstKeywordOr slot ''this approach'']
      | discussion \<Rightarrow>
          [''What do you think about '' @ firstKeywordOr slot ''this topic'' @ ''?'',
           firstKeywordOr slot ''This topic'' @ '' - thoughts?'',
           ''Anyone else noticed '' @ firstKeywordOr slot ''this trend'' @ ''?''])"

definition mockBodies :: "string list" where
  "mockBodies =
     [''Been looking into this for a while and curious what others think. Any recommendations?'',
      ''Title says it all. Would love to hear your experiences.'',
      ''I've tried a few things but nothing quite fits. What's worked for you?'']"

definition generateMockPost :: "AssignedSlot \<Rightarrow> World \<Rightarrow> (string \<times> string) \<times> World" where
  "generateMockPost slot w =
     (let (r1, w1) = Math_random w;
          (r2, w2) = Math_random w1
      in ((pickAt (mockTitles slot) r1, pickAt mockBodies r2), w2))"

definition expertResponses :: "string list" where
  "expertResponses =
     [''I've been using Slideforge for this - it handles the layout automatically so you can focus on content.'',
      ''Tried a few options. Slideforge was the one that actually saved me time.'',
      ''Yeah, this is a common issue. I'd recommend looking into tools that automate the formatting part.'']"

definition casualResponses :: "string list" where
  "casualResponses =
     [''+1, interested in this too'',
      ''Same boat here. Following for recommendations.'',
      ''I've heard good things about a few tools, curious what others suggest.'']"

definition mockResponses :: "Persona \<Rightarrow> string list" where
  "mockResponses persona =
     (if postingStyle persona = gives_answers then expertResponses else casualResponses)"

definition generateMockComment :: "Persona \<Rightarrow> bool \<Rightarrow> World \<Rightarrow> string \<times> World" where
  "generateMockComment persona isFirst w =
     (let (r, w1) = Math_random w in (pickAt (mockResponses persona) r, w1))"

text \<open>
  \<open>sanitizePostTitle\<close> builds its regular expressions from the company name and from the
  banned phrases as they are; the first \<open>SyntaxError\<close> ends it.
\<close>

definition sanitizePostTitle ::
  "string \<Rightarrow> Company \<Rightarrow> GenerationPreferences option \<Rightarrow> World \<Rightarrow> js_error + string" where
  "sanitizePostTitle ttl company prefs w =
     (let next = trim ttl;
          next = (if next = [] then ''Thoughts on this?'' else next);
          replaced = (if js_includes (toLowerCase next) (toLowerCase (company_name company))
                      then regexReplace w next (company_name company) ''this tool''
                      else Inr next);
          banned = (case prefs of
                      None \<Rightarrow> []
                    | Some p \<Rightarrow> (case bannedPhrases p of None \<Rightarrow> [] | Some phrases \<Rightarrow> phrases))
      in foldl (\<lambda>acc phrase.
                  case acc of
                    Inl e \<Rightarrow> Inl e
                  | Inr nxt \<Rightarrow> (case regexReplace w nxt phrase [] of
                                Inl e \<Rightarrow> Inl e
                              | Inr shortened \<Rightarrow> Inr (trim shortened)))
           replaced banned)"

text \<open>\<open>preferences?.field && n < preferences.field\<close> and its mirror image; a limit of 0 is not a limit.\<close>

definition belowLimit :: "nat \<Rightarrow> nat option \<Rightarrow> bool" where
  "belowLimit n limit = (case limit of None \<Rightarrow> False | Some m \<Rightarrow> m \<noteq> 0 \<and> n < m)"

definition aboveLimit :: "nat \<Rightarrow> nat option \<Rightarrow> bool" where
  "aboveLimit n limit = (case limit of None \<Rightarrow> False | Some m \<Rightarrow> m \<noteq> 0 \<and> n > m)"

text \<open>\<open>if (limit && text.length > limit) text = clampToLength(text, limit)\<close>.\<close>

definition clampIfAbove :: "string \<Rightarrow> nat option \<Rightarrow> string" where
  "clampIfAbove text limit =
     (case limit of
        None \<Rightarrow> text
      | Some m \<Rightarrow> if m \<noteq> 0 \<and> length text > m then clampToLength text m else text)"

definition prefField :: "GenerationPreferences option \<Rightarrow> (GenerationPreferences \<Rightarrow> 'a option) \<Rightarrow> 'a option" where
  "prefField prefs field = (case prefs of None \<Rightarrow> None | Some p \<Rightarrow> field p)"

definition hasBannedPhrase :: "GenerationPreferences option \<Rightarrow> string \<Rightarrow> bool" where
  "hasBannedPhrase prefs lower =
     (case prefField prefs bannedPhrases of
        None \<Rightarrow> False
      | Some phrases \<Rightarrow> list_ex (\<lambda>phrase. js_includes lower (toLowerCase phrase)) phrases)"

definition removeCompanyMention :: "World \<Rightarrow> string option \<times> World" where
  "removeCompanyMention w = (let (result, w1) = generateWithAI w in (variationOf result, w1))"

definition regenerateComment :: "World \<Rightarrow> string option \<times> World" where
  "regenerateComment w = (let (result, w1) = generateWithAI w in (variationOf result, w1))"

definition orElse :: "string option \<Rightarrow> string \<Rightarrow> string" where
  "orElse revised current = (case revised of Some t \<Rightarrow> t | None \<Rightarrow> current)"

definition sanitizePostBody ::
  "string \<Rightarrow> Company \<Rightarrow> GenerationPreferences option \<Rightarrow> string list \<Rightarrow> World \<Rightarrow> string \<times> World" where
  "sanitizePostBody bdy company prefs kws w =
     (let next = trim bdy;
          lower = toLowerCase next;
          tooShort = belowLimit (length next) (prefField prefs minPostLength);
          tooLong = aboveLimit (length next) (prefField prefs maxPostLength);
          hasCompany = js_includes lower (toLowerCase (company_name company));
          hasBanned = hasBannedPhrase prefs lower
      in if mockMode w then (next, w)
         else let missingKeyword =
                    (if length kws > 0
                     then \<not> list_ex (\<lambda>kw. js_includes lower (toLowerCase kw)) kws else False);
                  (next, w1) =
                    (if tooShort \<or> tooLong \<or> hasCompany \<or> hasBanned \<or> missingKeyword
                     then (let (result, w1) = generateWithAI w
                           in (orElse (variationOf result) next, w1))
                     else (next, w));
                  (next, w2) =
                    (if \<not> mockMode w1
                        \<and> js_includes (toLowerCase next) (toLowerCase (company_name company))
                     then (let (revised, w2) = removeCompanyMention w1
                           in (orElse revised next, w2))
                     else (next, w1));
                  next = clampIfAbove next (prefField prefs maxPostLength)
              in (next, w2))"

definition isCommentLowQuality ::
  "string \<Rightarrow> Company \<Rightarrow> GenerationPreferences option \<Rightarrow> bool \<Rightarrow> bool" where
  "isCommentLowQuality text company prefs allowMention =
     (let trimmed = trim text
      in if belowLimit (length trimmed) (prefField prefs minCommentLength) then True
         else if aboveLimit (length trimmed) (prefField prefs maxCommentLength) then True
         else if hasBannedPhrase prefs (toLowerCase trimmed) then True
         else if \<not> allowMention
                 \<and> js_includes (toLowerCase trimmed) (toLowerCase (company_name company))
         then True
         else False)"



text \<open>The title and body of a reply that passes the shape test of \<open>generatePost\<close>.\<close>

definition postContentOf :: "GenerationResult \<Rightarrow> (string \<times> string) option" where
  "postContentOf result =
     (if \<not> success result then None
      else case gen_data result of
             None \<Rightarrow> None
           | Some d \<Rightarrow> (case data_title d of
                          None \<Rightarrow> None
                        | Some ttl \<Rightarrow> (case data_body d of
                                         None \<Rightarrow> None
                                       | Some bdy \<Rightarrow> Some (ttl, bdy))))"

text \<open>The text of a reply that passes the shape test of \<open>generateComments\<close>.\<close>

definition textOf :: "GenerationResult \<Rightarrow> string option" where
  "textOf result =
     (if \<not> success result then None
      else case gen_data result of None \<Rightarrow> None | Some d \<Rightarrow> data_text d)"

definition postFailure :: "AssignedSlot \<Rightarrow> GenerationResult \<Rightarrow> js_error" where
  "postFailure slot result =
     Error (''AI post generation failed for '' @ subreddit_name (subreddit slot) @ '': ''
              @ errorOr result)"

definition generatePost ::
  "AssignedSlot \<Rightarrow> Company \<Rightarrow> int \<Rightarrow> GenerationPreferences option \<Rightarrow> World
     \<Rightarrow> (js_error + Post) \<times> World" where
  "generatePost slot company week prefs w =
     (let (parsed, w1) =
            (if mockMode w
             then (let ((ttl, bdy), w1) = generateMockPost slot w;
                       (result, w2) = generateWithAIMock
                          (emptyData \<lparr> data_title := Some ttl, data_body := Some bdy \<rparr>) w1
                   in (Inr (ttl, bdy), w2))
             else (let (result, w1) = generateWithAI w
                   in case postContentOf result of
                        None \<Rightarrow> (Inl (postFailure slot result), w1)
                      | Some parsed \<Rightarrow> (Inr parsed, w1)))
      in case parsed of
           Inl e \<Rightarrow> (Inl e, w1)
         | Inr (ttl, bdy) \<Rightarrow>
             let (sanitizedBody, w2) =
                   sanitizePostBody bdy company prefs (map keyword (slot_keywords slot)) w1;
                 (pid, w3) = generatePostId w2
             in case sanitizePostTitle ttl company prefs w3 of
                  Inl e \<Rightarrow> (Inl e, w3)
                | Inr sanitizedTitle \<Rightarrow>
                    (Inr \<lparr> post_id = pid,
                           companyId = company_id company,
                           weekNumber = week,
                           subredditId = subreddit_id (subreddit slot),
                           subredditName = subreddit_name (subreddit slot),
                           personaId = persona_id (opPersona slot),
                           personaUsername = username (opPersona slot),
                           title = sanitizedTitle,
                           body = sanitizedBody,
                           scheduledAt = date slot,
                           keywordIds = map keyword_id (slot_keywords slot),
                           post_threadType = threadType slot,
                           status = draft \<rparr>, w3))"

definition subredditAllowsPromo :: "AssignedSlot \<Rightarrow> bool" where
  "subredditAllowsPromo slot =
     (case rules (subreddit slot) of
        None \<Rightarrow> True
      | Some r \<Rightarrow> allowsSelfPromotion r \<noteq> Some False)"

text \<open>
  The loop \<open>while (mentionIndices.size < maxMentionCount)\<close> draws until enough distinct
  indices are chosen; nothing bounds the number of draws, so the result is optional.
\<close>

partial_function (option) pickMentionIndices ::
  "nat list \<Rightarrow> int \<Rightarrow> nat \<Rightarrow> World \<Rightarrow> (nat list \<times> World) option" where
  "pickMentionIndices indices maxCount n w =
     (if int (length indices) < maxCount
      then pickMentionIndices (setAdd (nat \<lfloor>rnd w (rndPos w) * real n\<rfloor>) indices) maxCount n
             (w \<lparr> rndPos := rndPos w + 1 \<rparr>)
      else Some (indices, w))"

definition shouldForceProductMention :: "Post \<Rightarrow> bool" where
  "shouldForceProductMention p =
     (let text = toLowerCase (title p @ '' '' @ body p)
      in list_ex (\<lambda>t. js_includes text t)
           [''recommend'', ''tool'', ''software'', ''presentation'', ''slides'', ''deck'', ''ai'',
            ''template''])"

definition shouldMentionProduct :: "Persona list \<Rightarrow> World \<Rightarrow> bool \<times> World" where
  "shouldMentionProduct commenters w =
     (let (r, w1) = Math_random w
      in if r > 3 / 10 then (False, w1)
         else (list_ex (\<lambda>p. postingStyle p = gives_answers) commenters, w1))"

record MentionPlan =
  allowProduct :: bool
  maxMentionCount :: int
  mentionIndices :: "nat list"
  mentionProductIndex :: int

text \<open>The statements of \<open>generateComments\<close> before its loop over the reactors.\<close>

definition planMentions ::
  "Post \<Rightarrow> AssignedSlot \<Rightarrow> GenerationPreferences option \<Rightarrow> RiskTolerance option \<Rightarrow> World
     \<Rightarrow> (MentionPlan \<times> World) option" where
  "planMentions p slot prefs risk w =
     (let n = length (commenterPersonas slot);
          allow = (prefField prefs allowProductMention \<noteq> Some False \<and> risk \<noteq> Some risk_low
                   \<and> subredditAllowsPromo slot);
          mentionTargetCount =
            (if allow
             then max 0 (case prefField prefs productMentionCount of Some c \<Rightarrow> c | None \<Rightarrow> 0)
             else 0);
          maxCount = min mentionTargetCount (int n)
      in case (if allow \<and> maxCount > 0 then pickMentionIndices [] maxCount n w else Some ([], w)) of
           None \<Rightarrow> None
         | Some (indices, w1) \<Rightarrow>
             let forceProduct = (allow \<and> maxCount = 0 \<and> shouldForceProductMention p);
                 (productIndex, w2) =
                   (if allow \<and> maxCount = 0
                    then (if forceProduct then (0, w1)
                          else (let (mention, w2) = shouldMentionProduct (commenterPersonas slot) w1
                                in if mention
                                   then (let (r, w3) = Math_random w2
                                         in (\<lfloor>r * real n\<rfloor>, w3))
                                   else (- 1, w2)))
                    else (- 1, w1));
                 w3 = (if prefField prefs requireDisagreement = Some True \<and> n > 1
                       then snd (Math_random w2) else w2)
             in Some (\<lparr> allowProduct = allow, maxMentionCount = maxCount,
                         mentionIndices = indices, mentionProductIndex = productIndex \<rparr>, w3))"

text \<open>The retry loop that avoids a canned reply already used in the thread, at most 5 times.\<close>

function mockRetry ::
  "Persona \<Rightarrow> bool \<Rightarrow> string list \<Rightarrow> string \<Rightarrow> nat \<Rightarrow> World \<Rightarrow> string \<times> World" where
  "mockRetry persona isFirst used mock attempts w =
     (if mock \<in> set used \<and> attempts < 5
      then (let (mock', w1) = generateMockComment persona isFirst w
            in mockRetry persona isFirst used mock' (attempts + 1) w1)
      else (mock, w))"
  by pat_completeness auto
termination
  by (relation "measure (\<lambda>(persona, isFirst, used, mock, attempts, w). 5 - attempts)") auto

declare mockRetry.simps [simp del]

definition similarToPrevious :: "Comment list \<Rightarrow> string \<Rightarrow> bool" where
  "similarToPrevious previous text =
     list_ex (\<lambda>prev. calculateSimilarity (content prev) text > 1 / 2) previous"

definition reviseWhen :: "bool \<Rightarrow> string \<Rightarrow> World \<Rightarrow> string \<times> World" where
  "reviseWhen needed text w =
     (if needed then (let (revised, w1) = regenerateComment w in (orElse revised text, w1))
      else (text, w))"

definition commentFailure :: "Persona \<Rightarrow> GenerationResult \<Rightarrow> js_error" where
  "commentFailure persona result =
     Error (''AI comment generation failed for '' @ username persona @ '': '' @ errorOr result)"

definition isMentionTarget :: "MentionPlan \<Rightarrow> nat \<Rightarrow> bool" where
  "isMentionTarget plan i = (i \<in> set (mentionIndices plan) \<or> int i = mentionProductIndex plan)"

text \<open>The text of a reply in live mode, from the backend's draft to the last rewrite.\<close>

definition refineLiveText ::
  "Company \<Rightarrow> GenerationPreferences option \<Rightarrow> MentionPlan \<Rightarrow> nat \<Rightarrow> Comment list \<Rightarrow> string
     \<Rightarrow> World \<Rightarrow> string \<times> World" where
  "refineLiveText company prefs plan i previous draftText w =
     (let (text, w1) = reviseWhen (similarToPrevious previous draftText) draftText w;
          (text, w2) = reviseWhen (similarToPrevious previous text) text w1;
          (text, w3) = reviseWhen (isCommentLowQuality text company prefs (isMentionTarget plan i))
                         text w2;
          (text, w4) =
            (if prefField prefs allowProductMention = Some False
                \<and> js_includes (toLowerCase text) (toLowerCase (company_name company))
                \<and> int i \<noteq> mentionProductIndex plan \<and> i \<notin> set (mentionIndices plan)
             then (let (revised, w4) = removeCompanyMention w3 in (orElse revised text, w4))
             else (text, w3));
          tooShort = belowLimit (length (trim text)) (prefField prefs minCommentLength);
          tooLong = aboveLimit (length (trim text)) (prefField prefs maxCommentLength)
      in reviseWhen (tooShort \<or> tooLong \<or> similarToPrevious previous text) text w4)"

text \<open>One pass of the loop of \<open>generateComments\<close> over the reactors.\<close>

definition generateReply ::
  "Post \<Rightarrow> Company \<Rightarrow> GenerationPreferences option \<Rightarrow> PlannerConstraints \<Rightarrow> MentionPlan \<Rightarrow> nat
     \<Rightarrow> Persona \<Rightarrow> Comment list \<Rightarrow> string list \<Rightarrow> int \<Rightarrow> World
     \<Rightarrow> (js_error + Comment \<times> string list) \<times> World" where
  "generateReply p company prefs cons plan i persona previous used lastTimestamp w =
     (let (delay, w1) = generateCommentDelay i False cons w;
          commentTime = lastTimestamp + delay * 60000;
          (draftText, used1, w2) =
            (if mockMode w1
             then (let (mock, wa) = generateMockComment persona (i = 0) w1;
                       (mock, wb) = mockRetry persona (i = 0) used mock 0 wa;
                       (result, wc) = generateWithAIMock (emptyData \<lparr> data_text := Some mock \<rparr>) wb
                   in (Inr mock, setAdd mock used, wc))
             else (let (result, wa) = generateWithAI w1
                   in case textOf result of
                        None \<Rightarrow> (Inl (commentFailure persona result), used, wa)
                      | Some text \<Rightarrow> (Inr text, used, wa)))
      in case draftText of
           Inl e \<Rightarrow> (Inl e, w2)
         | Inr draft' \<Rightarrow>
             let (text, w3) = (if \<not> mockMode w2
                               then refineLiveText company prefs plan i previous draft' w2
                               else (draft', w2));
                 text = clampIfAbove text (prefField prefs maxCommentLength);
                 (cid, w4) = generateCommentId w3
             in (Inr (\<lparr> comment_id = cid,
                        postId = post_id p,
                        parentCommentId =
                          (if i = 0 then None
                           else if i - 1 < length previous \<and> comment_id (previous ! (i - 1)) \<noteq> []
                           then Some (comment_id (previous ! (i - 1)))
                           else None),
                        comment_personaId = persona_id persona,
                        comment_personaUsername = username persona,
                        content = text,
                        comment_scheduledAt = commentTime,
                        delayMinutes = delay,
                        comment_status = draft \<rparr>, used1), w4))"

fun replyLoop ::
  "Post \<Rightarrow> Company \<Rightarrow> GenerationPreferences option \<Rightarrow> PlannerConstraints \<Rightarrow> MentionPlan \<Rightarrow> nat
     \<Rightarrow> Persona list \<Rightarrow> Comment list \<Rightarrow> string list \<Rightarrow> int \<Rightarrow> World
     \<Rightarrow> (js_error + Comment list \<times> int) \<times> World" where
  "replyLoop p company prefs cons plan i [] previous used lastTimestamp w =
     (Inr (previous, lastTimestamp), w)"
| "replyLoop p company prefs cons plan i (persona # rest) previous used lastTimestamp w =
     (case generateReply p company prefs cons plan i persona previous used lastTimestamp w of
        (Inl e, w1) \<Rightarrow> (Inl e, w1)
      | (Inr (c, used1), w1) \<Rightarrow>
          replyLoop p company prefs cons plan (i + 1) rest (previous @ [c]) used1
            (comment_scheduledAt c) w1)"


definition followUpFailure :: "AssignedSlot \<Rightarrow> GenerationResult \<Rightarrow> js_error" where
  "followUpFailure slot result =
     Error (''AI OP follow-up failed for '' @ subreddit_name (subreddit slot) @ '': ''
              @ errorOr result)"

definition generateOPFollowUp ::
  "Post \<Rightarrow> Comment list \<Rightarrow> AssignedSlot \<Rightarrow> Company \<Rightarrow> int \<Rightarrow> PlannerConstraints \<Rightarrow> World
     \<Rightarrow> (js_error + Comment) \<times> World" where
  "generateOPFollowUp p previous slot company lastTimestamp cons w =
     (let (delay, w1) = generateCommentDelay 0 True cons w;
          commentTime = lastTimestamp + delay * 60000;
          (draftText, w2) =
            (if mockMode w1
             then (let (result, wa) = generateWithAIMock
                          (emptyData \<lparr> data_text :=
                             Some ''Thanks everyone, this is really helpful! I'll definitely check these out.'' \<rparr>)
                          w1
                   in (Inr ''Thanks everyone, this is really helpful! I'll definitely check these out.'', wa))
             else (let (result, wa) = generateWithAI w1
                   in case textOf result of
                        None \<Rightarrow> (Inl (followUpFailure slot result), wa)
                      | Some text \<Rightarrow> (Inr text, wa)))
      in case draftText of
           Inl e \<Rightarrow> (Inl e, w2)
         | Inr draft' \<Rightarrow>
             let (text, w3) =
                   (if \<not> mockMode w2
                       \<and> js_includes (toLowerCase draft') (toLowerCase (company_name company))
                    then (let (revised, w3) = removeCompanyMention w2 in (orElse revised draft', w3))
                    else (draft', w2));
                 (cid, w4) = generateCommentId w3
             in (Inr \<lparr> comment_id = cid,
                       postId = post_id p,
                       parentCommentId =
                         (if previous \<noteq> [] \<and> comment_id (last previous) \<noteq> []
                          then Some (comment_id (last previous)) else None),
                       comment_personaId = persona_id (opPersona slot),
                       comment_personaUsername = username (opPersona slot),
                       content = text,
                       comment_scheduledAt = commentTime,
                       delayMinutes = delay,
                       comment_status = draft \<rparr>, w4))"

text \<open>\<open>comments[targetIndex].content = text\<close> for the first comment of the persona, when there is one.\<close>

fun setFirstContent :: "string \<Rightarrow> string \<Rightarrow> Comment list \<Rightarrow> Comment list" where
  "setFirstContent pid text [] = []"
| "setFirstContent pid text (c # cs) =
     (if comment_personaId c = pid then c \<lparr> content := text \<rparr> # cs
      else c # setFirstContent pid text cs)"

text \<open>
  The loop of the final reconciliation over the targeted reactor indices. With no reactor
  at all the persona read is \<open>undefined\<close> and building the prompt throws a \<open>TypeError\<close>.
\<close>

fun forceMentions ::
  "AssignedSlot \<Rightarrow> nat list \<Rightarrow> Comment list \<Rightarrow> World \<Rightarrow> (js_error + Comment list) \<times> World" where
  "forceMentions slot [] current w = (Inr current, w)"
| "forceMentions slot (idx # targets) current w =
     (let n = length (commenterPersonas slot)
      in if n = 0
         then (Inl (TypeError ''Cannot read properties of undefined (reading 'username')''), w)
         else let persona = commenterPersonas slot ! (min idx (n - 1));
                  (result, w1) = generateWithAI w;
                  current1 = (case textOf result of
                                None \<Rightarrow> current
                              | Some text \<Rightarrow>
                                  if text = [] then current
                                  else setFirstContent (persona_id persona) text current)
              in forceMentions slot targets current1 w1)"

definition mentionsCompany :: "Company \<Rightarrow> Comment \<Rightarrow> bool" where
  "mentionsCompany company c =
     js_includes (toLowerCase (content c)) (toLowerCase (company_name company))"

definition reconcileMentions ::
  "AssignedSlot \<Rightarrow> Company \<Rightarrow> MentionPlan \<Rightarrow> Comment list \<Rightarrow> World
     \<Rightarrow> (js_error + Comment list) \<times> World" where
  "reconcileMentions slot company plan current w =
     (if allowProduct plan \<and> (maxMentionCount plan > 0 \<or> mentionProductIndex plan \<ge> 0)
      then (let mentionNeeded = (if maxMentionCount plan > 0 then maxMentionCount plan else 1);
                mentionCount = length (filter (mentionsCompany company) current);
                missingCount = max 0 (mentionNeeded - int mentionCount)
            in if missingCount > 0
               then (let targets = (if maxMentionCount plan > 0 then mentionIndices plan
                                    else if mentionProductIndex plan \<ge> 0
                                    then [nat (mentionProductIndex plan)] else [])
                     in forceMentions slot (take (nat missingCount) targets) current w)
               else (Inr current, w))
      else (Inr current, w))"

text \<open>
  The statements of \<open>generateComments\<close> up to its final reconciliation: the mention plan,
  the loop over the reactors, and the follow-up of the author, which is added after a draw
  above 1/2 when there is at least one reply.
\<close>

definition draftComments ::
  "Post \<Rightarrow> AssignedSlot \<Rightarrow> Company \<Rightarrow> GenerationPreferences option \<Rightarrow> PlannerConstraints option
     \<Rightarrow> RiskTolerance option \<Rightarrow> World \<Rightarrow> ((js_error + MentionPlan \<times> Comment list) \<times> World) option" where
  "draftComments p slot company prefs cons risk w =
     (let effectiveConstraints = (case cons of Some c \<Rightarrow> c | None \<Rightarrow> DEFAULT_CONSTRAINTS)
      in case planMentions p slot prefs risk w of
           None \<Rightarrow> None
         | Some (plan, w1) \<Rightarrow>
             Some (case replyLoop p company prefs effectiveConstraints plan 0
                          (commenterPersonas slot) [] [] (scheduledAt p) w1 of
                     (Inl e, w2) \<Rightarrow> (Inl e, w2)
                   | (Inr (replies, lastTimestamp), w2) \<Rightarrow>
                       let (r, w3) = Math_random w2
                       in if r > 1 / 2 \<and> length replies > 0
                          then (case generateOPFollowUp p replies slot company lastTimestamp
                                       effectiveConstraints w3 of
                                  (Inl e, w4) \<Rightarrow> (Inl e, w4)
                                | (Inr opFollowUp, w4) \<Rightarrow> (Inr (plan, replies @ [opFollowUp]), w4))
                          else (Inr (plan, replies), w3)))"

definition generateComments ::
  "Post \<Rightarrow> AssignedSlot \<Rightarrow> Company \<Rightarrow> GenerationPreferences option \<Rightarrow> PlannerConstraints option
     \<Rightarrow> RiskTolerance option \<Rightarrow> World \<Rightarrow> ((js_error + Comment list) \<times> World) option" where
  "generateComments p slot company prefs cons risk w =
     (case draftComments p slot company prefs cons risk w of
        None \<Rightarrow> None
      | Some (Inl e, w1) \<Rightarrow> Some (Inl e, w1)
      | Some (Inr (plan, current), w1) \<Rightarrow> Some (reconcileMentions slot company plan current w1))"

definition generateThread ::
  "AssignedSlot \<Rightarrow> Company \<Rightarrow> int \<Rightarrow> GenerationPreferences option \<Rightarrow> PlannerConstraints option
     \<Rightarrow> RiskTolerance option \<Rightarrow> World \<Rightarrow> ((js_error + Thread) \<times> World) option" where
  "generateThread slot company week prefs cons risk w =
     (case generatePost slot company week prefs w of
        (Inl e, w1) \<Rightarrow> Some (Inl e, w1)
      | (Inr p, w1) \<Rightarrow>
          (case generateComments p slot company prefs cons risk w1 of
             None \<Rightarrow> None
           | Some (Inl e, w2) \<Rightarrow> Some (Inl e, w2)
           | Some (Inr cs, w2) \<Rightarrow>
               Some (Inr \<lparr> thread_post = p, thread_comments = cs, thread_slot = slot \<rparr>, w2)))"

definition threadFailureMessage :: "AssignedSlot \<Rightarrow> js_error \<Rightarrow> string" where
  "threadFailureMessage slot e =
     ''Failed to generate thread for '' @ subreddit_name (subreddit slot) @ '': '' @ errorMessage e"

text \<open>
  The loop of \<open>generateThreads\<close> over the slots, with its \<open>try\<close> and \<open>catch\<close>: the threads
  generated and the messages of the failures caught, each in slot order.
\<close>

fun threadLoop ::
  "AssignedSlot list \<Rightarrow> Company \<Rightarrow> int \<Rightarrow> GenerationPreferences option \<Rightarrow> PlannerConstraints
     \<Rightarrow> RiskTolerance option \<Rightarrow> World \<Rightarrow> ((Thread list \<times> string list) \<times> World) option" where
  "threadLoop [] company week prefs cons risk w = Some (([], []), w)"
| "threadLoop (slot # rest) company week prefs cons risk w =
     (case generateThread slot company week prefs (Some cons) risk w of
        None \<Rightarrow> None
      | Some (outcome, w1) \<Rightarrow>
          (case threadLoop rest company week prefs cons risk w1 of
             None \<Rightarrow> None
           | Some ((ts, errs), w2) \<Rightarrow>
               (case outcome of
                  Inl e \<Rightarrow> Some ((ts, threadFailureMessage slot e # errs), w2)
                | Inr t \<Rightarrow> Some ((t # ts, errs), w2))))"

text \<open>The result of \<open>generateThreads\<close>; the elapsed wall-clock time is left out.\<close>

record ThreadGeneratorResult =
  gen_threads :: "Thread list"
  totalPosts :: nat
  totalComments :: nat
  gen_errors :: "string list"

definition generateThreads ::
  "AssignedSlot list \<Rightarrow> Company \<Rightarrow> int \<Rightarrow> GenerationPreferences option \<Rightarrow> PlannerConstraints option
     \<Rightarrow> RiskTolerance option \<Rightarrow> World \<Rightarrow> (ThreadGeneratorResult \<times> World) option" where
  "generateThreads assigned company week prefs cons risk w =
     (let effectiveConstraints = (case cons of Some c \<Rightarrow> c | None \<Rightarrow> DEFAULT_CONSTRAINTS)
      in case threadLoop assigned company week prefs effectiveConstraints risk w of
           None \<Rightarrow> None
         | Some ((ts, errs), w1) \<Rightarrow>
             Some (\<lparr> gen_threads = ts,
                     totalPosts = length ts,
                     totalComments = sum_list (map (\<lambda>t. length (thread_comments t)) ts),
                     gen_errors = errs \<rparr>, w1))"



subsection \<open>Example runs of the content generator\<close>

definition ex_assigned :: "int \<Rightarrow> Persona \<Rightarrow> Persona list \<Rightarrow> AssignedSlot" where
  "ex_assigned d op cs =
     MatchedSlot.extend (ex_matched d discussion) \<lparr> opPersona = op, commenterPersonas = cs \<rparr>"

definition ex_noMention :: GenerationPreferences where
  "ex_noMention =
     \<lparr> allowProductMention = Some False, productMentionCount = None, antiPromoChecks = None,
       bannedPhrases = None, commentGuidelines = None, minCommentLength = None,
       maxCommentLength = None, minPostLength = None, maxPostLength = None, autoRepair = None,
       requireDisagreement = None, repairPasses = None \<rparr>"

definition ex_failing_replies :: "GenerationResult list" where
  "ex_failing_replies =
     [\<lparr> success = True, gen_data = Some (emptyData \<lparr> data_body := Some ''no title'' \<rparr>),
        gen_error = None \<rparr>,
      \<lparr> success = True,
        gen_data = Some (emptyData \<lparr> data_title := Some ''Slide tips'',
                                     data_body := Some ''How do you build slides quickly?'' \<rparr>),
        gen_error = None \<rparr>,
      \<lparr> success = True, gen_data = Some emptyData, gen_error = None \<rparr>,
      \<lparr> success = True,
        gen_data = Some (emptyData \<lparr> data_title := Some ''Slide tips'',
                                     data_body := Some ''How do you build slides quickly?'' \<rparr>),
        gen_error = None \<rparr>,
      \<lparr> success = True, gen_data = Some (emptyData \<lparr> data_text := Some ''I start from an outline.'' \<rparr>),
        gen_error = None \<rparr>,
      \<lparr> success = False, gen_data = None, gen_error = Some ''timeout'' \<rparr>,
      \<lparr> success = True,
        gen_data = Some (emptyData \<lparr> data_title := Some ''Slide tips'',
                                     data_body := Some ''How do you build slides quickly?'' \<rparr>),
        gen_error = None \<rparr>,
      \<lparr> success = True, gen_data = Some (emptyData \<lparr> data_text := Some ''I start from an outline.'' \<rparr>),
        gen_error = None \<rparr>,
      \<lparr> success = True, gen_data = Some (emptyData \<lparr> data_text := Some ''Thanks, that helps.'' \<rparr>),
        gen_error = None \<rparr>]"

definition ex_failing_world :: World where
  "ex_failing_world =
     ex_world \<lparr> rnd := (\<lambda>i. 3 / 5),
                backend := (\<lambda>i. if i < length ex_failing_replies then ex_failing_replies ! i
                                else \<lparr> success = False, gen_data = None, gen_error = Some ''offline'' \<rparr>),
                mockMode := False \<rparr>"

definition generatedTitles :: "(ThreadGeneratorResult \<times> World) option \<Rightarrow> string list" where
  "generatedTitles outcome =
     (case outcome of
        None \<Rightarrow> []
      | Some (res, w) \<Rightarrow> map (\<lambda>t. title (thread_post t)) (gen_threads res))"

definition generatedErrors :: "(ThreadGeneratorResult \<times> World) option \<Rightarrow> string list" where
  "generatedErrors outcome = (case outcome of None \<Rightarrow> [] | Some (res, w) \<Rightarrow> gen_errors res)"


definition generatedReplies :: "(ThreadGeneratorResult \<times> World) option \<Rightarrow> Comment list" where
  "generatedReplies outcome =
     (case outcome of
        None \<Rightarrow> []
      | Some (res, w) \<Rightarrow> concat (map thread_comments (gen_threads res)))"

definition ex_post :: Post where
  "ex_post =
     \<lparr> post_id = ''post_0'', companyId = ''c1'', weekNumber = 1, subredditId = ''s1'',
       subredditName = ''r/PowerPoint'', personaId = ''ann'', personaUsername = ''ann'',
       title = ''Slide tips'', body = ''How do you build slides quickly?'', scheduledAt = 0,
       keywordIds = [], post_threadType = discussion, status = draft \<rparr>"



definition ex_named_replies :: "GenerationResult list" where
  "ex_named_replies =
     [\<lparr> success = True,
        gen_data = Some (emptyData \<lparr> data_title := Some ''Slide tips'',
                                     data_body := Some ''How do you build slides quickly?'' \<rparr>),
        gen_error = None \<rparr>,
      \<lparr> success = True,
        gen_data = Some (emptyData \<lparr> data_text := Some ''Slideforge fixed this for me.'' \<rparr>),
        gen_error = None \<rparr>]"

definition ex_named_world :: World where
  "ex_named_world =
     ex_world \<lparr> backend := (\<lambda>i. if i < length ex_named_replies then ex_named_replies ! i
                                else \<lparr> success = False, gen_data = None, gen_error = Some ''offline'' \<rparr>),
                mockMode := False \<rparr>"


subsection \<open>Example batches\<close>

definition ex_thread_in :: "Subreddit \<Rightarrow> string \<Rightarrow> Thread" where
  "ex_thread_in sub pid =
     \<lparr> thread_post = ex_post \<lparr> post_id := pid, subredditId := subreddit_id sub,
                                subredditName := subreddit_name sub \<rparr>,
       thread_comments = [],
       thread_slot = (ex_assigned 0 (ex_persona ''ann'' asks_questions)
                        [ex_persona ''bob'' gives_answers]) \<lparr> subreddit := sub \<rparr> \<rparr>"

definition ex_matcher_world :: World where
  "ex_matcher_world = ex_world \<lparr> rnd := (\<lambda>i. if i = 0 \<or> i = 5 then 9 / 10 else 1 / 10) \<rparr>"

definition ex_lowTier :: Subreddit where
  "ex_lowTier = (ex_subreddit ''r/PowerPoint'') \<lparr> sensitivity := Some sens_low \<rparr>"


section \<open>Quality engine (src/lib/planner/qualityChecker.ts, checkQuality)\<close>

text \<open>
  \<open>checkQuality\<close> and the checks it runs, of \<open>src/lib/planner/qualityChecker.ts\<close>. Every check
  reads the thread list and builds new arrays and objects; none assigns to a thread, a post
  or a comment, draws a random number, reads the clock or keeps a variable between calls, so
  the engine is a function of its configuration. What it takes from the JavaScript engine is
  the rendering of numbers and dates, in double arithmetic, which is a parameter here:
  \<open>isoDay\<close> stands for \<open>date.toISOString().slice(0, 10)\<close>, \<open>roundPercent\<close> for
  \<open>Math.round(x * 100)\<close> and \<open>toFixed1\<close> for \<open>x.toFixed(1)\<close>.
\<close>

record Rendering =
  isoDay :: "int \<Rightarrow> string"
  roundPercent :: "real \<Rightarrow> int"
  toFixed1 :: "real \<Rightarrow> string"

definition quoted :: "string \<Rightarrow> string" where
  "quoted s = [CHR 0x22] @ s @ [CHR 0x22]"

text \<open>\<open>truncate(text, maxLength)\<close>; every call passes 30.\<close>

definition truncate_text :: "string \<Rightarrow> nat \<Rightarrow> string" where
  "truncate_text text maxLength =
     (if length text \<le> maxLength then text else take (maxLength - 3) text @ ''...'')"

definition shortTitle :: "Thread \<Rightarrow> string" where
  "shortTitle thread = quoted (truncate_text (title (thread_post thread)) 30)"

text \<open>\<open>/a|b|c/i.test(s)\<close> for alternatives that are plain lower-case words.\<close>

definition matchesAny :: "string list \<Rightarrow> string \<Rightarrow> bool" where
  "matchesAny alternatives s = list_ex (js_includes (toLowerCase s)) alternatives"

text \<open>
  \<open>if (!m[k]) m[k] = []; m[k].push(v)\<close> and \<open>m[k] = m[k] || []; m[k].push(v)\<close> on a plain
  object \<open>m\<close>: for a key that is a property of \<open>Object.prototype\<close> no array is made, and the
  call of \<open>push\<close> throws a \<open>TypeError\<close>; \<open>what\<close> is the expression that the message quotes.
\<close>

definition pushOwn ::
  "string \<Rightarrow> string \<Rightarrow> 'a \<Rightarrow> (string \<times> 'a list) list \<Rightarrow> js_error + (string \<times> 'a list) list" where
  "pushOwn what k v m =
     (if map_of m k = None \<and> k \<in> set objectPrototypeKeys
      then Inl (TypeError (what @ ''.push is not a function''))
      else let m1 = (if map_of m k = None then m @ [(k, [])] else m)
           in Inr (map (\<lambda>(k', vs). if k' = k then (k', vs @ [v]) else (k', vs)) m1))"

text \<open>A loop whose body may throw: the first error ends it.\<close>

fun foldE :: "('s \<Rightarrow> 'a \<Rightarrow> js_error + 's) \<Rightarrow> 's \<Rightarrow> 'a list \<Rightarrow> js_error + 's" where
  "foldE f acc [] = Inr acc"
| "foldE f acc (x # xs) = (case f acc x of Inl e \<Rightarrow> Inl e | Inr acc1 \<Rightarrow> foldE f acc1 xs)"


subsection \<open>Duplication, persona collisions and timing\<close>

definition postText :: "Thread \<Rightarrow> string" where
  "postText thread = title (thread_post thread) @ '' '' @ body (thread_post thread)"

definition checkDuplication :: "Rendering \<Rightarrow> Thread list \<Rightarrow> QualityIssue list" where
  "checkDuplication r threads =
     concat (map (\<lambda>(a, b).
       let similarity = calculateSimilarity (postText a) (postText b)
       in if similarity \<ge> 1 / 2
          then [\<lparr> issue_type = duplication,
                  severity = (if similarity > 4 / 5 then sev_high else sev_medium),
                  message = ''Posts '' @ shortTitle a @ '' and '' @ shortTitle b @ '' are ''
                              @ showInt (roundPercent r similarity) @ ''% similar'',
                  affectedPostIds = Some [post_id (thread_post a), post_id (thread_post b)] \<rparr>]
          else []) (pairsOf threads))"

text \<open>The map \<open>pairings\<close> of \<open>checkPersonaCollisions\<close>: per pairing key, the count and the posts.\<close>

definition recordInteraction ::
  "string \<Rightarrow> (string \<times> nat \<times> string list) list \<Rightarrow> string \<Rightarrow> (string \<times> nat \<times> string list) list" where
  "recordInteraction pid pairings key =
     (let pairings1 = (if map_of pairings key = None then pairings @ [(key, 0, [])] else pairings)
      in map (\<lambda>(k, count, postIds).
                if k = key
                then (k, count + 1, if pid \<in> set postIds then postIds else postIds @ [pid])
                else (k, count, postIds)) pairings1)"

definition recordThreadInteractions ::
  "(string \<times> nat \<times> string list) list \<Rightarrow> Thread \<Rightarrow> (string \<times> nat \<times> string list) list" where
  "recordThreadInteractions pairings thread =
     (let opId = personaId (thread_post thread)
      in foldl (\<lambda>acc comment.
                  if comment_personaId comment = opId then acc
                  else recordInteraction (post_id (thread_post thread)) acc
                         (createPairingKey opId (comment_personaId comment)))
           pairings (thread_comments thread))"

definition checkPersonaCollisions :: "Thread list \<Rightarrow> QualityIssue list" where
  "checkPersonaCollisions threads =
     (let pairings = foldl recordThreadInteractions [] threads
      in concat (map (\<lambda>(key, count, postIds).
           if count > 2
           then [\<lparr> issue_type = persona_collision,
                   severity = sev_medium,
                   message = ''Personas '' @ replaceFirst key ''+'' '' and '' @ '' interact ''
                               @ showNat count @ '' times this week (may look coordinated)'',
                   affectedPostIds = Some postIds \<rparr>]
           else []) pairings))"

definition timingIssues :: "Thread \<Rightarrow> QualityIssue list" where
  "timingIssues thread =
     (case thread_comments thread of
        [] \<Rightarrow> []
      | first # later \<Rightarrow>
          (if delayMinutes first < 10
           then [\<lparr> issue_type = timing_issue,
                   severity = sev_medium,
                   message = ''First comment on '' @ shortTitle thread @ '' arrives in ''
                               @ showInt (delayMinutes first) @ '' minutes (suspiciously fast)'',
                   affectedPostIds = Some [post_id (thread_post thread)] \<rparr>]
           else [])
          @ concat (map (\<lambda>comment.
              let gap = delayMinutes comment
              in if gap < 5
                 then [\<lparr> issue_type = timing_issue,
                         severity = sev_low,
                         message = ''Comments in '' @ shortTitle thread @ '' are only ''
                                     @ showInt gap @ '' minutes apart'',
                         affectedPostIds = Some [post_id (thread_post thread)] \<rparr>]
                 else []) later))"

definition checkTimingIssues :: "Thread list \<Rightarrow> QualityIssue list" where
  "checkTimingIssues threads = concat (map timingIssues threads)"


subsection \<open>Promotional content\<close>

definition promoKeywords :: "string list" where
  "promoKeywords =
     [''best ever'', ''game changer'', ''life changing'', ''you should definitely'',
      ''highly recommend'', ''check it out'', ''amazing tool'', ''perfect solution'']"

text \<open>The loop over the pieces of text of a thread: the running score and the flagged content.\<close>

definition scanContent :: "Company \<Rightarrow> int \<times> string list \<Rightarrow> string \<Rightarrow> int \<times> string list" where
  "scanContent company acc piece =
     (let contentLower = toLowerCase piece;
          acc1 = (if js_includes contentLower (toLowerCase (company_name company))
                  then (fst acc + 4, snd acc @ [''Direct mention of '' @ quoted (company_name company)])
                  else acc)
      in foldl (\<lambda>a kw. if js_includes contentLower kw
                         then (fst a + 1, snd a @ [''Uses promotional phrase: '' @ quoted kw])
                         else a) acc1 promoKeywords)"

definition promoAssessment :: "Company \<Rightarrow> Thread \<Rightarrow> int \<times> string list" where
  "promoAssessment company thread =
     (let allContent = [title (thread_post thread), body (thread_post thread)]
                         @ map content (thread_comments thread);
          a = foldl (scanContent company) (0, []) allContent;
          positiveCount =
            length (filter (\<lambda>c. matchesAny [''love'', ''amazing'', ''great'', ''perfect'', ''excellent'']
                                   (content c)) (thread_comments thread));
          a1 = (if positiveCount \<ge> 2
                then (fst a + 2, snd a @ [''Multiple overly positive comments'']) else a);
          hasDisagreement =
            list_ex (\<lambda>c. matchesAny [''but'', ''though'', ''however'', ''not sure'', ''depends'', ''maybe'']
                           (content c)) (thread_comments thread)
      in if \<not> hasDisagreement \<and> length (thread_comments thread) > 1
         then (fst a1 + 1, snd a1 @ [''No disagreement or nuance in comments''])
         else a1)"

record PromoCheck =
  promo_issues :: "QualityIssue list"
  promo_warnings :: "string list"
  promo_warningsByPostId :: "(string \<times> string list) list"

definition promoStep :: "Company \<Rightarrow> PromoCheck \<Rightarrow> Thread \<Rightarrow> js_error + PromoCheck" where
  "promoStep company acc thread =
     (let (promoScore, flaggedContent) = promoAssessment company thread
      in if promoScore > maxPromoScoreAllowed DEFAULT_CONSTRAINTS
         then Inr (acc \<lparr> promo_issues := promo_issues acc @
                [\<lparr> issue_type = promo_sensitivity,
                   severity = (if promoScore > 8 then sev_high else sev_medium),
                   message = ''Thread '' @ shortTitle thread @ '' has high promotional score (''
                               @ showInt promoScore @ ''/10)'',
                   affectedPostIds = Some [post_id (thread_post thread)] \<rparr>] \<rparr>)
         else if promoScore > 4
         then (let warning = ''Thread '' @ shortTitle thread @ '' may seem promotional: ''
                               @ join '', '' flaggedContent
               in case pushOwn ''warningsByPostId[thread.post.id]'' (post_id (thread_post thread))
                         warning (promo_warningsByPostId acc) of
                    Inl e \<Rightarrow> Inl e
                  | Inr byPost \<Rightarrow>
                      Inr (acc \<lparr> promo_warnings := promo_warnings acc @ [warning],
                                 promo_warningsByPostId := byPost \<rparr>))
         else Inr acc)"

definition checkPromotionalContent :: "Thread list \<Rightarrow> Company \<Rightarrow> js_error + PromoCheck" where
  "checkPromotionalContent threads company =
     foldE (promoStep company)
       \<lparr> promo_issues = [], promo_warnings = [], promo_warningsByPostId = [] \<rparr> threads"


subsection \<open>Persona balance\<close>

text \<open>
  The object \<open>counts\<close> of \<open>checkPersonaBalance\<close>. The statement
  \<open>counts[id] = (counts[id] || 0) + 1\<close> adds 1 to a number; for an identifier that names a
  function of \<open>Object.prototype\<close> it stores the text of the function followed by \<open>1\<close>, a
  string that is not a number, and for \<open>__proto__\<close> it stores nothing.
\<close>

datatype Tally = Count nat | Concatenated

definition tallyPost :: "(string \<times> Tally) list \<Rightarrow> Thread \<Rightarrow> (string \<times> Tally) list" where
  "tallyPost counts thread =
     (let pid = personaId (thread_post thread)
      in case map_of counts pid of
           Some (Count n) \<Rightarrow> mapSet pid (Count (n + 1)) counts
         | Some Concatenated \<Rightarrow> counts
         | None \<Rightarrow>
             if pid = ''__proto__'' then counts
             else if pid \<in> set objectPrototypeKeys then counts @ [(pid, Concatenated)]
             else counts @ [(pid, Count 1)])"

text \<open>The average of the values, which is \<open>NaN\<close> (here \<open>None\<close>) when one of them is a string.\<close>

definition averageTally :: "Tally list \<Rightarrow> real option" where
  "averageTally tallies =
     (if list_ex (\<lambda>v. v = Concatenated) tallies then None
      else Some (real (foldl (\<lambda>a v. case v of Count n \<Rightarrow> a + n | Concatenated \<Rightarrow> a) 0 tallies)
                   / real (length tallies)))"

definition checkPersonaBalance ::
  "Rendering \<Rightarrow> Thread list \<Rightarrow> PlannerConstraints option \<Rightarrow> QualityIssue list" where
  "checkPersonaBalance r threads constraints =
     (let counts = objectEntries (foldl tallyPost [] threads)
      in if length counts = 0 then []
         else let avg = averageTally (map snd counts)
              in concat (map (\<lambda>(pid, tally).
                   case tally of
                     Concatenated \<Rightarrow> []
                   | Count count \<Rightarrow>
                       let overLimit = (case constraints of
                                          None \<Rightarrow> False
                                        | Some c \<Rightarrow> maxPostsPerPersonaPerWeek c \<noteq> 0
                                                    \<and> int count > maxPostsPerPersonaPerWeek c);
                           aboveAverage = (case avg of None \<Rightarrow> False | Some a \<Rightarrow> real count > a + 1)
                       in if overLimit \<or> aboveAverage
                          then [\<lparr> issue_type = persona_collision,
                                  severity = sev_low,
                                  message = ''Persona '' @ pid @ '' is overused ('' @ showNat count
                                              @ '' posts vs avg ''
                                              @ (case avg of None \<Rightarrow> ''NaN'' | Some a \<Rightarrow> toFixed1 r a)
                                              @ '')'',
                                  affectedPostIds =
                                    Some (map (\<lambda>t. post_id (thread_post t))
                                            (filter (\<lambda>t. personaId (thread_post t) = pid) threads)) \<rparr>]
                          else []) counts))"


subsection \<open>Venue rules\<close>

definition threadText :: "Thread \<Rightarrow> string" where
  "threadText t =
     toLowerCase (title (thread_post t) @ '' '' @ body (thread_post t) @ '' ''
                    @ join '' '' (map content (thread_comments t)))"

text \<open>The posts of a venue per calendar day, and one issue for each day above the daily limit.\<close>

definition dailyIssues :: "Rendering \<Rightarrow> Subreddit \<Rightarrow> nat \<Rightarrow> Thread list \<Rightarrow> js_error + QualityIssue list" where
  "dailyIssues r sub perDay threadsForSub =
     (case foldE (\<lambda>byDay t. pushOwn ''byDay[day]'' (isoDay r (scheduledAt (thread_post t))) t byDay)
             [] threadsForSub of
        Inl e \<Rightarrow> Inl e
      | Inr byDay \<Rightarrow>
          Inr (concat (map (\<lambda>(day, ts).
                 if length ts > perDay
                 then [\<lparr> issue_type = overposting,
                         severity = sev_medium,
                         message = subreddit_name sub @ '' exceeds max posts per day (''
                                     @ showNat (length ts) @ ''/'' @ showNat perDay
                                     @ '') on '' @ day,
                         affectedPostIds = Some (map (\<lambda>t. post_id (thread_post t)) ts) \<rparr>]
                 else []) (objectEntries byDay))))"

definition selfPromotionIssues :: "Subreddit \<Rightarrow> Company \<Rightarrow> Thread list \<Rightarrow> QualityIssue list" where
  "selfPromotionIssues sub company threadsForSub =
     concat (map (\<lambda>t.
       if js_includes (threadText t) (toLowerCase (company_name company))
       then [\<lparr> issue_type = promo_sensitivity,
               severity = sev_medium,
               message = subreddit_name sub
                           @ '' disallows self-promotion but thread mentions the company'',
               affectedPostIds = Some [post_id (thread_post t)] \<rparr>]
       else []) threadsForSub)"

text \<open>
  The body of the loop of \<open>checkSubredditRules\<close> over the venues, once \<open>bySubreddit\<close> is
  built. For a venue whose identifier is a property of \<open>Object.prototype\<close>,
  \<open>bySubreddit[sub.id]\<close> is that property and not an array, and \<open>threadsForSub.forEach\<close>
  throws.
\<close>

definition rulesIssues ::
  "Rendering \<Rightarrow> Thread list \<Rightarrow> Company \<Rightarrow> Subreddit \<Rightarrow> js_error + QualityIssue list" where
  "rulesIssues r threads company sub =
     (case rules sub of
        None \<Rightarrow> Inr []
      | Some rls \<Rightarrow>
          let threadsForSub = filter (\<lambda>t. subredditId (thread_post t) = subreddit_id sub) threads;
              limited = (case maxPostsPerDay rls of None \<Rightarrow> False | Some perDay \<Rightarrow> perDay \<noteq> 0);
              noPromotion = (allowsSelfPromotion rls = Some False)
          in if subreddit_id sub \<in> set objectPrototypeKeys \<and> (limited \<or> noPromotion)
             then Inl (TypeError ''threadsForSub.forEach is not a function'')
             else case (if limited then dailyIssues r sub (the (maxPostsPerDay rls)) threadsForSub
                        else Inr []) of
                    Inl e \<Rightarrow> Inl e
                  | Inr daily \<Rightarrow>
                      Inr (daily @ (if noPromotion then selfPromotionIssues sub company threadsForSub
                                    else [])))"

definition checkSubredditRules ::
  "Rendering \<Rightarrow> Thread list \<Rightarrow> Company \<Rightarrow> Subreddit list option \<Rightarrow> js_error + QualityIssue list" where
  "checkSubredditRules r threads company subreddits =
     (case subreddits of
        None \<Rightarrow> Inr []
      | Some subs \<Rightarrow>
          if length subs = 0 then Inr []
          else case foldE (\<lambda>bySubreddit t.
                             pushOwn ''bySubreddit[t.post.subredditId]'' (subredditId (thread_post t)) t
                               bySubreddit) [] threads of
                 Inl e \<Rightarrow> Inl e
               | Inr bySubreddit \<Rightarrow>
                   foldE (\<lambda>found sub. case rulesIssues r threads company sub of
                                        Inl e \<Rightarrow> Inl e
                                      | Inr extra \<Rightarrow> Inr (found @ extra)) [] subs)"


subsection \<open>Voice consistency\<close>

text \<open>The map \<open>personaContent\<close>: per persona, the texts it wrote, in insertion order.\<close>

definition addContent :: "string \<Rightarrow> string \<Rightarrow> (string \<times> string list) list \<Rightarrow> (string \<times> string list) list" where
  "addContent pid piece m =
     (let m1 = (if map_of m pid = None then m @ [(pid, [])] else m)
      in map (\<lambda>(k, pieces). if k = pid then (k, pieces @ [piece]) else (k, pieces)) m1)"

definition collectContent :: "(string \<times> string list) list \<Rightarrow> Thread \<Rightarrow> (string \<times> string list) list" where
  "collectContent personaContent thread =
     (let opId = personaId (thread_post thread);
          m1 = addContent opId (body (thread_post thread))
                 (addContent opId (title (thread_post thread)) personaContent)
      in foldl (\<lambda>m comment. addContent (comment_personaId comment) (content comment) m)
           m1 (thread_comments thread))"

definition checkVoiceConsistency :: "Rendering \<Rightarrow> Thread list \<Rightarrow> QualityIssue list \<times> string list" where
  "checkVoiceConsistency r threads =
     (let personaContent = foldl collectContent [] threads;
          found = concat (map (\<lambda>((idA, piecesA), (idB, piecesB)).
                    let similarity = calculateSimilarity (join '' '' piecesA) (join '' '' piecesB)
                    in if similarity > 1 / 2
                       then [\<lparr> issue_type = voice_inconsistency,
                               severity = sev_medium,
                               message = ''Two personas have very similar writing styles (''
                                           @ showInt (roundPercent r similarity) @ ''% overlap)'',
                               affectedPostIds = None \<rparr>]
                       else []) (pairsOf personaContent))
      in (found, if length personaContent < 3
                 then [''Consider using more personas for variety''] else []))"


subsection \<open>The engine\<close>

record QualityCheckConfig =
  cfg_threads :: "Thread list"
  cfg_company :: Company
  cfg_subreddits :: "Subreddit list option"
  cfg_constraints :: "PlannerConstraints option"
  cfg_allowProductMention :: "bool option"

record QualityReport =
  report_overallScore :: real
  report_issues :: "QualityIssue list"
  report_warnings :: "string list"
  report_suggestions :: "string list"
  report_issuesByPostId :: "(string \<times> QualityIssue list) list"
  report_warningsByPostId :: "(string \<times> string list) list"

record QualityCheckResult =
  validatedThreads :: "Thread list"
  qc_report :: QualityReport

text \<open>The loop that files every issue under each post it affects.\<close>

definition indexIssues :: "QualityIssue list \<Rightarrow> js_error + (string \<times> QualityIssue list) list" where
  "indexIssues found =
     foldE (\<lambda>m issue.
              foldE (\<lambda>m1 pid. pushOwn ''issuesByPostId[postId]'' pid issue m1) m
                (case affectedPostIds issue of Some pids \<Rightarrow> pids | None \<Rightarrow> []))
       [] found"

definition checkQuality :: "Rendering \<Rightarrow> QualityCheckConfig \<Rightarrow> js_error + QualityCheckResult" where
  "checkQuality r config =
     (let threads = cfg_threads config;
          company = cfg_company config;
          promoWanted = (cfg_allowProductMention config \<noteq> Some True)
      in case checkOverposting threads of
           Inl e \<Rightarrow> Inl e
         | Inr overposted \<Rightarrow>
       (case checkSubredditRules r threads company (cfg_subreddits config) of
           Inl e \<Rightarrow> Inl e
         | Inr ruleIssues \<Rightarrow>
       (case (if promoWanted then checkPromotionalContent threads company
              else Inr \<lparr> promo_issues = [], promo_warnings = [], promo_warningsByPostId = [] \<rparr>) of
           Inl e \<Rightarrow> Inl e
         | Inr promoCheck \<Rightarrow>
             let voiceCheck = checkVoiceConsistency r threads;
                 found = overposted
                           @ checkDuplication r threads
                           @ checkPersonaCollisions threads
                           @ checkTimingIssues threads
                           @ checkPersonaBalance r threads (cfg_constraints config)
                           @ ruleIssues
                           @ promo_issues promoCheck
                           @ fst voiceCheck;
                 warnings = promo_warnings promoCheck;
                 overallScore = calculateOverallScore found warnings (length threads);
                 suggestions = snd voiceCheck
                                 @ (if overallScore < 7
                                    then [''Consider reviewing threads with low scores before approval'']
                                    else [])
                                 @ (if length threads < 3
                                    then [''Adding more posts per week could improve visibility'']
                                    else [])
             in case indexIssues found of
                  Inl e \<Rightarrow> Inl e
                | Inr issuesByPostId \<Rightarrow>
                    Inr \<lparr> validatedThreads = threads,
                          qc_report =
                            \<lparr> report_overallScore = overallScore,
                              report_issues = found,
                              report_warnings = warnings,
                              report_suggestions = suggestions,
                              report_issuesByPostId = issuesByPostId,
                              report_warningsByPostId = promo_warningsByPostId promoCheck \<rparr> \<rparr>)))"



subsection \<open>An example batch for the quality engine\<close>

definition ex_comment :: "string \<Rightarrow> string \<Rightarrow> string \<Rightarrow> int \<Rightarrow> Comment" where
  "ex_comment cid persona reply delay =
     \<lparr> comment_id = cid, postId = ''post_0'', parentCommentId = None, comment_personaId = persona,
       comment_personaUsername = persona, content = reply, comment_scheduledAt = 0,
       delayMinutes = delay, comment_status = draft \<rparr>"

definition ex_thread :: Thread where
  "ex_thread =
     \<lparr> thread_post = ex_post,
       thread_comments = [ex_comment ''comment_0'' ''bob'' ''I start from an outline.'' 3],
       thread_slot = ex_assigned 0 (ex_persona ''ann'' asks_questions) [ex_persona ''bob'' gives_answers] \<rparr>"

text \<open>A rendering of numbers in exact arithmetic, with the day number for the day.\<close>

definition ex_rendering :: Rendering where
  "ex_rendering =
     \<lparr> isoDay = (\<lambda>t. showInt (t div ex_day)),
       roundPercent = (\<lambda>x. js_round (x * 100)),
       toFixed1 = (\<lambda>x. showInt (\<lfloor>x * 10 + 1 / 2\<rfloor> div 10) @ ''.'' @ showInt (\<lfloor>x * 10 + 1 / 2\<rfloor> mod 10)) \<rparr>"

definition ex_config :: QualityCheckConfig where
  "ex_config =
     \<lparr> cfg_threads = [ex_thread], cfg_company = ex_company, cfg_subreddits = None,
       cfg_constraints = None, cfg_allowProductMention = None \<rparr>"

definition ex_timing_issue :: QualityIssue where
  "ex_timing_issue =
     \<lparr> issue_type = timing_issue, severity = sev_medium,
       message = ''First comment on '' @ quoted ''Slide tips''
                   @ '' arrives in 3 minutes (suspiciously fast)'',
       affectedPostIds = Some [''post_0''] \<rparr>"


section \<open>Properties of the lexical similarity\<close>

lemma set_js_Set [simp]: "set (js_Set xs) = set xs"
  by (simp add: js_Set_def)

lemma length_js_Set: "length (js_Set xs) = card (set xs)"
proof -
  have "length (js_Set xs) = length (remdups (rev xs))"
    by (simp add: js_Set_def)
  also have "\<dots> = card (set (rev xs))"
    by (rule length_remdups_card_conv)
  finally show ?thesis by simp
qed

lemma isSpace_lowerChar [simp]: "isSpace (lowerChar c) = isSpace c"
  by (cases c) (auto simp: isSpace_def lowerChar_def)

lemma dropWhile_isSpace_lower:
  "dropWhile isSpace (map lowerChar cs) = map lowerChar (dropWhile isSpace cs)"
  by (induction cs) auto

lemma splitWs_lower:
  "splitWs (map lowerChar cur) (map lowerChar s) = map (map lowerChar) (splitWs cur s)"
proof (induction cur s rule: splitWs.induct)
  case (1 cur)
  show ?case by (simp add: rev_map)
next
  case (2 cur c cs)
  show ?case
  proof (cases "isSpace c")
    case True
    with 2(1) show ?thesis
      by (simp add: rev_map dropWhile_isSpace_lower)
  next
    case False
    with 2(2) show ?thesis by simp
  qed
qed

lemma split_whitespace_lower:
  "split_whitespace (toLowerCase s) = map toLowerCase (split_whitespace s)"
  using splitWs_lower [of "[]" s]
  by (simp add: split_whitespace_def toLowerCase_def [abs_def])

lemma length_toLowerCase [simp]: "length (toLowerCase w) = length w"
  by (simp add: toLowerCase_def)

lemma wordSet_empty:
  assumes "\<forall>w \<in> set (split_whitespace s). length w \<le> 3"
  shows "wordSet s = []"
proof -
  have "\<forall>w \<in> set (map toLowerCase (split_whitespace s)). length w \<le> 3"
    using assms by simp
  then have "filter (\<lambda>w. length w > 3) (split_whitespace (toLowerCase s)) = []"
    by (simp only: split_whitespace_lower filter_empty_conv not_less)
  then show ?thesis
    by (simp add: wordSet_def js_Set_def)
qed

lemma similarity_value:
  "calculateSimilarity a b =
     (if wordSet a = [] \<or> wordSet b = [] then 0
      else real (card (set (wordSet a) \<inter> set (wordSet b)))
             / real (card (set (wordSet a) \<union> set (wordSet b))))"
proof -
  have "{x \<in> set (wordSet a). x \<in> set (wordSet b)} = set (wordSet a) \<inter> set (wordSet b)"
    by auto
  then show ?thesis
    by (simp add: calculateSimilarity_def Let_def length_js_Set)
qed

lemma similarity_bounds: "0 \<le> calculateSimilarity a b \<and> calculateSimilarity a b \<le> 1"
proof -
  have "card (set (wordSet a) \<inter> set (wordSet b)) \<le> card (set (wordSet a) \<union> set (wordSet b))"
    by (rule card_mono) auto
  moreover have "0 < card (set (wordSet a) \<union> set (wordSet b))" if "wordSet a \<noteq> []"
    using that by (simp add: card_gt_0_iff)
  ultimately show ?thesis
    by (auto simp: similarity_value divide_le_eq_1)
qed

lemma similarity_sym: "calculateSimilarity a b = calculateSimilarity b a"
  by (simp add: similarity_value Int_commute Un_commute disj_commute)

text \<open>
  C10. For all strings \<open>a\<close> and \<open>b\<close>, \<open>calculateSimilarity a b\<close> lies between 0 and 1, is
  symmetric in its arguments, and is 0 whenever one of the two strings has no
  white-space-separated token longer than 3 characters.
\<close>

theorem calculateSimilarity_bounded_symmetric:
  "0 \<le> calculateSimilarity a b \<and> calculateSimilarity a b \<le> 1
   \<and> calculateSimilarity a b = calculateSimilarity b a
   \<and> ((\<forall>w \<in> set (split_whitespace a). length w \<le> 3)
        \<or> (\<forall>w \<in> set (split_whitespace b). length w \<le> 3)
      \<longrightarrow> calculateSimilarity a b = 0)"
proof -
  have "calculateSimilarity a b = 0"
    if "(\<forall>w \<in> set (split_whitespace a). length w \<le> 3)
        \<or> (\<forall>w \<in> set (split_whitespace b). length w \<le> 3)"
    using that by (auto simp: similarity_value dest: wordSet_empty)
  then show ?thesis
    using similarity_bounds [of a b] similarity_sym [of a b] by blast
qed

theorem calculateSimilarity_bounded_symmetric_witness:
  "list_all (\<lambda>w. length w \<le> 3) (split_whitespace ''the cat sat'')
   \<and> calculateSimilarity ''the cat sat'' ''presentation tools'' = 0
   \<and> calculateSimilarity ''presentation tools'' ''the cat sat'' = 0"
proof -
  have h: "\<forall>w \<in> set (split_whitespace ''the cat sat''). length w \<le> 3"
    by (simp add: split_whitespace_def isSpace_def)
  from calculateSimilarity_bounded_symmetric [of "''the cat sat''" "''presentation tools''"] h
  show ?thesis by (simp add: list_all_iff)
qed


section \<open>Properties of the scores\<close>

lemma deductIssues_closed:
  "deductIssues score issues =
     score - 2 * real (countSeverity sev_high issues)
           - real (countSeverity sev_medium issues)
           - (1 / 2) * real (countSeverity sev_low issues)"
proof (induction issues arbitrary: score)
  case Nil
  show ?case by (simp add: countSeverity_def)
next
  case (Cons i issues)
  show ?case
    by (cases "severity i") (simp_all add: Cons.IH countSeverity_def algebra_simps)
qed

lemma round_clamp_commute:
  "max 0 (min 10 (real_of_int (js_round (x * 10)) / 10))
     = spec_roundOneDecimal (spec_clamp x)"
proof -
  define n where "n = \<lfloor>x * 10 + 1 / 2\<rfloor>"
  have lhs: "max 0 (min 10 (real_of_int (js_round (x * 10)) / 10))
               = max 0 (min 10 (real_of_int n / 10))"
    by (simp add: js_round_def n_def)
  consider "x < 0" | "0 \<le> x \<and> x \<le> 10" | "10 < x" by linarith
  then show ?thesis
  proof cases
    case 1
    then have "n \<le> 0"
      by (simp add: n_def floor_le_iff)
    then have "max 0 (min 10 (real_of_int n / 10)) = 0"
      by (simp add: max_def min_def)
    moreover have "spec_roundOneDecimal (spec_clamp x) = 0"
      using 1 by (simp add: spec_roundOneDecimal_def spec_clamp_def js_round_def)
    ultimately show ?thesis using lhs by simp
  next
    case 2
    then have "0 \<le> n" and "n \<le> 100"
      by (simp_all add: n_def floor_le_iff le_floor_iff)
    then have "max 0 (min 10 (real_of_int n / 10)) = real_of_int n / 10"
      by (simp add: max_def min_def)
    moreover have "spec_roundOneDecimal (spec_clamp x) = real_of_int n / 10"
      using 2 by (simp add: spec_roundOneDecimal_def spec_clamp_def js_round_def n_def)
    ultimately show ?thesis using lhs by simp
  next
    case 3
    then have "100 \<le> n"
      by (simp add: n_def le_floor_iff)
    then have "max 0 (min 10 (real_of_int n / 10)) = 10"
      by (simp add: max_def min_def)
    moreover have "spec_roundOneDecimal (spec_clamp x) = 10"
      using 3 by (simp add: spec_roundOneDecimal_def spec_clamp_def js_round_def)
    ultimately show ?thesis using lhs by simp
  qed
qed

lemma overallScore_spec:
  "calculateOverallScore issues warnings n =
     spec_roundOneDecimal (spec_clamp
       (spec_rawScore (countSeverity sev_high issues) (countSeverity sev_medium issues)
          (countSeverity sev_low issues) (length warnings) n))"
proof -
  have "calculateOverallScore issues warnings n =
          max 0 (min 10 (real_of_int (js_round
            (spec_rawScore (countSeverity sev_high issues) (countSeverity sev_medium issues)
               (countSeverity sev_low issues) (length warnings) n * 10)) / 10))"
    by (simp add: calculateOverallScore_def Let_def deductIssues_closed spec_rawScore_def)
  then show ?thesis
    by (simp only: round_clamp_commute)
qed

lemma overallScore_range:
  "0 \<le> calculateOverallScore issues warnings n \<and> calculateOverallScore issues warnings n \<le> 10"
  by (simp add: calculateOverallScore_def Let_def)

lemma scoreThread_range:
  "0 \<le> fst (scoreThread thread company) \<and> fst (scoreThread thread company) \<le> 10"
  by (simp add: scoreThread_def Let_def)

text \<open>
  C7. For every issue list, warning list and thread count the batch score is 10 minus 2, 1
  and 0.5 per high, medium and low issue, minus 0.3 per warning, plus 0.5 when there are at
  least 3 threads, clamped to the interval from 0 to 10 and rounded to one decimal; it lies
  between 0 and 10, and so does the score of every thread computed by \<open>scoreThread\<close>.
\<close>

theorem overallScore_and_scoreThread:
  "calculateOverallScore issues warnings n =
     spec_roundOneDecimal (spec_clamp
       (spec_rawScore (countSeverity sev_high issues) (countSeverity sev_medium issues)
          (countSeverity sev_low issues) (length warnings) n))
   \<and> 0 \<le> calculateOverallScore issues warnings n
   \<and> calculateOverallScore issues warnings n \<le> 10
   \<and> 0 \<le> fst (scoreThread thread company)
   \<and> fst (scoreThread thread company) \<le> 10"
  using overallScore_spec [of issues warnings n] overallScore_range [of issues warnings n]
    scoreThread_range [of thread company]
  by blast


section \<open>Properties of the overposting check\<close>

lemma js_Set_snoc: "js_Set (xs @ [x]) = (if x \<in> set xs then js_Set xs else js_Set xs @ [x])"
  by (simp add: js_Set_def)

lemma distinct_js_Set [simp]: "distinct (js_Set xs)"
  by (simp add: js_Set_def)

lemma recordPost_step:
  assumes "subredditName (thread_post t) \<notin> set objectPrototypeKeys"
  shows "recordPost (map (\<lambda>v. (v, postCount ts v, postIdsOf ts v)) (venuesOf ts)) t =
           Inr (map (\<lambda>v. (v, postCount (ts @ [t]) v, postIdsOf (ts @ [t]) v)) (venuesOf (ts @ [t])))"
proof -
  let ?n = "subredditName (thread_post t)"
  have keys: "map_of (map (\<lambda>v. (v, postCount ts v, postIdsOf ts v)) (venuesOf ts)) ?n = None
               \<longleftrightarrow> ?n \<notin> set (map (\<lambda>t. subredditName (thread_post t)) ts)"
    by (simp add: map_of_eq_None_iff venuesOf_def image_image)
  show ?thesis
  proof (cases "?n \<in> set (map (\<lambda>t. subredditName (thread_post t)) ts)")
    case True
    then have v: "venuesOf (ts @ [t]) = venuesOf ts"
      by (simp add: venuesOf_def js_Set_snoc)
    show ?thesis
      using True keys assms
      by (simp add: recordPost_def v Let_def postCount_def postIdsOf_def)
  next
    case False
    then have v: "venuesOf (ts @ [t]) = venuesOf ts @ [?n]"
      by (simp add: venuesOf_def js_Set_snoc)
    have z: "postCount ts ?n = 0" "postIdsOf ts ?n = []"
      using False by (force simp: postCount_def postIdsOf_def filter_empty_conv image_iff)+
    have nin: "?n \<notin> set (venuesOf ts)"
      using False by (simp add: venuesOf_def)
    show ?thesis
      using False keys nin z assms
      by (auto simp add: recordPost_def v Let_def postCount_def postIdsOf_def)
  qed
qed

lemma counts_loop:
  assumes "list_all (\<lambda>t. subredditName (thread_post t) \<notin> set objectPrototypeKeys) threads"
  shows "countPosts threads =
           Inr (map (\<lambda>v. (v, postCount threads v, postIdsOf threads v)) (venuesOf threads))"
  using assms
proof (induction threads rule: rev_induct)
  case Nil
  show ?case by (simp add: countPosts_def venuesOf_def js_Set_def)
next
  case (snoc t ts)
  then have ok: "subredditName (thread_post t) \<notin> set objectPrototypeKeys"
    and ih: "countPosts ts = Inr (map (\<lambda>v. (v, postCount ts v, postIdsOf ts v)) (venuesOf ts))"
    by simp_all
  have "countPosts (ts @ [t])
          = (case countPosts ts of Inl e \<Rightarrow> Inl e | Inr counts \<Rightarrow> recordPost counts t)"
    by (simp add: countPosts_def)
  also have "\<dots> = recordPost (map (\<lambda>v. (v, postCount ts v, postIdsOf ts v)) (venuesOf ts)) t"
    by (simp only: ih sum.case)
  finally show ?case
    by (simp only: recordPost_step [OF ok])
qed

text \<open>
  What the check computes when no venue name is a property of \<open>Object.prototype\<close>: one issue
  for each venue with more posts than the constant cap of \<open>DEFAULT_CONSTRAINTS\<close>, which is 2.
\<close>

lemma checkOverposting_char:
  assumes "list_all (\<lambda>t. subredditName (thread_post t) \<notin> set objectPrototypeKeys) threads"
  shows "checkOverposting threads =
           Inr (map (\<lambda>(v, n, ids). overpostingIssue v n ids)
                  (filter (\<lambda>(v, n, ids). n > 2)
                     (objectEntries
                        (map (\<lambda>v. (v, postCount threads v, postIdsOf threads v)) (venuesOf threads)))))"
proof -
  have flagged: "concat (map (\<lambda>x. if P x then [f x] else []) xs) = map f (filter P xs)"
    for P and f :: "string \<times> nat \<times> string list \<Rightarrow> QualityIssue" and xs
    by (induction xs) auto
  show ?thesis
    by (simp add: checkOverposting_def counts_loop [OF assms] DEFAULT_CONSTRAINTS_def
          case_prod_unfold flagged)
qed

lemma checkOverposting_prototype_key:
  assumes "subredditName (thread_post t) \<in> set objectPrototypeKeys"
  shows "checkOverposting (t # ts) = Inl (TypeError ''Cannot read properties of undefined (reading 'push')'')"
proof -
  have stuck: "foldl (\<lambda>acc thread. case acc of Inl e \<Rightarrow> Inl e | Inr counts \<Rightarrow> recordPost counts thread)
                 (Inl e) xs = Inl e" for e xs
    by (induction xs) simp_all
  show ?thesis
    using assms by (simp add: checkOverposting_def countPosts_def recordPost_def stuck)
qed


text \<open>
  C8 does not hold of \<open>checkOverposting\<close>. The venue \<open>r/consulting\<close> has the preset cap 1
  (\<open>getSubredditConstraints\<close>), and two posts in it raise no issue; a venue of low sensitivity
  has the effective cap 3, and three posts in it raise an issue that names the cap 2.
\<close>

theorem overposting_check_ignores_venue_cap:
  "maxPostsPerSubredditPerWeek
       (getSubredditConstraints (ex_subreddit ''r/consulting'') DEFAULT_CONSTRAINTS) = 1
   \<and> checkOverposting [ex_thread_in (ex_subreddit ''r/consulting'') ''post_1'',
                        ex_thread_in (ex_subreddit ''r/consulting'') ''post_2''] = Inr []
   \<and> maxPostsPerSubredditPerWeek (getSubredditConstraints ex_lowTier DEFAULT_CONSTRAINTS) = 3
   \<and> checkOverposting [ex_thread_in ex_lowTier ''post_1'', ex_thread_in ex_lowTier ''post_2'',
                        ex_thread_in ex_lowTier ''post_3'']
       = Inr [\<lparr> issue_type = overposting, severity = sev_high,
                 message = ''r/PowerPoint has 3 posts this week (max: 2)'',
                 affectedPostIds = Some [''post_1'', ''post_2'', ''post_3''] \<rparr>]"
  by (simp add: getSubredditConstraints_def SUBREDDIT_PRESETS_def spread_def
        checkOverposting_def countPosts_def recordPost_def objectPrototypeKeys_def
        objectEntries_def isArrayIndex_def overpostingIssue_def DEFAULT_CONSTRAINTS_def
        ex_thread_in_def ex_lowTier_def ex_subreddit_def ex_post_def showInt_def showNat.simps
        digitChar_def Let_def)


section \<open>Validation before the pipeline\<close>

lemma validationErrors_capacity:
  assumes "postsPerWeek input
             > int (length (in_subreddits input)) * maxPostsPerSubredditPerWeek cons"
  shows "validateInput input cons = Inl (multiLineError (validationErrors input cons))"
proof -
  have "capacityError input cons \<in> set (validationErrors input cons)"
    using assms by (simp add: validationErrors_def)
  then have "length (validationErrors input cons) > 0"
    by (cases "validationErrors input cons") auto
  then show ?thesis
    by (simp add: validateInput_def Let_def)
qed

text \<open>
  C3. A request whose post count exceeds the number of venues times the weekly cap per
  venue (the cap in force for the run, after the risk-tolerance adjustment) makes
  \<open>generateWeeklyCalendar\<close> raise one error before any phase is entered, whatever the
  phases are. Its message is the header line followed by one line per validation failure:
  the capacity line is among them, and each of the other failures (company without id or
  name, fewer than 2 personas, a persona with a missing field, no venue, no keyword, a post
  count below 1, an invalid start date) has its line there exactly when it applies.
\<close>

theorem capacity_validation_error:
  assumes "postsPerWeek input
             > int (length (in_subreddits input))
                 * maxPostsPerSubredditPerWeek (resolvedConstraints input)"
  shows "\<exists>ls. generateWeeklyCalendar phases input
                = ([], Inl (Error (''Invalid planner input:'' @ [CHR 0x0A]
                                     @ join [CHR 0x0A] (map (\<lambda>e. ''  - '' @ e) ls))))
            \<and> (''Cannot schedule '' @ showInt (postsPerWeek input) @ '' posts with only ''
                 @ showNat (length (in_subreddits input)) @ '' subreddits (max ''
                 @ showInt (maxPostsPerSubredditPerWeek (resolvedConstraints input))
                 @ '' per subreddit)'') \<in> set ls
            \<and> (''Company must have id and name'' \<in> set ls
                 \<longleftrightarrow> company_id (in_company input) = [] \<or> company_name (in_company input) = [])
            \<and> (''At least 2 personas are required'' \<in> set ls
                 \<longleftrightarrow> length (in_personas input) < 2)
            \<and> (''At least 1 subreddit is required'' \<in> set ls \<longleftrightarrow> in_subreddits input = [])
            \<and> (''At least 1 keyword is required'' \<in> set ls \<longleftrightarrow> in_keywords input = [])
            \<and> (''Posts per week must be at least 1'' \<in> set ls \<longleftrightarrow> postsPerWeek input < 1)
            \<and> (''Invalid week start date'' \<in> set ls \<longleftrightarrow> weekStartDate input = None)
            \<and> (\<forall>persona \<in> set (in_personas input).
                   persona_id persona = [] \<or> username persona = [] \<or> bio persona = []
                   \<longrightarrow> (''Persona '' @ (if username persona = [] then ''unknown'' else username persona)
                          @ '' missing required fields'') \<in> set ls)"
proof -
  let ?cons = "resolvedConstraints input"
  let ?ls = "validationErrors input ?cons"
  have run: "generateWeeklyCalendar phases input
               = ([], Inl (Error (''Invalid planner input:'' @ [CHR 0x0A]
                                    @ join [CHR 0x0A] (map (\<lambda>e. ''  - '' @ e) ?ls))))"
    using validationErrors_capacity [OF assms]
    by (simp add: generateWeeklyCalendar_def Let_def multiLineError_def newline_def)
  have cap: "(''Cannot schedule '' @ showInt (postsPerWeek input) @ '' posts with only ''
                 @ showNat (length (in_subreddits input)) @ '' subreddits (max ''
                 @ showInt (maxPostsPerSubredditPerWeek ?cons) @ '' per subreddit)'') \<in> set ?ls"
    using assms by (simp add: validationErrors_def capacityError_def)
  have company: "''Company must have id and name'' \<in> set ?ls
                 \<longleftrightarrow> company_id (in_company input) = [] \<or> company_name (in_company input) = []"
    by (auto simp: validationErrors_def capacityError_def split: if_splits)
  have personas: "''At least 2 personas are required'' \<in> set ?ls
                 \<longleftrightarrow> length (in_personas input) < 2"
    by (auto simp: validationErrors_def capacityError_def split: if_splits)
  have venues: "''At least 1 subreddit is required'' \<in> set ?ls \<longleftrightarrow> in_subreddits input = []"
    by (auto simp: validationErrors_def capacityError_def split: if_splits)
  have kws: "''At least 1 keyword is required'' \<in> set ?ls \<longleftrightarrow> in_keywords input = []"
    by (auto simp: validationErrors_def capacityError_def split: if_splits)
  have count: "''Posts per week must be at least 1'' \<in> set ?ls \<longleftrightarrow> postsPerWeek input < 1"
    by (auto simp: validationErrors_def capacityError_def split: if_splits)
  have start: "''Invalid week start date'' \<in> set ?ls \<longleftrightarrow> weekStartDate input = None"
    by (auto simp: validationErrors_def capacityError_def split: if_splits)
  have fields: "\<forall>persona \<in> set (in_personas input).
                   persona_id persona = [] \<or> username persona = [] \<or> bio persona = []
                   \<longrightarrow> (''Persona '' @ (if username persona = [] then ''unknown'' else username persona)
                          @ '' missing required fields'') \<in> set ?ls"
    by (auto simp: validationErrors_def)
  show ?thesis
    by (intro exI [of _ ?ls] conjI run cap company personas venues kws count start fields)
qed

lemma ex_bad_input_cap: "maxPostsPerSubredditPerWeek (resolvedConstraints ex_bad_input) = 2"
  by (simp add: resolvedConstraints_def ex_bad_input_def ex_input_def applyRiskTolerance_def
      DEFAULT_CONSTRAINTS_def)

theorem capacity_validation_error_witness:
  "postsPerWeek ex_bad_input
     > int (length (in_subreddits ex_bad_input))
         * maxPostsPerSubredditPerWeek (resolvedConstraints ex_bad_input)
   \<and> generateWeeklyCalendar (\<lambda>input cons. ([SlotAllocation], Inr ())) ex_bad_input
       = ([], Inl (Error (''Invalid planner input:'' @ [CHR 0x0A]
            @ ''  - At least 2 personas are required'' @ [CHR 0x0A]
            @ ''  - At least 1 keyword is required'' @ [CHR 0x0A]
            @ ''  - Cannot schedule 5 posts with only 1 subreddits (max 2 per subreddit)''
            @ [CHR 0x0A]
            @ ''  - Invalid week start date'')))"
proof -
  have h: "postsPerWeek ex_bad_input
             > int (length (in_subreddits ex_bad_input))
                 * maxPostsPerSubredditPerWeek (resolvedConstraints ex_bad_input)"
    by (simp add: ex_bad_input_cap) (simp add: ex_bad_input_def ex_input_def)
  have ls: "validationErrors ex_bad_input (resolvedConstraints ex_bad_input)
          = [''At least 2 personas are required'', ''At least 1 keyword is required'',
             ''Cannot schedule 5 posts with only 1 subreddits (max 2 per subreddit)'',
             ''Invalid week start date'']"
    by (simp add: validationErrors_def capacityError_def ex_bad_input_cap)
       (simp add: ex_bad_input_def ex_input_def ex_company_def ex_persona_def showInt_def showNat.simps
          digitChar_def)
  have "generateWeeklyCalendar (\<lambda>input cons. ([SlotAllocation], Inr ())) ex_bad_input
          = ([], Inl (multiLineError (validationErrors ex_bad_input (resolvedConstraints ex_bad_input))))"
    using validationErrors_capacity [OF h]
    by (simp add: generateWeeklyCalendar_def Let_def)
  with capacity_validation_error [OF h, of "\<lambda>input cons. ([SlotAllocation], Inr ())"] h
  show ?thesis
    by (simp add: ls multiLineError_def newline_def)
qed


section \<open>The community matcher respects the weekly cap\<close>

lemma map_of_mapSet: "map_of (mapSet k v al) k' = (if k' = k then Some v else map_of al k')"
  by (induction al) auto

lemma scoreSubreddits_fst: "map fst (fst (scoreSubreddits subs usage w)) = subs"
  by (induction subs arbitrary: w) (auto simp: Let_def split_beta)

lemma set_sortByScoreDesc [simp]: "set (sortByScoreDesc scored) = set scored"
  by (simp add: sortByScoreDesc_def)

lemma sortByScoreDesc_Nil [simp]: "sortByScoreDesc scored = [] \<longleftrightarrow> scored = []"
proof -
  have "length (sortByScoreDesc scored) = length scored"
    by (simp add: sortByScoreDesc_def)
  then show ?thesis by (metis length_0_conv)
qed

lemma selectSubreddit_Some:
  assumes "selectSubreddit subs usage d cons w = (Some s, w1)"
  shows "s \<in> set subs \<and> allowed (canPostToSubreddit (subreddit_id s) usage cons d)"
proof -
  let ?el = "filter (\<lambda>sub. allowed (canPostToSubreddit (subreddit_id sub) usage cons d)) subs"
  let ?sc = "fst (scoreSubreddits ?el usage w)"
  from assms have ne: "?el \<noteq> []" and s: "s = fst (hd (sortByScoreDesc ?sc))"
    by (auto simp: selectSubreddit_def Let_def split_beta split: if_splits)
  have m: "map fst ?sc = ?el" by (rule scoreSubreddits_fst)
  with ne have "?sc \<noteq> []" by auto
  then have "hd (sortByScoreDesc ?sc) \<in> set ?sc"
    by (metis hd_in_set set_sortByScoreDesc sortByScoreDesc_Nil)
  then have "s \<in> set (map fst ?sc)"
    using s by simp
  then have "s \<in> set ?el" by (simp only: m)
  then show ?thesis by simp
qed

lemma canPost_allowed:
  assumes "allowed (canPostToSubreddit sid usage cons d)" and "map_of usage sid = Some u"
  shows "int (postsThisWeek u) < maxPostsPerSubredditPerWeek cons"
  using assms by (auto simp: canPostToSubreddit_def split: if_splits)

lemma venueCount_snoc:
  "venueCount sid (ms @ [m]) = venueCount sid ms + (if subreddit_id (subreddit m) = sid then 1 else 0)"
  by (simp add: venueCount_def)

lemma matchSlot_usageAgrees:
  assumes inv: "usageAgrees cons st" and cap: "1 \<le> maxPostsPerSubredditPerWeek cons"
    and step: "matchSlot subs kws fp cons slot st w = (st1, w1)"
  shows "usageAgrees cons st1
         \<and> length (matchedSlots st1) + length (topicsSkipped st1)
             = Suc (length (matchedSlots st) + length (topicsSkipped st))"
proof (cases "fst (selectSubreddit subs (subredditUsage st) (date slot) cons w)")
  case None
  then obtain w0 where "selectSubreddit subs (subredditUsage st) (date slot) cons w = (None, w0)"
    by (cases "selectSubreddit subs (subredditUsage st) (date slot) cons w") auto
  with step have "st1 = st \<lparr> topicsSkipped := topicsSkipped st @ [skippedSlotMessage w slot] \<rparr>"
    by (auto simp: matchSlot_def)
  with inv show ?thesis by (simp add: usageAgrees_def cong: option.case_cong)
next
  case (Some sel)
  then obtain w0 where sl: "selectSubreddit subs (subredditUsage st) (date slot) cons w = (Some sel, w0)"
    by (cases "selectSubreddit subs (subredditUsage st) (date slot) cons w") auto
  obtain ks w2 where sk: "selectKeywords kws sel (keywordUsage st) fp 2 w0 = (ks, w2)"
    by (cases "selectKeywords kws sel (keywordUsage st) fp 2 w0") auto
  let ?cur = "case map_of (subredditUsage st) (subreddit_id sel) of
                Some u \<Rightarrow> postsThisWeek u | None \<Rightarrow> 0"
  let ?m = "\<lparr> date = date slot, dayOfWeek = dayOfWeek slot, timeOfDay = timeOfDay slot,
              subreddit = sel, slot_keywords = ks, threadType = determineThreadType ks \<rparr>"
  from step sl sk have st1:
    "st1 = st \<lparr> matchedSlots := matchedSlots st @ [?m],
                 subredditUsage := mapSet (subreddit_id sel)
                    \<lparr> postsThisWeek = ?cur + 1, lastPostDate = Some (date slot) \<rparr> (subredditUsage st),
                 keywordUsage := countKeywords ks (keywordUsage st) \<rparr>"
    by (simp add: matchSlot_def Let_def)
  have al: "allowed (canPostToSubreddit (subreddit_id sel) (subredditUsage st) cons (date slot))"
    using selectSubreddit_Some [OF sl] by simp
  have cur: "?cur = venueCount (subreddit_id sel) (matchedSlots st)"
    using inv by (auto simp: usageAgrees_def split: option.splits dest: spec [of _ "subreddit_id sel"])
  have below: "int ?cur < maxPostsPerSubredditPerWeek cons"
  proof (cases "map_of (subredditUsage st) (subreddit_id sel)")
    case None
    with cap show ?thesis by simp
  next
    case (Some u)
    with canPost_allowed [OF al Some] show ?thesis by simp
  qed
  have "usageAgrees cons st1"
    unfolding usageAgrees_def
  proof (intro allI)
    fix sid
    show "(case map_of (subredditUsage st1) sid of
             None \<Rightarrow> venueCount sid (matchedSlots st1) = 0
           | Some u \<Rightarrow> postsThisWeek u = venueCount sid (matchedSlots st1))
          \<and> int (venueCount sid (matchedSlots st1)) \<le> maxPostsPerSubredditPerWeek cons"
    proof (cases "sid = subreddit_id sel")
      case True
      then show ?thesis
        using cur below by (simp add: st1 map_of_mapSet venueCount_snoc cong: option.case_cong)
    next
      case False
      then show ?thesis
        using inv
        by (simp add: st1 map_of_mapSet venueCount_snoc usageAgrees_def cong: option.case_cong)
    qed
  qed
  then show ?thesis by (simp add: st1)
qed

lemma matchLoop_usageAgrees:
  assumes "usageAgrees cons st" and "1 \<le> maxPostsPerSubredditPerWeek cons"
    and "matchLoop subs kws fp cons slots st w = (st', w')"
  shows "usageAgrees cons st'
         \<and> length (matchedSlots st') + length (topicsSkipped st')
             = length slots + (length (matchedSlots st) + length (topicsSkipped st))"
  using assms
proof (induction slots arbitrary: st w)
  case Nil
  then show ?case by simp
next
  case (Cons slot slots)
  obtain st1 w1 where step: "matchSlot subs kws fp cons slot st w = (st1, w1)"
    by (cases "matchSlot subs kws fp cons slot st w") auto
  from matchSlot_usageAgrees [OF Cons.prems(1) Cons.prems(2) step]
  have inv1: "usageAgrees cons st1"
    and len1: "length (matchedSlots st1) + length (topicsSkipped st1)
                 = Suc (length (matchedSlots st) + length (topicsSkipped st))"
    by simp_all
  from Cons.prems(3) step have "matchLoop subs kws fp cons slots st1 w1 = (st', w')"
    by simp
  from Cons.IH [OF inv1 Cons.prems(2) this] len1 show ?case by simp
qed


text \<open>
  What the matcher enforces is the cap of the constraints of the run, the same number for
  every venue: when it is at least 1, no venue is assigned more matched slots than that,
  whatever the random draws; and every slot is either matched or dropped with one
  diagnostic, so that the matched slots and the diagnostics together number the slots.
\<close>

theorem matchSubreddits_respects_cap:
  assumes "1 \<le> runCap cons"
  shows "int (venueCount sid (result_slots (fst (matchSubreddits slots subs kws previous cons w))))
           \<le> runCap cons
         \<and> length (result_slots (fst (matchSubreddits slots subs kws previous cons w)))
             + length (result_topicsSkipped (fst (matchSubreddits slots subs kws previous cons w)))
             = length slots"
proof -
  let ?c = "case cons of Some c \<Rightarrow> c | None \<Rightarrow> DEFAULT_CONSTRAINTS"
  let ?fp = "buildFreshnessPenalties (case previous of Some ws \<Rightarrow> ws | None \<Rightarrow> [])"
  let ?st0 = "\<lparr> matchedSlots = [], subredditUsage = [], keywordUsage = Map.empty,
                topicsSkipped = [] \<rparr>"
  obtain st' w' where loop: "matchLoop subs kws ?fp ?c slots ?st0 w = (st', w')"
    by (cases "matchLoop subs kws ?fp ?c slots ?st0 w") auto
  have inv0: "usageAgrees ?c ?st0"
    using assms by (simp add: usageAgrees_def venueCount_def runCap_def)
  have cap: "1 \<le> maxPostsPerSubredditPerWeek ?c"
    using assms by (simp add: runCap_def)
  from matchLoop_usageAgrees [OF inv0 cap loop]
  have "usageAgrees ?c st'"
    and "length (matchedSlots st') + length (topicsSkipped st') = length slots"
    by simp_all
  moreover have "fst (matchSubreddits slots subs kws previous cons w)
      = \<lparr> result_slots = matchedSlots st',
          subredditDistribution = distribute subs (subredditUsage st') [],
          result_keywordUsage = keywordUsage st',
          result_topicsSkipped = topicsSkipped st' \<rparr>"
    using loop by (simp add: matchSubreddits_def Let_def)
  ultimately show ?thesis
    by (simp add: usageAgrees_def runCap_def)
qed



lemmas matcher_defs =
  matchSubreddits_def matchSlot_def selectSubreddit_def canPostToSubreddit_def
  selectKeywords_def calculateSubredditRelevance_def matchCategory_def categoryMappings_def
  determineThreadType_def buildFreshnessPenalties_def Math_random_def sortByScoreDesc_def
  toLowerCase_def lowerChar_def DEFAULT_CONSTRAINTS_def skippedSlotMessage_def

lemmas ex_defs = ex_world_def ex_slot_def ex_day_def ex_subreddit_def ex_keyword_def

theorem matchSubreddits_respects_cap_witness:
  "1 \<le> runCap None
   \<and> int (venueCount ''r/PowerPoint''
        (result_slots (fst (matchSubreddits [ex_slot 0, ex_slot (3 * ex_day), ex_slot (6 * ex_day)]
           [ex_subreddit ''r/PowerPoint''] [ex_keyword ''slides''] None None ex_world)))) \<le> 2
   \<and> length (result_slots (fst (matchSubreddits [ex_slot 0, ex_slot (3 * ex_day), ex_slot (6 * ex_day)]
           [ex_subreddit ''r/PowerPoint''] [ex_keyword ''slides''] None None ex_world))) = 2
   \<and> result_topicsSkipped (fst (matchSubreddits [ex_slot 0, ex_slot (3 * ex_day), ex_slot (6 * ex_day)]
           [ex_subreddit ''r/PowerPoint''] [ex_keyword ''slides''] None None ex_world))
       = [''No eligible subreddit for slot at 518400000'']"
proof -
  have h: "1 \<le> runCap None"
    by (simp add: runCap_def DEFAULT_CONSTRAINTS_def)
  have cap: "runCap None = 2"
    by (simp add: runCap_def DEFAULT_CONSTRAINTS_def)
  have skipped: "result_topicsSkipped (fst (matchSubreddits
           [ex_slot 0, ex_slot (3 * ex_day), ex_slot (6 * ex_day)]
           [ex_subreddit ''r/PowerPoint''] [ex_keyword ''slides''] None None ex_world))
       = [''No eligible subreddit for slot at 518400000'']"
    by (simp add: matcher_defs ex_defs Let_def showInt_def showNat.simps digitChar_def)
  from matchSubreddits_respects_cap [OF h, of "''r/PowerPoint''"
      "[ex_slot 0, ex_slot (3 * ex_day), ex_slot (6 * ex_day)]"
      "[ex_subreddit ''r/PowerPoint'']" "[ex_keyword ''slides'']" None ex_world]
  show ?thesis
    unfolding skipped cap using h by simp
qed


text \<open>
  C6 does not hold of \<open>matchSubreddits\<close>. The venue \<open>r/consulting\<close> has the effective cap 1
  (its preset in \<open>getSubredditConstraints\<close>). With the venues \<open>r/consulting\<close> and
  \<open>r/PowerPoint\<close>, the default constraints and three slots on days 0, 1 and 4, the first
  and the third slot are matched to \<open>r/consulting\<close> and no slot is dropped, although
  \<open>r/PowerPoint\<close> could take the third slot.
\<close>

theorem matcher_exceeds_venue_cap:
  "maxPostsPerSubredditPerWeek
       (getSubredditConstraints (ex_subreddit ''r/consulting'') DEFAULT_CONSTRAINTS) = 1
   \<and> map (\<lambda>s. subreddit_name (subreddit s))
         (result_slots (fst (matchSubreddits [ex_slot 0, ex_slot ex_day, ex_slot (4 * ex_day)]
            [ex_subreddit ''r/consulting'', ex_subreddit ''r/PowerPoint''] [ex_keyword ''slides'']
            None None ex_matcher_world)))
       = [''r/consulting'', ''r/PowerPoint'', ''r/consulting'']
   \<and> result_topicsSkipped (fst (matchSubreddits [ex_slot 0, ex_slot ex_day, ex_slot (4 * ex_day)]
            [ex_subreddit ''r/consulting'', ex_subreddit ''r/PowerPoint''] [ex_keyword ''slides'']
            None None ex_matcher_world))
       = []"
  by (simp add: matcher_defs ex_defs ex_matcher_world_def getSubredditConstraints_def
        SUBREDDIT_PRESETS_def spread_def Let_def)


section \<open>Properties of the persona assigner\<close>

lemma rnd_Math_random [simp]: "rnd (snd (Math_random w)) = rnd w"
  by (simp add: Math_random_def)

lemma rnd_filterOP [simp]: "rnd (snd (filterOP ps slot usage cons w)) = rnd w"
  by (induction ps arbitrary: w)
     (auto simp: Let_def split_beta isPersonaFitForThreadType_def Math_random_def)

lemma rnd_scoreOP [simp]: "rnd (snd (scoreOP ps slot usage w)) = rnd w"
  by (induction ps arbitrary: w) (auto simp: Let_def split_beta Math_random_def)

lemma rnd_scoreCommenters [simp]: "rnd (snd (scoreCommenters ps op usage w)) = rnd w"
  by (induction ps arbitrary: w) (auto simp: Let_def split_beta Math_random_def)

lemma rnd_selectOP [simp]: "rnd (snd (selectOP slot ps usage cons w)) = rnd w"
  by (simp add: selectOP_def Let_def split_beta)

lemma rnd_selectCommenters [simp]:
  "rnd (snd (selectCommenters op ps count usage pairings cons w)) = rnd w"
  by (simp add: selectCommenters_def Let_def split_beta)

lemma rnd_assignSlot [simp]: "rnd (snd (assignSlot ps cons slot st w)) = rnd w"
  by (simp add: assignSlot_def Let_def split_beta split: option.splits prod.splits)
lemma scoreCommenters_fst: "map fst (fst (scoreCommenters ps op usage w)) = ps"
  by (induction ps arbitrary: w) (auto simp: Let_def split_beta)

lemma pickCommenters_subset:
  "set (pickCommenters scored count selected) \<subseteq> set selected \<union> fst ` set scored"
  by (induction scored count selected rule: pickCommenters.induct) auto

lemma pickCommenters_length:
  "int (length (pickCommenters scored count selected)) \<le> max (int (length selected)) count"
  by (induction scored count selected rule: pickCommenters.induct) auto

lemma pickCommenters_nonempty:
  assumes "scored \<noteq> []" and "1 \<le> count"
  shows "pickCommenters scored count [] \<noteq> []"
proof -
  obtain p sc rest where sc: "scored = (p, sc) # rest"
    using assms(1) by (cases scored) auto
  have keep: "pickCommenters xs count sel \<noteq> []" if "sel \<noteq> []" for xs sel
    using that by (induction xs count sel rule: pickCommenters.induct) auto
  show ?thesis
    using assms(2) by (simp add: sc keep)
qed

lemma commenterCount_range:
  assumes "0 \<le> r" and "r < 1" and "1 \<le> m"
  shows "1 \<le> 1 + \<lfloor>r * real_of_int m\<rfloor> \<and> 1 + \<lfloor>r * real_of_int m\<rfloor> \<le> m"
proof -
  have "0 \<le> r * real_of_int m"
    using assms by simp
  then have lo: "0 \<le> \<lfloor>r * real_of_int m\<rfloor>"
    by simp
  have "r * real_of_int m < 1 * real_of_int m"
    using assms by (intro mult_strict_right_mono) auto
  then have "\<lfloor>r * real_of_int m\<rfloor> < m"
    by (simp add: floor_less_iff)
  with lo show ?thesis by simp
qed
lemma selectCommenters_props:
  assumes "1 \<le> count"
  shows "persona_id op \<notin> persona_id ` set (fst (selectCommenters op ps count usage pairings cons w))
         \<and> int (length (fst (selectCommenters op ps count usage pairings cons w))) \<le> count
         \<and> (fst (selectCommenters op ps count usage pairings cons w) \<noteq> []
              \<longleftrightarrow> othersUnderLimit ps op usage cons)"
proof -
  define strict where "strict = filter (\<lambda>persona. persona_id persona \<noteq> persona_id op
            \<and> underCommentLimit usage cons persona
            \<and> allowed (canPersonasInteract (persona_id op) (persona_id persona) pairings cons)) ps"
  define loose where "loose = filter (\<lambda>persona. persona_id persona \<noteq> persona_id op
            \<and> underCommentLimit usage cons persona) ps"
  define rel where "rel = (if length strict = 0 then loose else strict)"
  have sel: "selectCommenters op ps count usage pairings cons w =
               (if length rel = 0 then ([], w)
                else let (scored, w1) = scoreCommenters rel op usage w
                     in (pickCommenters (sortByScoreDesc scored) count [], w1))"
    unfolding selectCommenters_def strict_def loose_def rel_def Let_def ..
  have strict_sub: "set strict \<subseteq> set loose"
    by (auto simp: strict_def loose_def)
  have loose_ids: "\<forall>p \<in> set loose. persona_id p \<noteq> persona_id op"
    by (simp add: loose_def)
  have rel_sub: "set rel \<subseteq> set loose"
    using strict_sub by (simp add: rel_def)
  have rel_empty: "rel = [] \<longleftrightarrow> loose = []"
    using strict_sub by (auto simp: rel_def)
  have loose_empty: "loose = [] \<longleftrightarrow> \<not> othersUnderLimit ps op usage cons"
    by (simp add: loose_def othersUnderLimit_def list_ex_iff filter_empty_conv)
  show ?thesis
  proof (cases "rel = []")
    case True
    then have "fst (selectCommenters op ps count usage pairings cons w) = []"
      by (simp add: sel)
    with True rel_empty loose_empty assms show ?thesis by simp
  next
    case False
    define sc where "sc = fst (scoreCommenters rel op usage w)"
    have res: "fst (selectCommenters op ps count usage pairings cons w)
                 = pickCommenters (sortByScoreDesc sc) count []"
      using False by (simp add: sel sc_def split_beta)
    have m: "map fst sc = rel"
      unfolding sc_def by (rule scoreCommenters_fst)
    then have "fst ` set sc = set rel"
      by (metis set_map)
    then have sub: "set (pickCommenters (sortByScoreDesc sc) count []) \<subseteq> set rel"
      using pickCommenters_subset [of "sortByScoreDesc sc" count "[]"] by simp
    have ne: "sortByScoreDesc sc \<noteq> []"
      using m False by auto
    have a: "pickCommenters (sortByScoreDesc sc) count [] \<noteq> []"
      by (rule pickCommenters_nonempty [OF ne assms])
    have b: "int (length (pickCommenters (sortByScoreDesc sc) count [])) \<le> count"
      using pickCommenters_length [of "sortByScoreDesc sc" count "[]"] assms by simp
    have c: "persona_id op \<notin> persona_id ` set (pickCommenters (sortByScoreDesc sc) count [])"
    proof
      assume "persona_id op \<in> persona_id ` set (pickCommenters (sortByScoreDesc sc) count [])"
      then obtain x where x: "x \<in> set (pickCommenters (sortByScoreDesc sc) count [])"
        and eq: "persona_id op = persona_id x" by auto
      from x sub rel_sub have "x \<in> set loose" by blast
      with loose_ids have "persona_id x \<noteq> persona_id op" by blast
      with eq show False by simp
    qed
    have d: "othersUnderLimit ps op usage cons"
      using False rel_empty loose_empty by simp
    show ?thesis
      unfolding res
    proof (intro conjI)
      show "persona_id op \<notin> persona_id ` set (pickCommenters (sortByScoreDesc sc) count [])"
        by (rule c)
      show "int (length (pickCommenters (sortByScoreDesc sc) count [])) \<le> count"
        by (rule b)
      show "(pickCommenters (sortByScoreDesc sc) count [] \<noteq> []) = othersUnderLimit ps op usage cons"
        using a d by blast
    qed
  qed
qed
lemma ext_opPersona [simp]:
  "opPersona (MatchedSlot.extend slot \<lparr> opPersona = op, commenterPersonas = cs \<rparr>) = op"
  "commenterPersonas (MatchedSlot.extend slot \<lparr> opPersona = op, commenterPersonas = cs \<rparr>) = cs"
  by (simp_all add: MatchedSlot.defs TimeSlot.defs)

lemma fst_updateTracker [simp]: "map fst (updateTracker pid f usage) = map fst usage"
  by (induction usage) (auto simp: updateTracker_def)

lemma map_of_updateTracker:
  "map_of (updateTracker pid f usage) k
     = (if k = pid then map_option f (map_of usage k) else map_of usage k)"
  by (induction usage) (auto simp: updateTracker_def)

lemma keys_updateTracker [simp]: "fst ` set (updateTracker pid f usage) = fst ` set usage"
  by (metis fst_updateTracker list.set_map)

lemma comments_updateTracker_other:
  assumes "\<And>t. commentsThisWeek (f t) = commentsThisWeek t" and "k \<in> fst ` set usage"
  shows "commentsThisWeek (trackerOf (updateTracker pid f usage) k) = commentsThisWeek (trackerOf usage k)"
proof -
  from assms(2) obtain t where "map_of usage k = Some t"
    by (metis domD dom_map_of_conv_image_fst)
  then show ?thesis
    using assms(1) by (auto simp add: trackerOf_def map_of_updateTracker)
qed

lemma comments_bump:
  assumes "k \<in> fst ` set usage"
  shows "commentsThisWeek (trackerOf (updateTracker pid
            (\<lambda>t. t \<lparr> commentsThisWeek := commentsThisWeek t + 1 \<rparr>) usage) k)
         = commentsThisWeek (trackerOf usage k) + (if pid = k then 1 else 0)"
proof -
  from assms obtain t where "map_of usage k = Some t"
    by (metis domD dom_map_of_conv_image_fst)
  then show ?thesis
    by (simp add: trackerOf_def map_of_updateTracker)
qed

lemma comments_fold:
  assumes "k \<in> fst ` set usage"
  shows "commentsThisWeek (trackerOf (foldl (\<lambda>u commenter.
           updateTracker (persona_id commenter)
             (\<lambda>t. t \<lparr> commentsThisWeek := commentsThisWeek t + 1 \<rparr>) u) usage cs) k)
         = commentsThisWeek (trackerOf usage k) + length (filter (\<lambda>p. persona_id p = k) cs)
         \<and> fst ` set (foldl (\<lambda>u commenter.
           updateTracker (persona_id commenter)
             (\<lambda>t. t \<lparr> commentsThisWeek := commentsThisWeek t + 1 \<rparr>) u) usage cs) = fst ` set usage"
proof (induction cs rule: rev_induct)
  case Nil
  show ?case by simp
next
  case (snoc c cs)
  let ?u = "foldl (\<lambda>u commenter.
           updateTracker (persona_id commenter)
             (\<lambda>t. t \<lparr> commentsThisWeek := commentsThisWeek t + 1 \<rparr>) u) usage cs"
  from snoc have keys: "fst ` set ?u = fst ` set usage" by simp
  with assms have k: "k \<in> fst ` set ?u" by simp
  show ?case
    using snoc comments_bump [OF k, of "persona_id c"] keys by simp
qed

lemma updateUsage_comments:
  assumes "k \<in> fst ` set usage"
  shows "commentsThisWeek (trackerOf (updateUsage usage op cs slot) k)
           = commentsThisWeek (trackerOf usage k) + length (filter (\<lambda>p. persona_id p = k) cs)"
    and "fst ` set (updateUsage usage op cs slot) = fst ` set usage"
proof -
  let ?f = "\<lambda>t. t \<lparr> postsThisWeek := postsThisWeek t + 1,
                      lastPostDate := Some (date slot),
                      subredditsPostedTo := subredditsPostedTo t @ [subreddit_id (subreddit slot)] \<rparr>"
  let ?u1 = "updateTracker (persona_id op) ?f usage"
  have k1: "k \<in> fst ` set ?u1" using assms by simp
  have c1: "commentsThisWeek (trackerOf ?u1 k) = commentsThisWeek (trackerOf usage k)"
    by (rule comments_updateTracker_other [OF _ assms]) simp
  from comments_fold [OF k1, of cs] c1
  show "commentsThisWeek (trackerOf (updateUsage usage op cs slot) k)
           = commentsThisWeek (trackerOf usage k) + length (filter (\<lambda>p. persona_id p = k) cs)"
    and "fst ` set (updateUsage usage op cs slot) = fst ` set usage"
    by (simp_all add: updateUsage_def Let_def)
qed

lemma keys_mapSet: "fst ` set (mapSet k v al) = insert k (fst ` set al)"
proof (induction al)
  case Nil
  show ?case by simp
next
  case (Cons e al)
  obtain a b where e: "e = (a, b)" by (cases e)
  show ?case
  proof (cases "a = k")
    case True
    then show ?thesis by (simp add: e)
  next
    case False
    then show ?thesis using Cons by (simp add: e insert_commute)
  qed
qed

lemma initialUsage_snoc:
  "initialUsage (ps @ [p]) = mapSet (persona_id p)
      \<lparr> postsThisWeek = 0, lastPostDate = None, commentsThisWeek = 0, subredditsPostedTo = [] \<rparr>
      (initialUsage ps)"
  by (simp add: initialUsage_def)

lemma initialUsage_props:
  "fst ` set (initialUsage ps) = persona_id ` set ps
   \<and> (\<forall>k. commentsThisWeek (trackerOf (initialUsage ps) k) = 0)"
proof (induction ps rule: rev_induct)
  case Nil
  show ?case by (simp add: initialUsage_def trackerOf_def)
next
  case (snoc p ps)
  then show ?case
    by (auto simp: initialUsage_snoc keys_mapSet trackerOf_def map_of_mapSet)
qed

lemma commentsBefore_snoc:
  "commentsBefore k (assigned @ [s])
     = commentsBefore k assigned + length (filter (\<lambda>p. persona_id p = k) (commenterPersonas s))"
  by (simp add: commentsBefore_def)

lemma underCommentLimit_iff:
  assumes "persona_id p \<in> fst ` set usage"
  shows "underCommentLimit usage cons p
           \<longleftrightarrow> int (commentsThisWeek (trackerOf usage (persona_id p))) < maxCommentsPerPersonaPerWeek cons"
proof -
  from assms obtain t where "map_of usage (persona_id p) = Some t"
    by (metis domD dom_map_of_conv_image_fst)
  then show ?thesis
    by (auto simp: underCommentLimit_def trackerOf_def)
qed
lemma reactorsOK_append:
  assumes "k < length assigned"
  shows "reactorsOK ps cons (assigned @ [s]) k = reactorsOK ps cons assigned k"
  using assms by (simp add: reactorsOK_def nth_append)

lemma othersUnderLimit_iff:
  assumes "persona_id ` set ps \<subseteq> fst ` set usage"
    and "\<forall>pid \<in> fst ` set usage. commentsThisWeek (trackerOf usage pid) = commentsBefore pid assigned"
  shows "othersUnderLimit ps op usage cons
           \<longleftrightarrow> list_ex (\<lambda>p. persona_id p \<noteq> persona_id op
                     \<and> int (commentsBefore (persona_id p) assigned)
                          < maxCommentsPerPersonaPerWeek cons) ps"
proof -
  have "underCommentLimit usage cons p
          \<longleftrightarrow> int (commentsBefore (persona_id p) assigned) < maxCommentsPerPersonaPerWeek cons"
    if "p \<in> set ps" for p
  proof -
    from that assms(1) have k: "persona_id p \<in> fst ` set usage" by blast
    with assms(2) have "commentsThisWeek (trackerOf usage (persona_id p))
                          = commentsBefore (persona_id p) assigned" by blast
    with underCommentLimit_iff [OF k, of cons] show ?thesis by simp
  qed
  then show ?thesis
    unfolding othersUnderLimit_def list_ex_iff by blast
qed

lemma keys_updateUsage: "fst ` set (updateUsage usage op cs slot) = fst ` set usage"
proof -
  have "fst ` set (foldl (\<lambda>u commenter.
           updateTracker (persona_id commenter)
             (\<lambda>t. t \<lparr> commentsThisWeek := commentsThisWeek t + 1 \<rparr>) u) u0 cs) = fst ` set u0" for u0
    by (induction cs rule: rev_induct) simp_all
  then show ?thesis
    by (simp add: updateUsage_def Let_def)
qed

lemma assignSlot_inv:
  assumes inv: "assignerInv ps cons st" and rnd: "validRandom w"
    and room: "2 \<le> maxPersonasPerThread cons" and two: "2 \<le> length ps"
  shows "assignerInv ps cons (fst (assignSlot ps cons slot st w))"
proof (cases "fst (selectOP slot ps (personaUsage st) cons w)")
  case None
  then have "fst (assignSlot ps cons slot st w)
               = st \<lparr> assignerWarnings := assignerWarnings st @ [noEligibleOPMessage w slot] \<rparr>"
    by (cases "selectOP slot ps (personaUsage st) cons w") (simp add: assignSlot_def)
  with inv show ?thesis by (simp add: assignerInv_def)
next
  case (Some op)
  define w1 where "w1 = snd (selectOP slot ps (personaUsage st) cons w)"
  define m where "m = min (maxPersonasPerThread cons - 1) (min (int (length ps) - 1) 3)"
  define r where "r = fst (Math_random w1)"
  define w2 where "w2 = snd (Math_random w1)"
  define cnt where "cnt = 1 + \<lfloor>r * real_of_int m\<rfloor>"
  define cs where "cs = fst (selectCommenters op ps cnt (personaUsage st) (pairingsThisWeek st) cons w2)"
  define new where "new = MatchedSlot.extend slot \<lparr> opPersona = op, commenterPersonas = cs \<rparr>"
  have sel: "selectOP slot ps (personaUsage st) cons w = (Some op, w1)"
    using Some by (simp add: w1_def prod_eq_iff)
  have slots': "assignedSlots (fst (assignSlot ps cons slot st w)) = assignedSlots st @ [new]"
    and usage': "personaUsage (fst (assignSlot ps cons slot st w))
                   = updateUsage (personaUsage st) op cs slot"
    by (simp_all add: assignSlot_def sel Let_def split_beta m_def r_def w2_def cnt_def cs_def new_def)
  have "rnd w1 = rnd w" by (simp add: w1_def)
  then have r01: "0 \<le> r \<and> r < 1"
    using rnd by (simp add: r_def Math_random_def validRandom_def)
  have m1: "1 \<le> m" and mle: "m \<le> maxPersonasPerThread cons - 1"
    using room two by (simp_all add: m_def)
  from commenterCount_range [of r m] r01 m1
  have cnt: "1 \<le> cnt" "cnt \<le> m" by (simp_all add: cnt_def)
  from selectCommenters_props [OF cnt(1), of op ps "personaUsage st" "pairingsThisWeek st" cons w2]
  have ids: "persona_id op \<notin> persona_id ` set cs"
    and len: "int (length cs) \<le> cnt"
    and ne: "cs \<noteq> [] \<longleftrightarrow> othersUnderLimit ps op (personaUsage st) cons"
    by (simp_all add: cs_def)
  from inv have keys: "persona_id ` set ps \<subseteq> fst ` set (personaUsage st)"
    and counts: "\<forall>pid \<in> fst ` set (personaUsage st).
       commentsThisWeek (trackerOf (personaUsage st) pid) = commentsBefore pid (assignedSlots st)"
    and old: "\<forall>k < length (assignedSlots st). reactorsOK ps cons (assignedSlots st) k"
    by (simp_all add: assignerInv_def)
  have ne': "cs \<noteq> [] \<longleftrightarrow> list_ex (\<lambda>p. persona_id p \<noteq> persona_id op
                     \<and> int (commentsBefore (persona_id p) (assignedSlots st))
                          < maxCommentsPerPersonaPerWeek cons) ps"
    using ne othersUnderLimit_iff [OF keys counts, of op cons] by simp
  have newOK: "reactorsOK ps cons (assignedSlots st @ [new]) (length (assignedSlots st))"
    using ids len cnt(2) mle ne' by (simp add: reactorsOK_def new_def)
  have allOK: "\<forall>k < length (assignedSlots st @ [new]). reactorsOK ps cons (assignedSlots st @ [new]) k"
  proof (intro allI impI)
    fix k assume "k < length (assignedSlots st @ [new])"
    then consider "k < length (assignedSlots st)" | "k = length (assignedSlots st)"
      by (auto simp: less_Suc_eq)
    then show "reactorsOK ps cons (assignedSlots st @ [new]) k"
    proof cases
      case 1
      with old show ?thesis by (simp add: reactorsOK_append)
    next
      case 2
      with newOK show ?thesis by simp
    qed
  qed
  have keys': "fst ` set (updateUsage (personaUsage st) op cs slot) = fst ` set (personaUsage st)"
    by (rule keys_updateUsage)
  have counts': "\<forall>pid \<in> fst ` set (updateUsage (personaUsage st) op cs slot).
       commentsThisWeek (trackerOf (updateUsage (personaUsage st) op cs slot) pid)
         = commentsBefore pid (assignedSlots st @ [new])"
  proof
    fix pid assume "pid \<in> fst ` set (updateUsage (personaUsage st) op cs slot)"
    then have k: "pid \<in> fst ` set (personaUsage st)" by (simp only: keys')
    with counts have "commentsThisWeek (trackerOf (personaUsage st) pid)
                        = commentsBefore pid (assignedSlots st)" by blast
    with updateUsage_comments(1) [OF k, of op cs slot]
    show "commentsThisWeek (trackerOf (updateUsage (personaUsage st) op cs slot) pid)
            = commentsBefore pid (assignedSlots st @ [new])"
      by (simp add: commentsBefore_snoc new_def)
  qed
  show ?thesis
    unfolding assignerInv_def slots' usage'
    using keys keys' counts' allOK by simp
qed

lemma assignLoop_inv:
  assumes "assignerInv ps cons st" and "validRandom w"
    and "2 \<le> maxPersonasPerThread cons" and "2 \<le> length ps"
  shows "assignerInv ps cons (fst (assignLoop ps cons matched st w))"
  using assms(1,2)
proof (induction matched arbitrary: st w)
  case Nil
  then show ?case by simp
next
  case (Cons slot rest)
  have inv1: "assignerInv ps cons (fst (assignSlot ps cons slot st w))"
    by (rule assignSlot_inv [OF Cons.prems(1) Cons.prems(2) assms(3) assms(4)])
  have rnd1: "validRandom (snd (assignSlot ps cons slot st w))"
    using Cons.prems(2) by (simp add: validRandom_def)
  from Cons.IH [OF inv1 rnd1] show ?case
    by (simp add: split_beta)
qed

lemmas assigner_defs =
  assignPersonas_def assignSlot_def selectOP_def selectCommenters_def canPersonaPost_def
  canPersonasInteract_def createPairingKey_def validateThreadStructure_def trackerOf_def
  isPersonaFitForThreadType_def getThreadTypeFitScore_def calculateExpertiseOverlap_def
  getComplementScore_def underCommentLimit_def updateTracker_def updateUsage_def setAdd_def
  updatePairings_def initialUsage_def Math_random_def sortByScoreDesc_def js_Set_def
  PostUsage.truncate_def DEFAULT_CONSTRAINTS_def

lemma ex_run1:
  "map personaIdsOf (assignedSlotsOf (assignPersonas
      [ex_matched 0 question, ex_matched (2 * ex_day) question]
      [ex_persona ''ann'' asks_questions, ex_persona ''bob'' gives_answers]
      (Some ex_tightComments) ex_world))
   = [(''ann'', [''bob'']), (''ann'', [])]"
  by (simp add: assigner_defs assignedSlotsOf_def personaIdsOf_def ex_tightComments_def
      ex_matched_def ex_persona_def ex_world_def ex_day_def ex_subreddit_def ex_keyword_def
      Let_def)



text \<open>
  C1, as stated, fails: with a weekly comment limit of 1 and two personas, the second slot
  is assigned with an empty reactor list.
\<close>

theorem reactor_bounds_counterexample:
  "\<not> list_all (spec_reactorInvariant ex_tightComments)
       (assignedSlotsOf (assignPersonas
          [ex_matched 0 question, ex_matched (2 * ex_day) question]
          [ex_persona ''ann'' asks_questions, ex_persona ''bob'' gives_answers]
          (Some ex_tightComments) ex_world))"
proof -
  define out where "out = assignedSlotsOf (assignPersonas
          [ex_matched 0 question, ex_matched (2 * ex_day) question]
          [ex_persona ''ann'' asks_questions, ex_persona ''bob'' gives_answers]
          (Some ex_tightComments) ex_world)"
  have "map personaIdsOf out = [(''ann'', [''bob'']), (''ann'', [])]"
    unfolding out_def by (rule ex_run1)
  then obtain s1 s2 where "out = [s1, s2]" and "personaIdsOf s2 = (''ann'', [])"
    by (auto simp: map_eq_Cons_conv)
  then have "s2 \<in> set out" and "\<not> spec_reactorInvariant ex_tightComments s2"
    by (simp_all add: personaIdsOf_def spec_reactorInvariant_def)
  then have "\<not> list_all (spec_reactorInvariant ex_tightComments) out"
    unfolding list_all_iff by blast
  then show ?thesis unfolding out_def .
qed


text \<open>
  C1, amended. For every slot produced by \<open>assignPersonas\<close>, when the random draws lie
  in the half-open unit interval and a thread has room for a reactor
  (\<open>maxPersonasPerThread\<close> at least 2): the author's id is not among the reactors' ids, the
  reactor list has at most \<open>maxPersonasPerThread - 1\<close> entries, and it is non-empty exactly
  when some persona other than the author has fewer reactor entries in the earlier slots of
  the run than \<open>maxCommentsPerPersonaPerWeek\<close>.
\<close>

theorem assignPersonas_reactors:
  assumes run: "assignPersonas matched ps cons w = Inr (res, w')"
    and rnd: "validRandom w"
    and room: "2 \<le> maxPersonasPerThread (effectiveConstraintsOf cons)"
    and k: "k < length (assigner_slots res)"
  shows "reactorsOK ps (effectiveConstraintsOf cons) (assigner_slots res) k"
proof -
  let ?c = "effectiveConstraintsOf cons"
  let ?st0 = "\<lparr> assignedSlots = [], personaUsage = initialUsage ps,
                pairingsThisWeek = [], assignerWarnings = [] \<rparr>"
  from run have two: "2 \<le> length ps"
    by (auto simp: assignPersonas_def Let_def split: if_splits)
  with run have res: "assigner_slots res = assignedSlots (fst (assignLoop ps ?c matched ?st0 w))"
    by (auto simp: assignPersonas_def Let_def split_beta effectiveConstraintsOf_def)
  have inv0: "assignerInv ps ?c ?st0"
    using initialUsage_props [of ps] by (simp add: assignerInv_def commentsBefore_def)
  from assignLoop_inv [OF inv0 rnd room two, of matched] k res show ?thesis
    by (simp add: assignerInv_def)
qed

theorem assignPersonas_reactors_witness:
  "validRandom ex_world
   \<and> reactorsOK [ex_persona ''ann'' asks_questions, ex_persona ''bob'' gives_answers]
       ex_tightComments
       (assignedSlotsOf (assignPersonas
          [ex_matched 0 question, ex_matched (2 * ex_day) question]
          [ex_persona ''ann'' asks_questions, ex_persona ''bob'' gives_answers]
          (Some ex_tightComments) ex_world)) 1"
proof -
  let ?ps = "[ex_persona ''ann'' asks_questions, ex_persona ''bob'' gives_answers]"
  let ?ms = "[ex_matched 0 question, ex_matched (2 * ex_day) question]"
  obtain res w' where run: "assignPersonas ?ms ?ps (Some ex_tightComments) ex_world = Inr (res, w')"
    by (cases "assignPersonas ?ms ?ps (Some ex_tightComments) ex_world")
       (auto simp: assignPersonas_def Let_def split_beta)
  have rnd: "validRandom ex_world"
    by (simp add: validRandom_def ex_world_def)
  have room: "2 \<le> maxPersonasPerThread (effectiveConstraintsOf (Some ex_tightComments))"
    by (simp add: effectiveConstraintsOf_def ex_tightComments_def DEFAULT_CONSTRAINTS_def)
  have "length (map personaIdsOf (assignedSlotsOf (assignPersonas ?ms ?ps (Some ex_tightComments) ex_world))) = 2"
    by (simp only: ex_run1) simp
  then have k: "1 < length (assigner_slots res)"
    by (simp add: run assignedSlotsOf_def)
  from assignPersonas_reactors [OF run rnd room k] rnd show ?thesis
    by (simp add: run assignedSlotsOf_def effectiveConstraintsOf_def)
qed


text \<open>
  C2. A run on six personas with \<open>noRepeatedPairingsPerWeek\<close> enabled: the first slot has
  author ann and reactors bob and cat, the second has author dan and again reactors bob and
  cat, although eve and fay have not interacted with anyone. The pair of bob and cat
  appears in both slots, so the pairing keys of the run are not distinct.
\<close>

theorem repeated_pairing_run:
  "map personaIdsOf (assignedSlotsOf (assignPersonas
      [ex_matched 0 discussion, ex_matched (2 * ex_day) discussion] ex_six None ex_world_draws))
   = [(''ann'', [''bob'', ''cat'']), (''dan'', [''bob'', ''cat''])]
   \<and> \<not> distinct (concat (map slotPairKeys (assignedSlotsOf (assignPersonas
      [ex_matched 0 discussion, ex_matched (2 * ex_day) discussion] ex_six None ex_world_draws))))"
  by (simp add: assigner_defs slotPairKeys_def assignedSlotsOf_def personaIdsOf_def ex_six_def ex_draws_def
      ex_world_draws_def ex_matched_def ex_persona_def ex_world_def ex_day_def ex_subreddit_def
      ex_keyword_def Let_def)


section \<open>Failures of the text backend in \<open>generateThreads\<close>\<close>








lemma replyLoop_success:
  assumes "generateReply p company prefs c plan i persona previous used ts w = (Inr (r, used1), w1)"
  shows "replyLoop p company prefs c plan i (persona # others) previous used ts w
           = replyLoop p company prefs c plan (i + 1) others (previous @ [r]) used1
               (comment_scheduledAt r) w1"
  using assms by simp







subsection \<open>Evaluation of the example runs\<close>

lemmas generator_defs =
  generateThreads_def generateThread_def generatePost_def generateComments_def draftComments_def
  planMentions_def generateReply_def refineLiveText_def reviseWhen_def generateOPFollowUp_def
  reconcileMentions_def sanitizePostBody_def sanitizePostTitle_def isCommentLowQuality_def
  generateCommentDelay_def generateMockPost_def generateMockComment_def generateWithAI_def
  generateWithAIMock_def generatePostId_def generateCommentId_def uuidv4_def
  postContentOf_def textOf_def variationOf_def errorOr_def postFailure_def commentFailure_def
  followUpFailure_def
  threadFailureMessage_def subredditAllowsPromo_def shouldForceProductMention_def
  shouldMentionProduct_def belowLimit_def aboveLimit_def clampIfAbove_def prefField_def
  hasBannedPhrase_def similarToPrevious_def isMentionTarget_def mentionsCompany_def
  removeCompanyMention_def regenerateComment_def orElse_def emptyData_def trim_def
  isSpace_def pickAt_def mockTitles_def mockBodies_def mockResponses_def expertResponses_def
  casualResponses_def firstKeywordOr_def setAdd_def Math_random_def toLowerCase_def
  lowerChar_def DEFAULT_CONSTRAINTS_def MatchedSlot.defs TimeSlot.defs

lemmas generator_ex_defs =
  ex_assigned_def ex_matched_def ex_noMention_def ex_failing_replies_def ex_failing_world_def
  ex_world_def ex_company_def ex_persona_def ex_subreddit_def ex_keyword_def ex_day_def
  generatedTitles_def generatedErrors_def
  generatedReplies_def ex_named_world_def ex_named_replies_def








section \<open>Replies in mock mode\<close>

lemma mockMode_Math_random [simp]: "mockMode (snd (Math_random w)) = mockMode w"
  by (simp add: Math_random_def)

lemma validRandom_Math_random [simp]: "validRandom (snd (Math_random w)) = validRandom w"
  by (simp add: validRandom_def)

lemma snd_generateCommentDelay [simp]:
  "snd (generateCommentDelay i followUp cons w) = snd (Math_random w)"
  by (simp add: generateCommentDelay_def Let_def split_beta)

lemma pickAt_member:
  assumes "0 \<le> r" and "r < 1" and "xs \<noteq> []"
  shows "pickAt xs r \<in> set xs"
proof -
  have "r * real (length xs) < 1 * real (length xs)"
    using assms by (intro mult_strict_right_mono) auto
  then have "\<lfloor>r * real (length xs)\<rfloor> < int (length xs)"
    by (simp add: floor_less_iff)
  moreover have "0 \<le> \<lfloor>r * real (length xs)\<rfloor>"
    using assms by simp
  ultimately have "nat \<lfloor>r * real (length xs)\<rfloor> < length xs"
    by linarith
  then show ?thesis
    by (simp add: pickAt_def Let_def)
qed

lemma mockResponses_nonempty: "mockResponses persona \<noteq> []"
  by (simp add: mockResponses_def expertResponses_def casualResponses_def)

lemma generateMockComment_member:
  assumes "validRandom w"
  shows "fst (generateMockComment persona isFirst w) \<in> set (mockResponses persona)
         \<and> snd (generateMockComment persona isFirst w) = snd (Math_random w)"
proof -
  have "pickAt (mockResponses persona) (rnd w (rndPos w)) \<in> set (mockResponses persona)"
    using assms by (intro pickAt_member mockResponses_nonempty) (simp_all add: validRandom_def)
  then show ?thesis
    by (simp add: generateMockComment_def Math_random_def)
qed

lemma mockRetry_member:
  assumes "validRandom w" and "mock \<in> set (mockResponses persona)"
  shows "fst (mockRetry persona isFirst used mock attempts w) \<in> set (mockResponses persona)
         \<and> mockMode (snd (mockRetry persona isFirst used mock attempts w)) = mockMode w"
  using assms
proof (induction persona isFirst used mock attempts w rule: mockRetry.induct)
  case (1 persona isFirst used mock attempts w)
  show ?case
  proof (cases "mock \<in> set used \<and> attempts < 5")
    case False
    have "mockRetry persona isFirst used mock attempts w = (mock, w)"
      by (subst mockRetry.simps) (simp only: False if_False)
    with 1(3) show ?thesis
      by simp
  next
    case True
    let ?g = "generateMockComment persona isFirst w"
    have g: "fst ?g \<in> set (mockResponses persona)" "snd ?g = snd (Math_random w)"
      using generateMockComment_member [OF 1(2)] by simp_all
    have vr: "validRandom (snd ?g)"
      using 1(2) g(2) by simp
    have ih: "fst (mockRetry persona isFirst used (fst ?g) (attempts + 1) (snd ?g))
            \<in> set (mockResponses persona)
          \<and> mockMode (snd (mockRetry persona isFirst used (fst ?g) (attempts + 1) (snd ?g)))
              = mockMode (snd ?g)"
      using 1(1) [OF True refl, of "fst ?g" "snd ?g"] vr g(1) by simp
    have eq: "mockRetry persona isFirst used mock attempts w
                = mockRetry persona isFirst used (fst ?g) (attempts + 1) (snd ?g)"
      using True by (subst mockRetry.simps) (simp add: split_beta)
    have "mockMode (snd ?g) = mockMode w"
      by (simp only: g(2) mockMode_Math_random)
    with ih show ?thesis
      unfolding eq by simp
  qed
qed


lemma mockMode_generateCommentId [simp]: "mockMode (snd (generateCommentId w)) = mockMode w"
  by (simp add: generateCommentId_def uuidv4_def split_beta)

lemma validRandom_generateCommentId [simp]:
  "validRandom (snd (generateCommentId w)) = validRandom w"
  by (simp add: generateCommentId_def uuidv4_def split_beta validRandom_def)

lemma validRandom_rnd: "rnd w1 = rnd w \<Longrightarrow> validRandom w1 = validRandom w"
  by (simp add: validRandom_def)

lemma rnd_mockRetry: "rnd (snd (mockRetry persona isFirst used mock attempts w)) = rnd w"
proof (induction persona isFirst used mock attempts w rule: mockRetry.induct)
  case (1 persona isFirst used mock attempts w)
  show ?case
  proof (cases "mock \<in> set used \<and> attempts < 5")
    case False
    have "mockRetry persona isFirst used mock attempts w = (mock, w)"
      by (subst mockRetry.simps) (simp only: False if_False)
    then show ?thesis
      by simp
  next
    case True
    let ?g = "generateMockComment persona isFirst w"
    have eq: "mockRetry persona isFirst used mock attempts w
                = mockRetry persona isFirst used (fst ?g) (attempts + 1) (snd ?g)"
      using True by (subst mockRetry.simps) (simp add: split_beta)
    have "rnd (snd (mockRetry persona isFirst used (fst ?g) (attempts + 1) (snd ?g))) = rnd (snd ?g)"
      using 1 [OF True refl, of "fst ?g" "snd ?g"] by simp
    moreover have "rnd (snd ?g) = rnd w"
      by (simp add: generateMockComment_def Math_random_def)
    ultimately show ?thesis
      unfolding eq by simp
  qed
qed

text \<open>One pass of the loop in mock mode: the reply is a canned text, and nothing fails.\<close>

lemma generateReply_mock:
  assumes mock: "mockMode w" and rnd: "validRandom w"
    and noClamp: "prefField prefs maxCommentLength = None"
  shows "\<exists>r used1 w1.
           generateReply p company prefs c plan i persona previous used ts w
             = (Inr (r, used1), w1)
           \<and> content r \<in> set (mockResponses persona)
           \<and> mockMode w1 \<and> validRandom w1"
proof -
  define wa where "wa = snd (Math_random w)"
  define g where "g = generateMockComment persona (i = 0) wa"
  define m where "m = mockRetry persona (i = 0) used (fst g) 0 (snd g)"
  have m1: "mockMode wa" and v1: "validRandom wa"
    using mock rnd by (simp_all add: wa_def)
  have g_in: "fst g \<in> set (mockResponses persona)" and g_w: "snd g = snd (Math_random wa)"
    using generateMockComment_member [OF v1] by (simp_all add: g_def)
  have vg: "validRandom (snd g)" and mg: "mockMode (snd g)"
    using v1 m1 g_w by simp_all
  have m_in: "fst m \<in> set (mockResponses persona)" and m_mode: "mockMode (snd m)"
    using mockRetry_member [OF vg g_in] mg by (simp_all add: m_def)
  have m_rnd: "validRandom (snd m)"
    using vg validRandom_rnd [OF rnd_mockRetry] by (simp add: m_def)
  obtain res w2 where gr:
    "generateReply p company prefs c plan i persona previous used ts w = (res, w2)"
    by (cases "generateReply p company prefs c plan i persona previous used ts w")
  have "content (fst (projr (fst (generateReply p company prefs c plan i persona previous used
                         ts w)))) = fst m
        \<and> \<not> isl (fst (generateReply p company prefs c plan i persona previous used ts w))
        \<and> mockMode (snd (generateReply p company prefs c plan i persona previous used ts w))
        \<and> validRandom (snd (generateReply p company prefs c plan i persona previous used ts w))"
    using m1 m_mode m_rnd noClamp
    by (simp add: generateReply_def Let_def split_beta wa_def [symmetric] g_def [symmetric]
          m_def [symmetric] generateWithAIMock_def clampIfAbove_def)
  then have r: "content (fst (projr res)) = fst m" and nl: "\<not> isl res"
    and mw: "mockMode w2" and vw: "validRandom w2"
    by (simp_all add: gr)
  from nl obtain cu where res: "res = Inr cu"
    by (cases res) simp_all
  obtain r used1 where cu: "cu = (r, used1)"
    by (cases cu)
  have "content r \<in> set (mockResponses persona)"
    using r m_in by (simp add: res cu)
  then show ?thesis
    using gr res cu mw vw by blast
qed

lemma replyLoop_mock:
  assumes "mockMode w" and "validRandom w" and "prefField prefs maxCommentLength = None"
  shows "\<exists>replies ts1 w1.
           replyLoop p company prefs c plan i reactors previous used ts w
             = (Inr (previous @ replies, ts1), w1)
           \<and> list_all2 (\<lambda>r persona. content r \<in> set (mockResponses persona)) replies reactors
           \<and> mockMode w1 \<and> validRandom w1"
  using assms
proof (induction reactors arbitrary: i previous used ts w)
  case Nil
  then show ?case by simp
next
  case (Cons persona others)
  from generateReply_mock [OF Cons.prems, of p company c plan i persona previous used ts]
  obtain r used1 w1 where
    step: "generateReply p company prefs c plan i persona previous used ts w = (Inr (r, used1), w1)"
    and canned: "content r \<in> set (mockResponses persona)"
    and m1: "mockMode w1" and v1: "validRandom w1"
    by blast
  from Cons.IH [OF m1 v1 Cons.prems(3), of "i + 1" "previous @ [r]" used1 "comment_scheduledAt r"]
  obtain replies ts1 w2 where
    loop: "replyLoop p company prefs c plan (i + 1) others (previous @ [r]) used1
             (comment_scheduledAt r) w1 = (Inr ((previous @ [r]) @ replies, ts1), w2)"
    and all: "list_all2 (\<lambda>r persona. content r \<in> set (mockResponses persona)) replies others"
    and m2: "mockMode w2" and v2: "validRandom w2"
    by blast
  have "replyLoop p company prefs c plan i (persona # others) previous used ts w
          = (Inr (previous @ (r # replies), ts1), w2)"
    using step loop by simp
  moreover have "list_all2 (\<lambda>r persona. content r \<in> set (mockResponses persona))
                   (r # replies) (persona # others)"
    using canned all by simp
  ultimately show ?case
    using m2 v2 by blast
qed

text \<open>With no preferences no reply index is drawn for a mention, and the plan is always made.\<close>

lemma planMentions_default:
  "\<exists>plan w1. planMentions p slot None risk w = Some (plan, w1)
             \<and> maxMentionCount plan = 0 \<and> mockMode w1 = mockMode w \<and> rnd w1 = rnd w"
  by (simp add: planMentions_def prefField_def Let_def split_beta shouldMentionProduct_def
        Math_random_def)

lemma generateOPFollowUp_mock:
  assumes "mockMode w"
  shows "\<exists>f w1. generateOPFollowUp p previous slot company ts c w = (Inr f, w1)"
  using assms
  by (simp add: generateOPFollowUp_def generateCommentDelay_def Math_random_def
        generateWithAIMock_def Let_def split_beta)

text \<open>The final reconciliation changes nothing when a comment already names the company.\<close>

lemma reconcileMentions_named:
  assumes "maxMentionCount plan = 0" and "list_ex (mentionsCompany company) current"
  shows "reconcileMentions slot company plan current w = (Inr current, w)"
proof -
  from assms(2) have "filter (mentionsCompany company) current \<noteq> []"
    by (simp add: list_ex_iff filter_empty_conv)
  then have "length (filter (mentionsCompany company) current) \<ge> 1"
    by (cases "filter (mentionsCompany company) current") simp_all
  then show ?thesis
    using assms(1) by (simp add: reconcileMentions_def Let_def)
qed

text \<open>
  C5 as stated does not hold. With the default constraints and no preferences, in mock mode the
  reply of a \<open>gives_answers\<close> persona for the company Slideforge is a canned text that names the
  company, and the containment test on the finalized reply is true. The same holds in live mode
  when the reply of the backend names the company and the reply is the one chosen to mention the
  product.
\<close>

theorem mock_reply_names_company_counterexample:
  "mockMode ex_world
   \<and> map content (generatedReplies (generateThreads
        [ex_assigned 0 (ex_persona ''ann'' asks_questions) [ex_persona ''bob'' gives_answers]]
        ex_company 1 None None None ex_world))
     = [''Tried a few options. Slideforge was the one that actually saved me time.'']
   \<and> map (mentionsCompany ex_company) (generatedReplies (generateThreads
        [ex_assigned 0 (ex_persona ''ann'' asks_questions) [ex_persona ''bob'' gives_answers]]
        ex_company 1 None None None ex_world))
     = [True]
   \<and> map (mentionsCompany ex_company) (generatedReplies (generateThreads
        [ex_assigned 0 (ex_persona ''ann'' asks_questions) [ex_persona ''bob'' gives_answers]]
        ex_company 1 None None None ex_named_world))
     = [True]"
  by (simp add: generator_defs generator_ex_defs Let_def showNat.simps digitChar_def
        mockRetry.simps)

text \<open>
  C5, amended. With the default constraints and no preferences, in mock mode and for random
  draws in \<open>[0, 1)\<close>, \<open>generateComments\<close> never fails before its final reconciliation and
  drafts every reply as one of the canned texts of \<open>generateMockComment\<close> for the persona;
  no step removes the company name. When one of the drafted comments names the company, the
  finalized comments are the drafted ones, unchanged, so the containment test on that reply
  is true. (Only when no comment names the company may the reconciliation replace the
  content of a reply, by a reply of the backend.)
\<close>

theorem mock_replies_keep_company_name:
  assumes "mockMode w" and "validRandom w"
  shows "\<exists>plan drafted w1.
           draftComments p slot company None cons risk w = Some (Inr (plan, drafted), w1)
           \<and> list_all2 (\<lambda>r persona. content r \<in> set (mockResponses persona))
                 (take (length (commenterPersonas slot)) drafted) (commenterPersonas slot)
           \<and> (list_ex (mentionsCompany company) drafted
                \<longrightarrow> generateComments p slot company None cons risk w = Some (Inr drafted, w1))"
proof -
  let ?c = "case cons of Some k \<Rightarrow> k | None \<Rightarrow> DEFAULT_CONSTRAINTS"
  from planMentions_default [of p slot risk w]
  obtain plan w1 where planned: "planMentions p slot None risk w = Some (plan, w1)"
    and none: "maxMentionCount plan = 0" and m1: "mockMode w1 = mockMode w"
    and r1: "rnd w1 = rnd w"
    by blast
  have mock1: "mockMode w1" and valid1: "validRandom w1"
    using assms m1 validRandom_rnd [OF r1] by simp_all
  have noClamp: "prefField None maxCommentLength = None"
    by (simp add: prefField_def)
  from replyLoop_mock [OF mock1 valid1 noClamp,
      of p company ?c plan 0 "commenterPersonas slot" "[]" "[]" "scheduledAt p"]
  obtain replies ts1 w2 where
    loop: "replyLoop p company None ?c plan 0 (commenterPersonas slot) [] [] (scheduledAt p) w1
             = (Inr (replies, ts1), w2)"
    and canned: "list_all2 (\<lambda>r persona. content r \<in> set (mockResponses persona)) replies
                   (commenterPersonas slot)"
    and mock2: "mockMode w2"
    by auto
  have len: "length replies = length (commenterPersonas slot)"
    using canned by (rule list_all2_lengthD)
  define w3 where "w3 = w2 \<lparr> rndPos := rndPos w2 + 1 \<rparr>"
  have mock3: "mockMode w3"
    using mock2 by (simp add: w3_def)
  from generateOPFollowUp_mock [OF mock3, of p replies slot company ts1 ?c]
  obtain f w4 where followUp:
    "generateOPFollowUp p replies slot company ts1 ?c w3 = (Inr f, w4)"
    by blast
  define drafted where
    "drafted = (if rnd w2 (rndPos w2) > 1 / 2 \<and> length replies > 0 then replies @ [f] else replies)"
  define w5 where "w5 = (if rnd w2 (rndPos w2) > 1 / 2 \<and> length replies > 0 then w4 else w3)"
  have draft: "draftComments p slot company None cons risk w = Some (Inr (plan, drafted), w5)"
    using planned loop followUp
    by (simp add: draftComments_def Math_random_def w3_def drafted_def w5_def)
  have first: "take (length (commenterPersonas slot)) drafted = replies"
    using len by (simp add: drafted_def)
  have final: "generateComments p slot company None cons risk w = Some (Inr drafted, w5)"
    if "list_ex (mentionsCompany company) drafted"
    using draft reconcileMentions_named [OF none that]
    by (simp add: generateComments_def)
  show ?thesis
    using draft canned first final by auto
qed

lemma ex_mock_draft:
  "map_option (\<lambda>out. map_sum id (\<lambda>(plan, drafted). map content drafted) (fst out))
     (draftComments ex_post
        (ex_assigned 0 (ex_persona ''ann'' asks_questions) [ex_persona ''bob'' gives_answers])
        ex_company None None None ex_world)
   = Some (Inr [''Tried a few options. Slideforge was the one that actually saved me time.''])"
  by (simp add: generator_defs generator_ex_defs ex_post_def Let_def showNat.simps digitChar_def
        mockRetry.simps)

theorem mock_replies_keep_company_name_witness:
  "mockMode ex_world \<and> validRandom ex_world
   \<and> (\<exists>plan drafted w1.
         draftComments ex_post
             (ex_assigned 0 (ex_persona ''ann'' asks_questions) [ex_persona ''bob'' gives_answers])
             ex_company None None None ex_world
           = Some (Inr (plan, drafted), w1)
         \<and> map content drafted
             = [''Tried a few options. Slideforge was the one that actually saved me time.'']
         \<and> list_ex (mentionsCompany ex_company) drafted
         \<and> generateComments ex_post
             (ex_assigned 0 (ex_persona ''ann'' asks_questions) [ex_persona ''bob'' gives_answers])
             ex_company None None None ex_world
           = Some (Inr drafted, w1))"
proof -
  have m: "mockMode ex_world"
    by (simp add: ex_world_def)
  have v: "validRandom ex_world"
    by (simp add: ex_world_def validRandom_def)
  from mock_replies_keep_company_name [OF m v, of ex_post
      "ex_assigned 0 (ex_persona ''ann'' asks_questions) [ex_persona ''bob'' gives_answers]"
      ex_company None None]
  obtain plan drafted w1 where
    draft: "draftComments ex_post
             (ex_assigned 0 (ex_persona ''ann'' asks_questions) [ex_persona ''bob'' gives_answers])
             ex_company None None None ex_world
           = Some (Inr (plan, drafted), w1)"
    and final: "list_ex (mentionsCompany ex_company) drafted
                \<Longrightarrow> generateComments ex_post
                      (ex_assigned 0 (ex_persona ''ann'' asks_questions) [ex_persona ''bob'' gives_answers])
                      ex_company None None None ex_world
                    = Some (Inr drafted, w1)"
    by blast
  have texts: "map content drafted
                 = [''Tried a few options. Slideforge was the one that actually saved me time.'']"
    using ex_mock_draft by (simp add: draft)
  then obtain r where one: "drafted = [r]"
    and canned: "content r = ''Tried a few options. Slideforge was the one that actually saved me time.''"
    by auto
  have named: "list_ex (mentionsCompany ex_company) drafted"
    by (simp add: one mentionsCompany_def canned ex_company_def toLowerCase_def lowerChar_def)
  have "\<exists>w1. draftComments ex_post
             (ex_assigned 0 (ex_persona ''ann'' asks_questions) [ex_persona ''bob'' gives_answers])
             ex_company None None None ex_world
           = Some (Inr (plan, drafted), w1)
         \<and> map content drafted
             = [''Tried a few options. Slideforge was the one that actually saved me time.'']
         \<and> list_ex (mentionsCompany ex_company) drafted
         \<and> generateComments ex_post
             (ex_assigned 0 (ex_persona ''ann'' asks_questions) [ex_persona ''bob'' gives_answers])
             ex_company None None None ex_world
           = Some (Inr drafted, w1)"
    by (rule exI [of _ w1]) (intro conjI draft texts named final [OF named])
  then have "\<exists>drafted w1. draftComments ex_post
             (ex_assigned 0 (ex_persona ''ann'' asks_questions) [ex_persona ''bob'' gives_answers])
             ex_company None None None ex_world
           = Some (Inr (plan, drafted), w1)
         \<and> map content drafted
             = [''Tried a few options. Slideforge was the one that actually saved me time.'']
         \<and> list_ex (mentionsCompany ex_company) drafted
         \<and> generateComments ex_post
             (ex_assigned 0 (ex_persona ''ann'' asks_questions) [ex_persona ''bob'' gives_answers])
             ex_company None None None ex_world
           = Some (Inr drafted, w1)"
    by (rule exI [of _ drafted])
  then have "\<exists>plan drafted w1. draftComments ex_post
             (ex_assigned 0 (ex_persona ''ann'' asks_questions) [ex_persona ''bob'' gives_answers])
             ex_company None None None ex_world
           = Some (Inr (plan, drafted), w1)
         \<and> map content drafted
             = [''Tried a few options. Slideforge was the one that actually saved me time.'']
         \<and> list_ex (mentionsCompany ex_company) drafted
         \<and> generateComments ex_post
             (ex_assigned 0 (ex_persona ''ann'' asks_questions) [ex_persona ''bob'' gives_answers])
             ex_company None None None ex_world
           = Some (Inr drafted, w1)"
    by (rule exI [of _ plan])
  with m v show ?thesis
    by (intro conjI)
qed


section \<open>The quality engine is idempotent\<close>



text \<open>
  A run on one thread whose only reply comes 3 minutes after the post: one timing issue, the
  score 9, two suggestions, and the issue filed under the post.
\<close>

lemmas ex_thread_defs = ex_thread_def ex_comment_def ex_post_def

lemma ex_timing: "checkTimingIssues [ex_thread] = [ex_timing_issue]"
  by (simp add: checkTimingIssues_def timingIssues_def ex_thread_defs ex_timing_issue_def
       shortTitle_def truncate_text_def showInt_def showNat.simps digitChar_def)

lemma ex_no_issues:
  "checkOverposting [ex_thread] = Inr []"
  "checkDuplication ex_rendering [ex_thread] = []"
  "checkPersonaCollisions [ex_thread] = []"
  "checkPersonaBalance ex_rendering [ex_thread] None = []"
  "checkSubredditRules ex_rendering [ex_thread] ex_company None = Inr []"
  by (simp_all add: checkOverposting_def countPosts_def recordPost_def objectPrototypeKeys_def
       objectEntries_def isArrayIndex_def DEFAULT_CONSTRAINTS_def
       checkDuplication_def checkPersonaCollisions_def
       recordThreadInteractions_def recordInteraction_def createPairingKey_def
       checkPersonaBalance_def tallyPost_def averageTally_def checkSubredditRules_def
       ex_thread_defs Let_def)

lemma ex_promo:
  "checkPromotionalContent [ex_thread] ex_company
     = Inr \<lparr> promo_issues = [], promo_warnings = [], promo_warningsByPostId = [] \<rparr>"
  by (simp add: checkPromotionalContent_def promoStep_def promoAssessment_def scanContent_def
       promoKeywords_def matchesAny_def DEFAULT_CONSTRAINTS_def
       toLowerCase_def lowerChar_def ex_company_def ex_thread_defs Let_def)

lemma ex_voice:
  "checkVoiceConsistency ex_rendering [ex_thread]
     = ([], [''Consider using more personas for variety''])"
  by (simp add: checkVoiceConsistency_def collectContent_def addContent_def
       calculateSimilarity_def wordSet_def js_Set_def split_whitespace_def toLowerCase_def
       lowerChar_def isSpace_def ex_thread_defs Let_def)

lemma ex_index:
  "indexIssues [ex_timing_issue] = Inr [(''post_0'', [ex_timing_issue])]"
  by (simp add: indexIssues_def pushOwn_def objectPrototypeKeys_def ex_timing_issue_def)

lemma ex_score: "calculateOverallScore [ex_timing_issue] [] (Suc 0) = 9"
  by (simp add: calculateOverallScore_def js_round_def ex_timing_issue_def)

lemma ex_quality_run:
  "checkQuality ex_rendering ex_config
     = Inr \<lparr> validatedThreads = [ex_thread],
             qc_report =
               \<lparr> report_overallScore = 9,
                 report_issues = [ex_timing_issue],
                 report_warnings = [],
                 report_suggestions = [''Consider using more personas for variety'',
                                       ''Adding more posts per week could improve visibility''],
                 report_issuesByPostId = [(''post_0'', [ex_timing_issue])],
                 report_warningsByPostId = [] \<rparr> \<rparr>"
  by (simp add: checkQuality_def ex_config_def ex_no_issues ex_promo ex_voice ex_timing
       ex_index ex_score Let_def)

end
